theory Spec2Isabelle
  imports Complex_Main "HOL-Library.Log_Nat"
begin

section \<open>Errors and rendering of numbers\<close>

text \<open>
  Every failure of the deployment subsystem is a JavaScript \<open>Error\<close> carrying a
  message; the services never define subclasses, so an error is its message.
\<close>

datatype error = Error (message: string)

text \<open>
  A whole number inside a template literal prints in decimal, with a leading minus sign
  when it is negative.
\<close>

definition digitChar :: "nat \<Rightarrow> char" where
  "digitChar d = ''0123456789'' ! d"

fun decimalDigits :: "nat \<Rightarrow> string" where
  "decimalDigits n = (if 10 \<le> n then decimalDigits (n div 10) else []) @ [digitChar (n mod 10)]"

declare decimalDigits.simps [simp del]

definition numberToString :: "int \<Rightarrow> string" where
  "numberToString i = (if 0 \<le> i then decimalDigits (nat i) else CHR ''-'' # decimalDigits (nat (- i)))"

section \<open>BlockchainDeploymentService: bounded retries with exponential backoff\<close>

text \<open>
  The numeric fields of \<open>DeploymentConfig\<close>; they are whole numbers (seconds, blocks,
  attempts, milliseconds). Its field \<open>gasManager\<close> is carried beside it, as the
  configuration of the gas manager (see \<open>DeploymentService\<close> below).
\<close>

record DeploymentConfig =
  timeoutSeconds :: int
  confirmationBlocks :: int
  maxRetries :: int
  retryDelayMs :: int

text \<open>
  What \<open>retryDeployment\<close> does to the outside world, in order: a call of the
  operation (numbered by the loop variable \<open>attempt\<close>) or a sleep of so many
  milliseconds.
\<close>

datatype retry_event = Attempt int | Sleep int

text \<open>
  \<open>retryDeployment(deployFn)\<close>: the loop \<open>for (attempt = 1; attempt <= maxRetries; attempt++)\<close>.
  The operation has effects, so its outcome may differ from call to call:
  \<open>deployFn attempt\<close> is the outcome of the call made in iteration \<open>attempt\<close>
  (\<open>Inl\<close> when it throws). The loop state is the loop variable, \<open>lastError\<close> and
  the events so far. The delay \<open>retryDelayMs * Math.pow(2, attempt - 1)\<close> is exact: a
  double times a power of two is not rounded. After the loop the wrapper throws
  \<open>Deployment failed after N attempts: <lastError?.message>\<close>.
\<close>

function retryLoop ::
  "DeploymentConfig \<Rightarrow> (int \<Rightarrow> error + 'r) \<Rightarrow> int \<Rightarrow> error option \<Rightarrow> retry_event list
     \<Rightarrow> (error + 'r) \<times> retry_event list" where
  "retryLoop cfg deployFn attempt lastError events =
     (if attempt \<le> maxRetries cfg then
        (case deployFn attempt of
           Inr r \<Rightarrow> (Inr r, events @ [Attempt attempt])
         | Inl e \<Rightarrow>
             retryLoop cfg deployFn (attempt + 1) (Some e)
               (if attempt < maxRetries cfg
                then events @ [Attempt attempt, Sleep (retryDelayMs cfg * 2 ^ nat (attempt - 1))]
                else events @ [Attempt attempt]))
      else
        (Inl (Error (''Deployment failed after '' @ numberToString (maxRetries cfg) @ '' attempts: ''
                      @ (case lastError of None \<Rightarrow> ''undefined'' | Some e \<Rightarrow> message e))),
         events))"
  by pat_completeness auto
termination
  by (relation "measure (\<lambda>(cfg, deployFn, attempt, lastError, events). nat (maxRetries cfg + 1 - attempt))") auto

declare retryLoop.simps [simp del]

definition retryDeployment ::
  "DeploymentConfig \<Rightarrow> (int \<Rightarrow> error + 'r) \<Rightarrow> (error + 'r) \<times> retry_event list" where
  "retryDeployment cfg deployFn = retryLoop cfg deployFn 1 None []"

section \<open>JavaScript numbers\<close>

text \<open>
  A \<open>number\<close> is an IEEE-754 double. A finite double is modelled by the rational it
  denotes, and arithmetic by the exact operation followed by rounding to the nearest
  double, ties to the even significand. \<open>binade x\<close> is the exponent \<open>k\<close> with
  \<open>2^k \<le> x < 2^(k+1)\<close> for a positive \<open>x\<close>; a double carries 53 significant bits,
  and below \<open>2^-1022\<close> the spacing stays at \<open>2^-1074\<close> (subnormal numbers).
\<close>

definition roundHalfEven :: "rat \<Rightarrow> int" where
  "roundHalfEven x =
     (let f = \<lfloor>x\<rfloor>; d = x - of_int f
      in if d < 1 / 2 then f else if 1 / 2 < d then f + 1 else if even f then f else f + 1)"

definition binade :: "rat \<Rightarrow> int" where
  "binade x = (if 1 \<le> x then bitlen \<lfloor>x\<rfloor> - 1 else - bitlen (\<lceil>1 / x\<rceil> - 1))"

definition toDouble :: "rat \<Rightarrow> rat" where
  "toDouble x =
     (if x = 0 then 0
      else let e = max (binade \<bar>x\<bar> - 52) (- 1074)
           in sgn x * of_int (roundHalfEven (\<bar>x\<bar> / 2 powi e)) * 2 powi e)"

text \<open>
  The number an exact value rounds to: \<open>None\<close> when the rounded magnitude reaches
  \<open>2^1024\<close>, where the double is \<open>Infinity\<close> or \<open>-Infinity\<close>. A product with a
  factor that is not finite is not finite either (an infinity or \<open>NaN\<close>).
\<close>

definition toNumber :: "rat \<Rightarrow> rat option" where
  "toNumber x = (let y = toDouble x in if \<bar>y\<bar> < 2 ^ 1024 then Some y else None)"

section \<open>GasManager\<close>

text \<open>
  The big integers of a quote are integers; \<open>totalCostInUSD\<close> is a number, \<open>None\<close>
  when it is not finite. The fields of the configuration are numbers (finite doubles).
\<close>

record GasEstimate =
  gasLimit :: int
  gasPrice :: int
  maxFeePerGas :: int
  maxPriorityFeePerGas :: int
  totalCost :: int
  totalCostInUSD :: "rat option"

record GasConfig =
  priceMultiplier :: rat
  limitMultiplier :: rat
  maxGasPriceGwei :: rat
  minGasPriceGwei :: rat
  ethPriceUSD :: rat

text \<open>
  The ledger provider, as far as the services call it: each field is the outcome of the
  call (\<open>Inl\<close> when the call rejects). \<open>getFeeData\<close> answers with two fields that may
  be \<open>null\<close>; a receipt is asked for by transaction hash, and the answer depends on
  the time (in milliseconds) of the call.
\<close>

record FeeData =
  feeMaxFeePerGas :: "int option"
  feeMaxPriorityFeePerGas :: "int option"

record Receipt =
  receiptHash :: string
  receiptBlockNumber :: int
  receiptGasUsed :: int
  receiptConfirmations :: int
  receiptStatus :: int

record Provider =
  rpcGasPrice :: "error + int"
  rpcFeeData :: "error + FeeData"
  rpcEstimateGas :: "error + int"
  rpcTransactionReceipt :: "string \<Rightarrow> int \<Rightarrow> error + Receipt option"

text \<open>
  \<open>applyMultiplier(value, multiplier)\<close> is \<open>BigInt(Math.ceil(Number(value) * multiplier))\<close>:
  the big integer is rounded to a double, the product is rounded to a double, the
  ceiling of a finite double is exact, and \<open>BigInt\<close> throws a \<open>RangeError\<close> on a
  number that is not finite. The multiplier is a finite double.
\<close>

definition notAnInteger :: error where
  "notAnInteger = Error ''RangeError: the number cannot be converted to a BigInt because it is not an integer''"

definition applyMultiplier :: "int \<Rightarrow> rat \<Rightarrow> error + int" where
  "applyMultiplier v multiplier =
     (case toNumber (of_int v) of
        None \<Rightarrow> Inl notAnInteger
      | Some n \<Rightarrow>
          (case toNumber (n * multiplier) of
             None \<Rightarrow> Inl notAnInteger
           | Some multiplied \<Rightarrow> Inr \<lceil>multiplied\<rceil>))"

definition getGasPrice :: "GasConfig \<Rightarrow> Provider \<Rightarrow> error + int" where
  "getGasPrice config provider =
     (case rpcGasPrice provider of
        Inl e \<Rightarrow> Inl e
      | Inr p \<Rightarrow> applyMultiplier p (priceMultiplier config))"

text \<open>\<open>!feeData.maxFeePerGas\<close> holds for \<open>null\<close> and for \<open>0n\<close>.\<close>

definition falsyBigint :: "int option \<Rightarrow> bool" where
  "falsyBigint v = (case v of None \<Rightarrow> True | Some n \<Rightarrow> n = 0)"

definition getEIP1559Fees :: "GasConfig \<Rightarrow> Provider \<Rightarrow> error + int \<times> int" where
  "getEIP1559Fees config provider =
     (case rpcFeeData provider of
        Inl e \<Rightarrow> Inl e
      | Inr feeData \<Rightarrow>
          if falsyBigint (feeMaxFeePerGas feeData) \<or> falsyBigint (feeMaxPriorityFeePerGas feeData)
          then Inl (Error ''Failed to get EIP-1559 fees'')
          else
            (case applyMultiplier (case feeMaxFeePerGas feeData of Some n \<Rightarrow> n | None \<Rightarrow> 0)
                    (priceMultiplier config) of
               Inl e \<Rightarrow> Inl e
             | Inr maxFee \<Rightarrow>
                 (case applyMultiplier (case feeMaxPriorityFeePerGas feeData of Some n \<Rightarrow> n | None \<Rightarrow> 0)
                         (priceMultiplier config) of
                    Inl e \<Rightarrow> Inl e
                  | Inr maxPriority \<Rightarrow> Inr (maxFee, maxPriority))))"

text \<open>The \<open>try\<close> block covers the provider call and the multiplication alike.\<close>

definition estimateTransactionGas :: "GasConfig \<Rightarrow> Provider \<Rightarrow> int" where
  "estimateTransactionGas config provider =
     (case rpcEstimateGas provider of
        Inl e \<Rightarrow> 300000
      | Inr gasEstimate \<Rightarrow>
          (case applyMultiplier gasEstimate (limitMultiplier config) of
             Inl e \<Rightarrow> 300000
           | Inr limit \<Rightarrow> limit))"

text \<open>
  \<open>Number(ethers.formatEther(totalCost)) * ethPriceUSD\<close>: the decimal string of
  \<open>totalCost / 10^18\<close> is read back as the nearest double and multiplied.
\<close>

definition costInUSD :: "GasConfig \<Rightarrow> int \<Rightarrow> rat option" where
  "costInUSD config cost =
     (case toNumber (of_int cost / 10 ^ 18) of
        None \<Rightarrow> None
      | Some ether \<Rightarrow> toNumber (ether * ethPriceUSD config))"

definition estimateGas :: "GasConfig \<Rightarrow> Provider \<Rightarrow> error + GasEstimate" where
  "estimateGas config provider =
     (let limit = estimateTransactionGas config provider in
      case getEIP1559Fees config provider of
        Inl e \<Rightarrow> Inl e
      | Inr (maxFee, maxPriority) \<Rightarrow>
          (let cost = limit * maxFee;
               costUSD = costInUSD config cost
           in case getGasPrice config provider of
                Inl e \<Rightarrow> Inl e
              | Inr price \<Rightarrow>
                  Inr \<lparr>gasLimit = limit, gasPrice = price, maxFeePerGas = maxFee,
                       maxPriorityFeePerGas = maxPriority, totalCost = cost,
                       totalCostInUSD = costUSD\<rparr>))"

section \<open>BlockchainDeploymentService: validation, submission, confirmation\<close>

text \<open>
  \<open>endTime\<close> is a whole number of seconds and \<open>Date.now()\<close> a whole number of
  milliseconds; the fees are numbers (finite doubles).
\<close>

record BinaryMarketDeployParams =
  title :: string
  description :: string
  endTime :: int
  oracleAddress :: string
  initialLiquidity :: int

record CopyTradingVaultDeployParams =
  leader :: string
  name :: string
  performanceFee :: rat
  managementFee :: rat

record DeploymentResult =
  contractAddress :: string
  transactionHash :: string
  blockNumber :: int
  gasUsed :: int
  deploymentTime :: int
  confirmations :: int

text \<open>
  What one deployment meets outside the service: \<open>ethers.isAddress\<close>, the provider,
  and the outcome of \<open>factory.deploy(...)\<close>, which is the address of the contract and
  the hash of its deployment transaction, or the error the signer or the node raised.
\<close>

record Chain =
  isAddress :: "string \<Rightarrow> bool"
  provider :: Provider
  submitDeploy :: "error + string \<times> string"

text \<open>\<open>s.trim()\<close> removes the white space at both ends.\<close>

definition isWhiteSpace :: "char \<Rightarrow> bool" where
  "isWhiteSpace c = (c \<in> set [CHR '' '', CHR 0x09, CHR 0x0A, CHR 0x0B, CHR 0x0C, CHR 0x0D, CHR 0xA0])"

definition trim :: "string \<Rightarrow> string" where
  "trim s = rev (dropWhile isWhiteSpace (rev (dropWhile isWhiteSpace s)))"

text \<open>
  The validators throw on the first rule that fails; \<open>now\<close> is \<open>Date.now()\<close>, and
  \<open>endTime <= Date.now() / 1000\<close> is compared in milliseconds.
\<close>

definition validateBinaryMarketParams ::
  "(string \<Rightarrow> bool) \<Rightarrow> int \<Rightarrow> BinaryMarketDeployParams \<Rightarrow> error option" where
  "validateBinaryMarketParams isAddr now params =
     (if title params = [] \<or> length (trim (title params)) = 0
        then Some (Error ''Invalid title: must not be empty'')
      else if description params = [] \<or> length (trim (description params)) = 0
        then Some (Error ''Invalid description: must not be empty'')
      else if endTime params * 1000 \<le> now
        then Some (Error ''Invalid endTime: must be in the future'')
      else if \<not> isAddr (oracleAddress params)
        then Some (Error ''Invalid oracleAddress: must be a valid Ethereum address'')
      else if initialLiquidity params \<le> 0
        then Some (Error ''Invalid initialLiquidity: must be greater than 0'')
      else None)"

definition validateCopyTradingVaultParams ::
  "(string \<Rightarrow> bool) \<Rightarrow> CopyTradingVaultDeployParams \<Rightarrow> error option" where
  "validateCopyTradingVaultParams isAddr params =
     (if \<not> isAddr (leader params)
        then Some (Error ''Invalid leader: must be a valid Ethereum address'')
      else if name params = [] \<or> length (trim (name params)) = 0
        then Some (Error ''Invalid name: must not be empty'')
      else if performanceFee params < 0 \<or> performanceFee params > 100
        then Some (Error ''Invalid performanceFee: must be between 0 and 100'')
      else if managementFee params < 0 \<or> managementFee params > 100
        then Some (Error ''Invalid managementFee: must be between 0 and 100'')
      else None)"

text \<open>
  \<open>waitForConfirmation(tx)\<close>: the loop \<open>while (Date.now() - startTime < timeout)\<close>.
  Time is the state: \<open>now\<close> is the clock at the loop test, asking the provider takes no
  time and \<open>sleep(1000)\<close> moves the clock on by 1000 ms. The result carries the clock
  at the end. A receipt is returned whatever its \<open>status\<close>.
\<close>

function waitLoop ::
  "DeploymentConfig \<Rightarrow> (int \<Rightarrow> error + Receipt option) \<Rightarrow> int \<Rightarrow> int \<Rightarrow> (error + Receipt) \<times> int" where
  "waitLoop cfg getReceipt startTime now =
     (if now - startTime < timeoutSeconds cfg * 1000 then
        (case getReceipt now of
           Inl e \<Rightarrow> (Inl e, now)
         | Inr None \<Rightarrow> waitLoop cfg getReceipt startTime (now + 1000)
         | Inr (Some receipt) \<Rightarrow>
             if receiptConfirmations receipt \<ge> confirmationBlocks cfg then (Inr receipt, now)
             else waitLoop cfg getReceipt startTime (now + 1000))
      else
        (Inl (Error (''Deployment timeout after '' @ numberToString (timeoutSeconds cfg) @ '' seconds'')),
         now))"
  by pat_completeness auto
termination
  by (relation "measure (\<lambda>(cfg, getReceipt, startTime, now). nat (startTime + timeoutSeconds cfg * 1000 - now))") auto

declare waitLoop.simps [simp del]

definition waitForConfirmation ::
  "DeploymentConfig \<Rightarrow> Provider \<Rightarrow> string \<Rightarrow> int \<Rightarrow> (error + Receipt) \<times> int" where
  "waitForConfirmation cfg prov txHash now = waitLoop cfg (rpcTransactionReceipt prov txHash) now now"

text \<open>
  The two deployment methods differ in the validator only. After validation:
  gas estimation, \<open>factory.deploy\<close>, the confirmation wait, and the result built from
  the receipt (\<open>receipt.confirmations || 0\<close> is the count itself). The wait returns a
  receipt or throws, so the test \<open>if (!receipt)\<close> after it never fires. \<open>now\<close> is the
  clock when the method is entered; the result carries the clock when it returns or throws.
\<close>

definition deployAfterValidation ::
  "DeploymentConfig \<Rightarrow> GasConfig \<Rightarrow> Chain \<Rightarrow> int \<Rightarrow> (error + DeploymentResult) \<times> int" where
  "deployAfterValidation cfg gasCfg chain now =
     (case estimateGas gasCfg (provider chain) of
        Inl e \<Rightarrow> (Inl e, now)
      | Inr gasEstimate \<Rightarrow>
          (case submitDeploy chain of
             Inl e \<Rightarrow> (Inl e, now)
           | Inr (address, txHash) \<Rightarrow>
               (case waitForConfirmation cfg (provider chain) txHash now of
                  (Inl e, finished) \<Rightarrow> (Inl e, finished)
                | (Inr receipt, finished) \<Rightarrow>
                    (Inr \<lparr>contractAddress = address,
                          transactionHash = receiptHash receipt,
                          blockNumber = receiptBlockNumber receipt,
                          gasUsed = receiptGasUsed receipt,
                          deploymentTime = finished - now,
                          confirmations = receiptConfirmations receipt\<rparr>,
                     finished))))"

definition deployBinaryMarketContract ::
  "DeploymentConfig \<Rightarrow> GasConfig \<Rightarrow> Chain \<Rightarrow> int \<Rightarrow> BinaryMarketDeployParams
     \<Rightarrow> (error + DeploymentResult) \<times> int" where
  "deployBinaryMarketContract cfg gasCfg chain now params =
     (case validateBinaryMarketParams (isAddress chain) now params of
        Some e \<Rightarrow> (Inl e, now)
      | None \<Rightarrow> deployAfterValidation cfg gasCfg chain now)"

definition deployCopyTradingVaultContract ::
  "DeploymentConfig \<Rightarrow> GasConfig \<Rightarrow> Chain \<Rightarrow> int \<Rightarrow> CopyTradingVaultDeployParams
     \<Rightarrow> (error + DeploymentResult) \<times> int" where
  "deployCopyTradingVaultContract cfg gasCfg chain now params =
     (case validateCopyTradingVaultParams (isAddress chain) params of
        Some e \<Rightarrow> (Inl e, now)
      | None \<Rightarrow> deployAfterValidation cfg gasCfg chain now)"

section \<open>AlertService\<close>

datatype AlertLevel = INFO | WARNING | CRITICAL

datatype NotificationChannel = EMAIL | SLACK | SMS

datatype AlertStatus = ACTIVE | ACKNOWLEDGED | RESOLVED

text \<open>
  Values of type \<open>any\<close> (event payloads, metadata entries, audited changes) are
  JSON-like data; a \<open>bigint\<close> is a value of its own kind, not a number.
\<close>

datatype json =
  JNull | JBool bool | JNumber rat | JBigInt int | JString string | JArray "json list"
| JObject "(string \<times> json) list"

record Alert =
  alertId :: string
  alertTitle :: string
  alertDescription :: string
  level :: AlertLevel
  status :: AlertStatus
  timestamp :: int
  source :: string
  metadata :: "(string \<times> json) list option"

text \<open>A rule's predicate returns a boolean or throws.\<close>

datatype verdict = Returns bool | Throws error

record AlertRule =
  ruleId :: string
  ruleName :: string
  condition :: "json \<Rightarrow> verdict"
  ruleLevel :: AlertLevel
  channels :: "NotificationChannel list"
  enabled :: bool

text \<open>
  Of each section of \<open>NotificationConfig\<close> the service reads \<open>?.enabled\<close> only:
  \<open>None\<close> is a section that is absent.
\<close>

record NotificationConfig =
  email :: "bool option"
  slack :: "bool option"
  sms :: "bool option"

text \<open>
  The service's fields, and the runtime it reads: \<open>clock\<close> is the value of
  \<open>Date.now()\<close>, \<open>random k\<close> the string that the \<open>k\<close>-th call of
  \<open>Math.random().toString(36).substr(2, 9)\<close> yields, \<open>drawn\<close> the number of calls so
  far. The map \<open>rules\<close> is kept in insertion order, which is the order of
  \<open>rules.values()\<close>. \<open>sent\<close> lists the notifications sent, by channel and alert id.
\<close>

record AlertService =
  alerts :: "string \<rightharpoonup> Alert"
  rules :: "(string \<times> AlertRule) list"
  notificationConfig :: NotificationConfig
  deduplicationWindow :: int
  lastAlertTime :: "string \<rightharpoonup> int"
  clock :: int
  random :: "nat \<Rightarrow> string"
  drawn :: nat
  sent :: "(NotificationChannel \<times> string) list"

definition createAlertService :: "NotificationConfig \<Rightarrow> int \<Rightarrow> (nat \<Rightarrow> string) \<Rightarrow> AlertService" where
  "createAlertService config now rnd =
     \<lparr>alerts = Map.empty, rules = [], notificationConfig = config, deduplicationWindow = 60000,
      lastAlertTime = Map.empty, clock = now, random = rnd, drawn = 0, sent = []\<rparr>"

definition generateAlertId :: "AlertService \<Rightarrow> string \<times> AlertService" where
  "generateAlertId s =
     (''alert-'' @ numberToString (clock s) @ ''-'' @ random s (drawn s), s\<lparr>drawn := Suc (drawn s)\<rparr>)"

definition createAlert ::
  "string \<Rightarrow> string \<Rightarrow> AlertLevel \<Rightarrow> string \<Rightarrow> (string \<times> json) list option \<Rightarrow> AlertService
     \<Rightarrow> Alert \<times> AlertService" where
  "createAlert ttl descr lvl src meta s =
     (case generateAlertId s of
        (newId, s1) \<Rightarrow>
          (let alert = \<lparr>alertId = newId, alertTitle = ttl, alertDescription = descr, level = lvl,
                         status = ACTIVE, timestamp = clock s1, source = src, metadata = meta\<rparr>
           in (alert, s1\<lparr>alerts := (alerts s1)(newId \<mapsto> alert)\<rparr>)))"

definition deduplicationKey :: "Alert \<Rightarrow> string" where
  "deduplicationKey alert = source alert @ '':'' @ alertTitle alert"

text \<open>\<open>!lastTime\<close> holds when the key has no entry and when the entry is \<open>0\<close>.\<close>

definition shouldTriggerAlert :: "Alert \<Rightarrow> AlertService \<Rightarrow> bool" where
  "shouldTriggerAlert alert s =
     (case lastAlertTime s (deduplicationKey alert) of
        None \<Rightarrow> True
      | Some lastTime \<Rightarrow> if lastTime = 0 then True else clock s - lastTime > deduplicationWindow s)"

definition getChannelsForLevel :: "AlertLevel \<Rightarrow> NotificationChannel list" where
  "getChannelsForLevel lvl =
     (case lvl of CRITICAL \<Rightarrow> [EMAIL, SLACK, SMS] | WARNING \<Rightarrow> [EMAIL, SLACK] | INFO \<Rightarrow> [SLACK])"

definition channelEnabled :: "NotificationConfig \<Rightarrow> NotificationChannel \<Rightarrow> bool" where
  "channelEnabled config channel =
     (case (case channel of EMAIL \<Rightarrow> email config | SLACK \<Rightarrow> slack config | SMS \<Rightarrow> sms config) of
        None \<Rightarrow> False
      | Some b \<Rightarrow> b)"

text \<open>A sender returns \<open>false\<close> when its channel is not enabled, and sends otherwise.\<close>

definition sendNotification :: "Alert \<Rightarrow> NotificationChannel \<Rightarrow> AlertService \<Rightarrow> bool \<times> AlertService" where
  "sendNotification alert channel s =
     (if channelEnabled (notificationConfig s) channel
      then (True, s\<lparr>sent := sent s @ [(channel, alertId alert)]\<rparr>)
      else (False, s))"

fun sendAll :: "Alert \<Rightarrow> NotificationChannel list \<Rightarrow> AlertService \<Rightarrow> bool list \<times> AlertService" where
  "sendAll alert [] s = ([], s)"
| "sendAll alert (channel # rest) s =
     (case sendNotification alert channel s of
        (ok, s1) \<Rightarrow> (case sendAll alert rest s1 of (oks, s2) \<Rightarrow> (ok # oks, s2)))"

definition triggerAlert :: "Alert \<Rightarrow> AlertService \<Rightarrow> bool \<times> AlertService" where
  "triggerAlert alert s =
     (if \<not> shouldTriggerAlert alert s then (False, s)
      else
        (let s1 = s\<lparr>lastAlertTime := (lastAlertTime s)(deduplicationKey alert \<mapsto> clock s)\<rparr>
         in case sendAll alert (getChannelsForLevel (level alert)) s1 of
              (results, s2) \<Rightarrow> (list_all (\<lambda>result. result) results, s2)))"

text \<open>\<open>Map.set\<close> keeps the place of a key that is present and appends a new one.\<close>

fun mapSet :: "string \<Rightarrow> 'v \<Rightarrow> (string \<times> 'v) list \<Rightarrow> (string \<times> 'v) list" where
  "mapSet k v [] = [(k, v)]"
| "mapSet k v ((k', v') # rest) = (if k' = k then (k, v) # rest else (k', v') # mapSet k v rest)"

definition addRule :: "AlertRule \<Rightarrow> AlertService \<Rightarrow> AlertService" where
  "addRule rule s = s\<lparr>rules := mapSet (ruleId rule) rule (rules s)\<rparr>"

definition removeRule :: "string \<Rightarrow> AlertService \<Rightarrow> AlertService" where
  "removeRule rid s = s\<lparr>rules := filter (\<lambda>(k, r). k \<noteq> rid) (rules s)\<rparr>"

text \<open>
  \<open>evaluateRules(data)\<close>: the loop over \<open>rules.values()\<close>. A rule that is not
  enabled is skipped by \<open>continue\<close>; the predicate runs inside \<open>try\<close>, and the
  \<open>catch\<close> logs what it throws and goes on with the next rule.
\<close>

fun evaluateLoop :: "AlertRule list \<Rightarrow> json \<Rightarrow> Alert list \<Rightarrow> AlertService \<Rightarrow> Alert list \<times> AlertService" where
  "evaluateLoop [] data triggeredAlerts s = (triggeredAlerts, s)"
| "evaluateLoop (rule # rest) data triggeredAlerts s =
     (if \<not> enabled rule then evaluateLoop rest data triggeredAlerts s
      else
        (case condition rule data of
           Throws e \<Rightarrow> evaluateLoop rest data triggeredAlerts s
         | Returns False \<Rightarrow> evaluateLoop rest data triggeredAlerts s
         | Returns True \<Rightarrow>
             (case createAlert (ruleName rule) (''Rule triggered: '' @ ruleName rule) (ruleLevel rule)
                     ''rule-engine'' (Some [(''ruleId'', JString (ruleId rule)), (''data'', data)]) s of
                (alert, s1) \<Rightarrow> evaluateLoop rest data (triggeredAlerts @ [alert]) s1)))"

definition evaluateRules :: "json \<Rightarrow> AlertService \<Rightarrow> Alert list \<times> AlertService" where
  "evaluateRules data s = evaluateLoop (map snd (rules s)) data [] s"

section \<open>DeploymentQueueProcessor\<close>

datatype ItemStatus = Pending | Processing | Completed | Failed

text \<open>
  The fields \<open>type\<close> and \<open>params\<close> of a queue item together: the parameters are
  those of the type, and a type the processor does not know is kept by its name.
\<close>

datatype DeploymentRequest =
  BinaryMarket BinaryMarketDeployParams
| CopyTradingVault CopyTradingVaultDeployParams
| UnknownType string

record DeploymentQueueItem =
  itemId :: string
  request :: DeploymentRequest
  itemStatus :: ItemStatus
  retryCount :: int
  itemMaxRetries :: int
  createdAt :: int
  updatedAt :: int
  itemError :: "string option"

definition typeName :: "DeploymentQueueItem \<Rightarrow> string" where
  "typeName item =
     (case request item of
        BinaryMarket p \<Rightarrow> ''BinaryMarket''
      | CopyTradingVault p \<Rightarrow> ''CopyTradingVault''
      | UnknownType t \<Rightarrow> t)"

text \<open>
  The three persistence methods of the processor are placeholders in the source:
  \<open>getQueueItems\<close> returns the empty list and the two writers only log their call. The
  processor is therefore modelled over any job store with state \<open>'st\<close>: a query returns
  items or throws, a writer returns the new state and the error it threw, if any. The
  placeholders are the instance \<open>placeholderStore\<close>, whose state is the log.
\<close>

record 'st JobStore =
  getQueueItems :: "ItemStatus \<Rightarrow> int \<Rightarrow> 'st \<Rightarrow> error + DeploymentQueueItem list"
  updateQueueItemStatus :: "string \<Rightarrow> ItemStatus \<Rightarrow> 'st \<Rightarrow> error option \<times> 'st"
  saveDeploymentResult :: "DeploymentQueueItem \<Rightarrow> DeploymentResult \<Rightarrow> 'st \<Rightarrow> error option \<times> 'st"

datatype StoreLog = StatusUpdated string ItemStatus | ResultSaved string DeploymentResult

definition placeholderStore :: "StoreLog list JobStore" where
  "placeholderStore =
     \<lparr>getQueueItems = (\<lambda>wanted limit written. Inr []),
      updateQueueItemStatus = (\<lambda>item newStatus written. (None, written @ [StatusUpdated item newStatus])),
      saveDeploymentResult = (\<lambda>item result written. (None, written @ [ResultSaved (itemId item) result]))\<rparr>"

text \<open>
  The deployment service as the processor holds it: its configuration, the gas
  manager's, and the chain that the deployment of a given item meets.
\<close>

record DeploymentService =
  config :: DeploymentConfig
  gasManager :: GasConfig
  chainFor :: "DeploymentQueueItem \<Rightarrow> Chain"

record 'st Processor =
  isProcessing :: bool
  batchSize :: int
  store :: 'st
  alertService :: AlertService

definition deployItem :: "DeploymentService \<Rightarrow> DeploymentQueueItem \<Rightarrow> int \<Rightarrow> (error + DeploymentResult) \<times> int" where
  "deployItem svc item now =
     (case request item of
        BinaryMarket params \<Rightarrow>
          deployBinaryMarketContract (config svc) (gasManager svc) (chainFor svc item) now params
      | CopyTradingVault params \<Rightarrow>
          deployCopyTradingVaultContract (config svc) (gasManager svc) (chainFor svc item) now params
      | UnknownType t \<Rightarrow> (Inl (Error (''Unknown deployment type: '' @ t)), now))"

definition markQueueItemFailed ::
  "'st JobStore \<Rightarrow> DeploymentQueueItem \<Rightarrow> string \<Rightarrow> 'st Processor
     \<Rightarrow> error option \<times> DeploymentQueueItem \<times> 'st Processor" where
  "markQueueItemFailed js item err s =
     (case updateQueueItemStatus js (itemId item) Failed (store s) of
        (thrown, st1) \<Rightarrow> (thrown, item\<lparr>itemError := Some err\<rparr>, s\<lparr>store := st1\<rparr>))"

text \<open>
  The \<open>try\<close> block of \<open>processQueueItem\<close>: the result is the error thrown inside it,
  if any, and the state at that point. The deployment starts at the clock's time and
  leaves the clock at the time it ended.
\<close>

definition processQueueItemTry ::
  "'st JobStore \<Rightarrow> DeploymentService \<Rightarrow> DeploymentQueueItem \<Rightarrow> 'st Processor
     \<Rightarrow> error option \<times> 'st Processor" where
  "processQueueItemTry js svc item s =
     (case updateQueueItemStatus js (itemId item) Processing (store s) of
        (Some e, st1) \<Rightarrow> (Some e, s\<lparr>store := st1\<rparr>)
      | (None, st1) \<Rightarrow>
          (case deployItem svc item (clock (alertService s)) of
             (Inl e, finished) \<Rightarrow>
               (Some e, s\<lparr>store := st1, alertService := (alertService s)\<lparr>clock := finished\<rparr>\<rparr>)
           | (Inr result, finished) \<Rightarrow>
               (case saveDeploymentResult js item result st1 of
                  (Some e, st2) \<Rightarrow>
                    (Some e, s\<lparr>store := st2, alertService := (alertService s)\<lparr>clock := finished\<rparr>\<rparr>)
                | (None, st2) \<Rightarrow>
                    (case updateQueueItemStatus js (itemId item) Completed st2 of
                       (Some e, st3) \<Rightarrow>
                         (Some e, s\<lparr>store := st3, alertService := (alertService s)\<lparr>clock := finished\<rparr>\<rparr>)
                     | (None, st3) \<Rightarrow>
                         (None,
                          s\<lparr>store := st3,
                            alertService :=
                              snd (createAlert (typeName item @ '' Deployment Successful'')
                                     (''Contract deployed successfully at '' @ contractAddress result)
                                     INFO ''deployment-queue''
                                     (Some [(''contractAddress'', JString (contractAddress result)),
                                            (''transactionHash'', JString (transactionHash result))])
                                     ((alertService s)\<lparr>clock := finished\<rparr>))\<rparr>)))))"

text \<open>
  \<open>processQueueItem\<close>: the \<open>catch\<close> marks the item failed and creates a warning,
  whatever was thrown. An error thrown inside the \<open>catch\<close> leaves the method.
  The item is returned as the method leaves it (\<open>item.error\<close> is assigned in place).
\<close>

definition processQueueItem ::
  "'st JobStore \<Rightarrow> DeploymentService \<Rightarrow> DeploymentQueueItem \<Rightarrow> 'st Processor
     \<Rightarrow> error option \<times> DeploymentQueueItem \<times> 'st Processor" where
  "processQueueItem js svc item s =
     (case processQueueItemTry js svc item s of
        (None, s1) \<Rightarrow> (None, item, s1)
      | (Some e, s1) \<Rightarrow>
          (case markQueueItemFailed js item (message e) s1 of
             (Some e2, item2, s2) \<Rightarrow> (Some e2, item2, s2)
           | (None, item2, s2) \<Rightarrow>
               (None, item2,
                s2\<lparr>alertService :=
                     snd (createAlert (typeName item @ '' Deployment Failed'')
                            (''Deployment failed: '' @ message e)
                            WARNING ''deployment-queue''
                            (Some [(''queueItemId'', JString (itemId item))])
                            (alertService s2))\<rparr>)))"

definition retryQueueItem ::
  "'st JobStore \<Rightarrow> DeploymentService \<Rightarrow> DeploymentQueueItem \<Rightarrow> 'st Processor
     \<Rightarrow> error option \<times> DeploymentQueueItem \<times> 'st Processor" where
  "retryQueueItem js svc item s = processQueueItem js svc (item\<lparr>retryCount := retryCount item + 1\<rparr>) s"

text \<open>The two loops of \<open>processQueue\<close>; an error thrown by an iteration ends the loop.\<close>

fun processItems ::
  "'st JobStore \<Rightarrow> DeploymentService \<Rightarrow> DeploymentQueueItem list \<Rightarrow> 'st Processor
     \<Rightarrow> error option \<times> 'st Processor" where
  "processItems js svc [] s = (None, s)"
| "processItems js svc (item # rest) s =
     (case processQueueItem js svc item s of
        (Some e, item1, s1) \<Rightarrow> (Some e, s1)
      | (None, item1, s1) \<Rightarrow> processItems js svc rest s1)"

fun retryItems ::
  "'st JobStore \<Rightarrow> DeploymentService \<Rightarrow> DeploymentQueueItem list \<Rightarrow> 'st Processor
     \<Rightarrow> error option \<times> 'st Processor" where
  "retryItems js svc [] s = (None, s)"
| "retryItems js svc (item # rest) s =
     (case (if retryCount item < itemMaxRetries item then retryQueueItem js svc item s
            else markQueueItemFailed js item ''Max retries exceeded'' s) of
        (Some e, item1, s1) \<Rightarrow> (Some e, s1)
      | (None, item1, s1) \<Rightarrow> retryItems js svc rest s1)"

text \<open>The \<open>try\<close> block of \<open>processQueue\<close>, with its early return on an empty batch.\<close>

definition processQueueTry ::
  "'st JobStore \<Rightarrow> DeploymentService \<Rightarrow> 'st Processor \<Rightarrow> error option \<times> 'st Processor" where
  "processQueueTry js svc s =
     (case getQueueItems js Pending (batchSize s) (store s) of
        Inl e \<Rightarrow> (Some e, s)
      | Inr items \<Rightarrow>
          if length items = 0 then (None, s)
          else
            (case processItems js svc items s of
               (Some e, s1) \<Rightarrow> (Some e, s1)
             | (None, s1) \<Rightarrow>
                 (case getQueueItems js Failed (batchSize s1) (store s1) of
                    Inl e \<Rightarrow> (Some e, s1)
                  | Inr failedItems \<Rightarrow> retryItems js svc failedItems s1)))"

text \<open>
  \<open>processQueue\<close>: the guard returns before the \<open>try\<close>; the \<open>catch\<close> creates a
  critical alert; the \<open>finally\<close> clears the flag.
\<close>

definition processQueue :: "'st JobStore \<Rightarrow> DeploymentService \<Rightarrow> 'st Processor \<Rightarrow> 'st Processor" where
  "processQueue js svc s =
     (if isProcessing s then s
      else
        (case processQueueTry js svc (s\<lparr>isProcessing := True\<rparr>) of
           (None, s1) \<Rightarrow> s1\<lparr>isProcessing := False\<rparr>
         | (Some e, s1) \<Rightarrow>
             s1\<lparr>alertService :=
                  snd (createAlert ''Deployment Queue Processing Error''
                         (''Failed to process deployment queue: '' @ message e)
                         CRITICAL ''deployment-queue'' None (alertService s1)),
                isProcessing := False\<rparr>))"

subsection \<open>The suspension points of a batch\<close>

text \<open>
  The processor is driven by a timer: \<open>startDeploymentQueueCron\<close> calls
  \<open>processQueue\<close> from \<open>setInterval\<close>, whether or not the previous call has
  returned. A call is suspended wherever it awaits a store operation or a deployment, and
  a timer callback can run on the processor before the call resumes. The definitions
  below are the methods above with these suspension points made explicit:
  \<open>overlap\<close> is what runs on the processor while a method is suspended (the identity
  when nothing does), applied to the state in which the method began to wait. An unknown
  deployment type throws before anything is awaited, so there is no suspension there;
  \<open>createAlert\<close> and the assignments to the flag are synchronous.
\<close>

definition markQueueItemFailedAsync ::
  "'st JobStore \<Rightarrow> ('st Processor \<Rightarrow> 'st Processor) \<Rightarrow> DeploymentQueueItem \<Rightarrow> string \<Rightarrow> 'st Processor
     \<Rightarrow> error option \<times> DeploymentQueueItem \<times> 'st Processor" where
  "markQueueItemFailedAsync js overlap item err s =
     (let s0 = overlap s in
      case updateQueueItemStatus js (itemId item) Failed (store s0) of
        (thrown, st1) \<Rightarrow> (thrown, item\<lparr>itemError := Some err\<rparr>, s0\<lparr>store := st1\<rparr>))"

definition processQueueItemTryAsync ::
  "'st JobStore \<Rightarrow> DeploymentService \<Rightarrow> ('st Processor \<Rightarrow> 'st Processor) \<Rightarrow> DeploymentQueueItem
     \<Rightarrow> 'st Processor \<Rightarrow> error option \<times> 'st Processor" where
  "processQueueItemTryAsync js svc overlap item s =
     (let s0 = overlap s in
      case updateQueueItemStatus js (itemId item) Processing (store s0) of
        (Some e, st1) \<Rightarrow> (Some e, s0\<lparr>store := st1\<rparr>)
      | (None, st1) \<Rightarrow>
          (let s1 = (case request item of
                       UnknownType t \<Rightarrow> s0\<lparr>store := st1\<rparr>
                     | known \<Rightarrow> overlap (s0\<lparr>store := st1\<rparr>))
           in case deployItem svc item (clock (alertService s1)) of
                (Inl e, finished) \<Rightarrow>
                  (Some e, s1\<lparr>alertService := (alertService s1)\<lparr>clock := finished\<rparr>\<rparr>)
              | (Inr result, finished) \<Rightarrow>
                  (let s2 = overlap (s1\<lparr>alertService := (alertService s1)\<lparr>clock := finished\<rparr>\<rparr>) in
                   case saveDeploymentResult js item result (store s2) of
                     (Some e, st2) \<Rightarrow> (Some e, s2\<lparr>store := st2\<rparr>)
                   | (None, st2) \<Rightarrow>
                       (let s3 = overlap (s2\<lparr>store := st2\<rparr>) in
                        case updateQueueItemStatus js (itemId item) Completed (store s3) of
                          (Some e, st3) \<Rightarrow> (Some e, s3\<lparr>store := st3\<rparr>)
                        | (None, st3) \<Rightarrow>
                            (None,
                             s3\<lparr>store := st3,
                                alertService :=
                                  snd (createAlert (typeName item @ '' Deployment Successful'')
                                         (''Contract deployed successfully at '' @ contractAddress result)
                                         INFO ''deployment-queue''
                                         (Some [(''contractAddress'', JString (contractAddress result)),
                                                (''transactionHash'', JString (transactionHash result))])
                                         (alertService s3))\<rparr>)))))"

definition processQueueItemAsync ::
  "'st JobStore \<Rightarrow> DeploymentService \<Rightarrow> ('st Processor \<Rightarrow> 'st Processor) \<Rightarrow> DeploymentQueueItem
     \<Rightarrow> 'st Processor \<Rightarrow> error option \<times> DeploymentQueueItem \<times> 'st Processor" where
  "processQueueItemAsync js svc overlap item s =
     (case processQueueItemTryAsync js svc overlap item s of
        (None, s1) \<Rightarrow> (None, item, s1)
      | (Some e, s1) \<Rightarrow>
          (case markQueueItemFailedAsync js overlap item (message e) s1 of
             (Some e2, item2, s2) \<Rightarrow> (Some e2, item2, s2)
           | (None, item2, s2) \<Rightarrow>
               (None, item2,
                s2\<lparr>alertService :=
                     snd (createAlert (typeName item @ '' Deployment Failed'')
                            (''Deployment failed: '' @ message e)
                            WARNING ''deployment-queue''
                            (Some [(''queueItemId'', JString (itemId item))])
                            (alertService s2))\<rparr>)))"

definition retryQueueItemAsync ::
  "'st JobStore \<Rightarrow> DeploymentService \<Rightarrow> ('st Processor \<Rightarrow> 'st Processor) \<Rightarrow> DeploymentQueueItem
     \<Rightarrow> 'st Processor \<Rightarrow> error option \<times> DeploymentQueueItem \<times> 'st Processor" where
  "retryQueueItemAsync js svc overlap item s =
     processQueueItemAsync js svc overlap (item\<lparr>retryCount := retryCount item + 1\<rparr>) s"

fun processItemsAsync ::
  "'st JobStore \<Rightarrow> DeploymentService \<Rightarrow> ('st Processor \<Rightarrow> 'st Processor) \<Rightarrow> DeploymentQueueItem list
     \<Rightarrow> 'st Processor \<Rightarrow> error option \<times> 'st Processor" where
  "processItemsAsync js svc overlap [] s = (None, s)"
| "processItemsAsync js svc overlap (item # rest) s =
     (case processQueueItemAsync js svc overlap item s of
        (Some e, item1, s1) \<Rightarrow> (Some e, s1)
      | (None, item1, s1) \<Rightarrow> processItemsAsync js svc overlap rest s1)"

fun retryItemsAsync ::
  "'st JobStore \<Rightarrow> DeploymentService \<Rightarrow> ('st Processor \<Rightarrow> 'st Processor) \<Rightarrow> DeploymentQueueItem list
     \<Rightarrow> 'st Processor \<Rightarrow> error option \<times> 'st Processor" where
  "retryItemsAsync js svc overlap [] s = (None, s)"
| "retryItemsAsync js svc overlap (item # rest) s =
     (case (if retryCount item < itemMaxRetries item then retryQueueItemAsync js svc overlap item s
            else markQueueItemFailedAsync js overlap item ''Max retries exceeded'' s) of
        (Some e, item1, s1) \<Rightarrow> (Some e, s1)
      | (None, item1, s1) \<Rightarrow> retryItemsAsync js svc overlap rest s1)"

definition processQueueTryAsync ::
  "'st JobStore \<Rightarrow> DeploymentService \<Rightarrow> ('st Processor \<Rightarrow> 'st Processor) \<Rightarrow> 'st Processor
     \<Rightarrow> error option \<times> 'st Processor" where
  "processQueueTryAsync js svc overlap s =
     (let s0 = overlap s in
      case getQueueItems js Pending (batchSize s0) (store s0) of
        Inl e \<Rightarrow> (Some e, s0)
      | Inr items \<Rightarrow>
          if length items = 0 then (None, s0)
          else
            (case processItemsAsync js svc overlap items s0 of
               (Some e, s1) \<Rightarrow> (Some e, s1)
             | (None, s1) \<Rightarrow>
                 (let s2 = overlap s1 in
                  case getQueueItems js Failed (batchSize s2) (store s2) of
                    Inl e \<Rightarrow> (Some e, s2)
                  | Inr failedItems \<Rightarrow> retryItemsAsync js svc overlap failedItems s2)))"

definition processQueueAsync ::
  "'st JobStore \<Rightarrow> DeploymentService \<Rightarrow> ('st Processor \<Rightarrow> 'st Processor) \<Rightarrow> 'st Processor \<Rightarrow> 'st Processor" where
  "processQueueAsync js svc overlap s =
     (if isProcessing s then s
      else
        (case processQueueTryAsync js svc overlap (s\<lparr>isProcessing := True\<rparr>) of
           (None, s1) \<Rightarrow> s1\<lparr>isProcessing := False\<rparr>
         | (Some e, s1) \<Rightarrow>
             s1\<lparr>alertService :=
                  snd (createAlert ''Deployment Queue Processing Error''
                         (''Failed to process deployment queue: '' @ message e)
                         CRITICAL ''deployment-queue'' None (alertService s1)),
                isProcessing := False\<rparr>))"

section \<open>MarketResolutionService: the deployment queue in the database\<close>

datatype DeploymentStatus = PENDING | DEPLOYING | DEPLOYED | FAILED

text \<open>
  A row of \<open>contractDeployQueue\<close> and the columns of a \<open>markets\<close> row that the
  deployment functions write. A query for an id that has no row changes nothing.
\<close>

record QueueRow =
  rowId :: int
  marketId :: int
  contractType :: string
  deploymentStatus :: DeploymentStatus
  rowRetryCount :: int
  rowMaxRetries :: int
  lastError :: "string option"
  deployedAddress :: "string option"
  deploymentTx :: "string option"
  rowGasUsed :: "int option"
  rowGasPrice :: "string option"

record MarketRow =
  marketContractAddress :: "string option"
  marketDeploymentStatus :: DeploymentStatus
  lastDeploymentError :: "string option"

record AuditLogEntry =
  eventType :: string
  entityType :: string
  entityId :: int
  changes :: "(string \<times> json) list"

text \<open>
  The database, with the owner's notifications (\<open>notifyOwner\<close>: title and content)
  and the audit log.
\<close>

record Database =
  contractDeployQueue :: "int \<rightharpoonup> QueueRow"
  markets :: "int \<rightharpoonup> MarketRow"
  ownerNotifications :: "(string \<times> string) list"
  auditLogs :: "AuditLogEntry list"

definition updateWhere :: "('k \<rightharpoonup> 'v) \<Rightarrow> 'k \<Rightarrow> ('v \<Rightarrow> 'v) \<Rightarrow> ('k \<rightharpoonup> 'v)" where
  "updateWhere table k f = (case table k of None \<Rightarrow> table | Some row \<Rightarrow> table(k \<mapsto> f row))"

text \<open>
  \<open>JSON.stringify\<close> throws a \<open>TypeError\<close> on a value that holds a \<open>bigint\<close>
  at any depth. \<open>logAudit\<close> calls it on the changes inside its \<open>try\<close>, before the
  insertion, and its \<open>catch\<close> only logs: for such changes no entry is written, and
  nothing is thrown to the caller.
\<close>

fun stringifyThrows :: "json \<Rightarrow> bool" where
  "stringifyThrows (JBigInt n) = True"
| "stringifyThrows (JArray elems) = list_ex stringifyThrows elems"
| "stringifyThrows (JObject entries) = list_ex stringifyThrows (map snd entries)"
| "stringifyThrows other = False"

definition logAudit :: "string \<Rightarrow> string \<Rightarrow> int \<Rightarrow> (string \<times> json) list \<Rightarrow> Database \<Rightarrow> Database" where
  "logAudit ev ent entId chg db =
     (if stringifyThrows (JObject chg) then db
      else db\<lparr>auditLogs := auditLogs db @ [\<lparr>eventType = ev, entityType = ent, entityId = entId, changes = chg\<rparr>]\<rparr>)"

text \<open>
  \<open>handleDeploymentFailure(item, error)\<close>; \<open>item\<close> is the row as it was fetched, and
  \<open>(item.retryCount || 0) + 1\<close> is \<open>item.retryCount + 1\<close> for a count that is a number.
\<close>

definition handleDeploymentFailure :: "QueueRow \<Rightarrow> error \<Rightarrow> Database \<Rightarrow> Database" where
  "handleDeploymentFailure item err db =
     (let newRetryCount = rowRetryCount item + 1 in
      if newRetryCount \<ge> rowMaxRetries item then
        logAudit ''DEPLOYMENT_FAILED'' ''deployment'' (rowId item)
          [(''error'', JString (message err)), (''retries'', JNumber (of_int newRetryCount))]
          (db\<lparr>contractDeployQueue :=
                updateWhere (contractDeployQueue db) (rowId item)
                  (\<lambda>row. row\<lparr>deploymentStatus := FAILED, lastError := Some (message err)\<rparr>),
              markets :=
                updateWhere (markets db) (marketId item)
                  (\<lambda>row. row\<lparr>marketDeploymentStatus := FAILED, lastDeploymentError := Some (message err)\<rparr>),
              ownerNotifications :=
                ownerNotifications db @
                  [(''Deployment Failed'',
                    ''Deployment for market '' @ numberToString (marketId item) @ '' failed after ''
                      @ numberToString newRetryCount @ '' retries: '' @ message err)]\<rparr>)
      else
        db\<lparr>contractDeployQueue :=
             updateWhere (contractDeployQueue db) (rowId item)
               (\<lambda>row. row\<lparr>deploymentStatus := PENDING, rowRetryCount := newRetryCount,
                           lastError := Some (message err)\<rparr>)\<rparr>)"

text \<open>
  What \<open>deployContract\<close> returns. The source's body is a stand-in that always succeeds;
  the outcome of the deployment is a parameter of the model.
\<close>

record ContractDeployment =
  deployedAt :: string
  deployedTx :: string
  deployedGasUsed :: int
  deployedGasPrice :: string

definition processDeploymentItem ::
  "(QueueRow \<Rightarrow> MarketRow \<Rightarrow> error + ContractDeployment) \<Rightarrow> QueueRow \<Rightarrow> Database
     \<Rightarrow> error option \<times> Database" where
  "processDeploymentItem deployContract item db =
     (let db1 = db\<lparr>contractDeployQueue :=
                     updateWhere (contractDeployQueue db) (rowId item)
                       (\<lambda>row. row\<lparr>deploymentStatus := DEPLOYING\<rparr>)\<rparr>
      in case markets db1 (marketId item) of
           None \<Rightarrow> (Some (Error (''Market '' @ numberToString (marketId item) @ '' not found'')), db1)
         | Some market \<Rightarrow>
             (case deployContract item market of
                Inl e \<Rightarrow> (Some e, db1)
              | Inr deploymentResult \<Rightarrow>
                  (None,
                   logAudit ''DEPLOYMENT_SUCCESS'' ''deployment'' (rowId item)
                     [(''marketId'', JBigInt (marketId item)),
                      (''deployedAddress'', JString (deployedAt deploymentResult)),
                      (''deploymentTx'', JString (deployedTx deploymentResult)),
                      (''gasUsed'', JNumber (of_int (deployedGasUsed deploymentResult)))]
                     (db1\<lparr>contractDeployQueue :=
                            updateWhere (contractDeployQueue db1) (rowId item)
                              (\<lambda>row. row\<lparr>deploymentStatus := DEPLOYED,
                                          deployedAddress := Some (deployedAt deploymentResult),
                                          deploymentTx := Some (deployedTx deploymentResult),
                                          rowGasUsed := Some (deployedGasUsed deploymentResult),
                                          rowGasPrice := Some (deployedGasPrice deploymentResult)\<rparr>),
                          markets :=
                            updateWhere (markets db1) (marketId item)
                              (\<lambda>row. row\<lparr>marketContractAddress := Some (deployedAt deploymentResult),
                                          marketDeploymentStatus := DEPLOYED\<rparr>)\<rparr>))))"

text \<open>
  One iteration of the loop of \<open>processDeploymentQueue\<close>, and the loop over the rows
  that the query for \<open>PENDING\<close> returned.
\<close>

definition processPendingRow ::
  "(QueueRow \<Rightarrow> MarketRow \<Rightarrow> error + ContractDeployment) \<Rightarrow> QueueRow \<Rightarrow> Database \<Rightarrow> Database" where
  "processPendingRow deployContract item db =
     (case processDeploymentItem deployContract item db of
        (None, db1) \<Rightarrow> db1
      | (Some e, db1) \<Rightarrow> handleDeploymentFailure item e db1)"

definition processDeploymentQueue ::
  "(QueueRow \<Rightarrow> MarketRow \<Rightarrow> error + ContractDeployment) \<Rightarrow> QueueRow list \<Rightarrow> Database \<Rightarrow> Database" where
  "processDeploymentQueue deployContract pending db =
     fold (processPendingRow deployContract) pending db"

section \<open>Rounding to the nearest double\<close>

lemma roundHalfEven_lower: "x - 1 / 2 \<le> of_int (roundHalfEven x)"
  unfolding roundHalfEven_def Let_def by (auto; linarith)

lemma roundHalfEven_upper: "of_int (roundHalfEven x) \<le> x + 1 / 2"
  unfolding roundHalfEven_def Let_def by (auto; linarith)

lemma roundHalfEven_of_int: "roundHalfEven (of_int n) = n"
  unfolding roundHalfEven_def Let_def by simp

lemma roundHalfEven_mono: "x \<le> y \<Longrightarrow> roundHalfEven x \<le> roundHalfEven y"
proof -
  assume xy: "x \<le> y"
  have fl: "\<lfloor>x\<rfloor> \<le> \<lfloor>y\<rfloor>" using xy by (rule floor_mono)
  show ?thesis
  proof (cases "\<lfloor>x\<rfloor> = \<lfloor>y\<rfloor>")
    case True
    then show ?thesis using xy unfolding roundHalfEven_def Let_def by auto
  next
    case False
    then have lt: "\<lfloor>x\<rfloor> + 1 \<le> \<lfloor>y\<rfloor>" using fl by simp
    have a: "roundHalfEven x \<le> \<lfloor>x\<rfloor> + 1" unfolding roundHalfEven_def Let_def by auto
    have b: "\<lfloor>y\<rfloor> \<le> roundHalfEven y" unfolding roundHalfEven_def Let_def by auto
    from a b lt show ?thesis by linarith
  qed
qed

lemma binade_bounds:
  assumes "0 < x"
  shows "2 powi binade x \<le> x \<and> x < 2 powi (binade x + 1)"
proof (cases "1 \<le> x")
  case True
  then have pos: "0 < \<lfloor>x\<rfloor>" by simp
  from bitlen_bounds[OF pos] have b: "2 ^ nat (bitlen \<lfloor>x\<rfloor> - 1) \<le> \<lfloor>x\<rfloor>" "\<lfloor>x\<rfloor> < 2 ^ nat (bitlen \<lfloor>x\<rfloor>)" by auto
  have ge1: "1 \<le> bitlen \<lfloor>x\<rfloor>" using pos by (simp add: bitlen_alt_def)
  have "(2::rat) powi (bitlen \<lfloor>x\<rfloor> - 1) = 2 ^ nat (bitlen \<lfloor>x\<rfloor> - 1)" using ge1 by (simp add: power_int_def)
  also have "\<dots> = of_int (2 ^ nat (bitlen \<lfloor>x\<rfloor> - 1))" by simp
  also have "\<dots> \<le> of_int \<lfloor>x\<rfloor>" using b(1) by (simp only: of_int_le_iff)
  also have "\<dots> \<le> x" by simp
  finally have lo: "2 powi (bitlen \<lfloor>x\<rfloor> - 1) \<le> x" .
  have "x < of_int (\<lfloor>x\<rfloor> + 1)" by linarith
  also have "\<dots> \<le> of_int (2 ^ nat (bitlen \<lfloor>x\<rfloor>))" using b(2) by (simp only: of_int_le_iff)
  also have "\<dots> = (2::rat) powi (bitlen \<lfloor>x\<rfloor>)" using ge1 by (simp add: power_int_def)
  finally have hi: "x < 2 powi (bitlen \<lfloor>x\<rfloor>)" .
  from lo hi True show ?thesis by (simp add: binade_def)
next
  case False
  then have x1: "x < 1" by simp
  define y where "y = 1 / x"
  have y1: "1 < y" using assms x1 by (simp add: y_def)
  define n where "n = \<lceil>y\<rceil> - 1"
  have npos: "0 < n" using y1 unfolding n_def by linarith
  have ny: "of_int n < y" "y \<le> of_int n + 1" unfolding n_def by linarith+
  define k where "k = bitlen n"
  from bitlen_bounds[OF npos] have b: "2 ^ nat (k - 1) \<le> n" "n < 2 ^ nat k" by (auto simp: k_def)
  have k1: "1 \<le> k" using npos by (simp add: k_def bitlen_alt_def)
  have "(2::rat) ^ nat (k - 1) = of_int (2 ^ nat (k - 1))" by simp
  also have "\<dots> \<le> of_int n" using b(1) by (simp only: of_int_le_iff)
  also have "\<dots> < y" by (rule ny)
  finally have ylo: "(2::rat) ^ nat (k - 1) < y" .
  have "y \<le> of_int (n + 1)" using ny by simp
  also have "\<dots> \<le> of_int (2 ^ nat k)" using b(2) by (simp only: of_int_le_iff)
  also have "\<dots> = (2::rat) ^ nat k" by simp
  finally have yhi: "y \<le> (2::rat) ^ nat k" .
  have xy: "x = 1 / y" using assms by (simp add: y_def)
  have ypos: "0 < y" using y1 by simp
  have lo: "2 powi (- k) \<le> x"
  proof -
    have "(2::rat) powi (- k) = 1 / 2 ^ nat k" using k1 by (simp add: power_int_def field_simps)
    also have "\<dots> \<le> 1 / y" using yhi ypos by (simp add: frac_le)
    finally show ?thesis using xy by simp
  qed
  have hi: "x < 2 powi (- k + 1)"
  proof -
    have "1 / y < 1 / (2::rat) ^ nat (k - 1)" using ylo by (simp add: frac_less2)
    also have "\<dots> = 2 powi (- k + 1)"
    proof (cases "k = 1")
      case True then show ?thesis by simp
    next
      case False
      then have "- k + 1 < 0" using k1 by simp
      then show ?thesis using k1 by (simp add: power_int_def field_simps nat_diff_distrib)
    qed
    finally show ?thesis using xy by simp
  qed
  from lo hi x1 show ?thesis by (simp add: binade_def y_def n_def k_def)
qed

lemma pow2_less_cancel: "(2::rat) powi a < 2 powi b \<Longrightarrow> a < b"
proof (rule ccontr)
  assume lt: "(2::rat) powi a < 2 powi b" and "\<not> a < b"
  then have "b \<le> a" by simp
  then have "(2::rat) powi b \<le> 2 powi a" by (intro power_int_increasing) simp_all
  with lt show False by simp
qed

lemma binade_unique:
  assumes "2 powi k \<le> x" "x < 2 powi (k + 1)"
  shows "binade x = k"
proof -
  have pos: "0 < x" using assms(1) by (rule less_le_trans[rotated]) simp
  from binade_bounds[OF pos] have b: "2 powi binade x \<le> x" "x < 2 powi (binade x + 1)" by auto
  have "(2::rat) powi k < 2 powi (binade x + 1)" using assms(1) b(2) by simp
  then have 1: "k < binade x + 1" by (rule pow2_less_cancel)
  have "(2::rat) powi binade x < 2 powi (k + 1)" using assms(2) b(1) by simp
  then have 2: "binade x < k + 1" by (rule pow2_less_cancel)
  from 1 2 show ?thesis by simp
qed

lemma binade_mono:
  assumes "0 < x" "x \<le> y"
  shows "binade x \<le> binade y"
proof -
  have ypos: "0 < y" using assms by simp
  from binade_bounds[OF assms(1)] binade_bounds[OF ypos]
  have "(2::rat) powi binade x < 2 powi (binade y + 1)" using assms(2) by simp
  then have "binade x < binade y + 1" by (rule pow2_less_cancel)
  then show ?thesis by simp
qed

lemma roundHalfEven_unique:
  "of_int q - 1 / 2 < x \<Longrightarrow> x < of_int q + 1 / 2 \<Longrightarrow> roundHalfEven x = q"
proof -
  assume a: "of_int q - 1 / 2 < x" and b: "x < of_int q + 1 / 2"
  have lo: "x - 1 / 2 \<le> of_int (roundHalfEven x)" by (rule roundHalfEven_lower)
  have hi: "of_int (roundHalfEven x) \<le> x + 1 / 2" by (rule roundHalfEven_upper)
  have "of_int q - 1 < (of_int (roundHalfEven x) :: rat)" using a lo by linarith
  then have 1: "q - 1 < roundHalfEven x" by (metis of_int_1 of_int_diff of_int_less_iff)
  have "(of_int (roundHalfEven x) :: rat) < of_int q + 1" using b hi by linarith
  then have 2: "roundHalfEven x < q + 1" by (metis of_int_1 of_int_add of_int_less_iff)
  from 1 2 show ?thesis by simp
qed

lemma toDouble_pos:
  "0 < x \<Longrightarrow> toDouble x =
     of_int (roundHalfEven (x / 2 powi max (binade x - 52) (- 1074))) * 2 powi max (binade x - 52) (- 1074)"
  by (simp add: toDouble_def Let_def)

lemma toDouble_minus: "toDouble (- x) = - toDouble x"
  by (simp add: toDouble_def Let_def)

lemma roundHalfEven_nonneg: "0 \<le> x \<Longrightarrow> 0 \<le> roundHalfEven x"
  using roundHalfEven_mono[of 0 x] roundHalfEven_of_int[of 0] by simp

lemma toDouble_nonneg: "0 \<le> x \<Longrightarrow> 0 \<le> toDouble x"
proof (cases "x = 0")
  case True then show ?thesis by (simp add: toDouble_def)
next
  case False
  assume "0 \<le> x"
  with False have pos: "0 < x" by simp
  have "0 \<le> roundHalfEven (x / 2 powi max (binade x - 52) (- 1074))"
    using pos by (intro roundHalfEven_nonneg) simp
  then show ?thesis using pos by (simp add: toDouble_pos)
qed

lemma toDouble_mono_pos:
  assumes "0 < x" "x \<le> y"
  shows "toDouble x \<le> toDouble y"
proof -
  have ypos: "0 < y" using assms by simp
  define ex where "ex = max (binade x - 52) (- 1074)"
  define ey where "ey = max (binade y - 52) (- 1074)"
  have tx: "toDouble x = of_int (roundHalfEven (x / 2 powi ex)) * 2 powi ex"
    using assms(1) by (simp add: toDouble_pos ex_def)
  have ty: "toDouble y = of_int (roundHalfEven (y / 2 powi ey)) * 2 powi ey"
    using ypos by (simp add: toDouble_pos ey_def)
  have le: "ex \<le> ey" using binade_mono[OF assms] by (simp add: ex_def ey_def)
  show ?thesis
  proof (cases "ex = ey")
    case True
    have "x / 2 powi ey \<le> y / 2 powi ey" using assms(2) by (simp add: divide_right_mono)
    then have "roundHalfEven (x / 2 powi ey) \<le> roundHalfEven (y / 2 powi ey)" by (rule roundHalfEven_mono)
    then have "(of_int (roundHalfEven (x / 2 powi ey)) :: rat) \<le> of_int (roundHalfEven (y / 2 powi ey))" by simp
    then show ?thesis unfolding tx ty True by (simp add: mult_right_mono)
  next
    case False
    then have lt: "ex + 1 \<le> ey" using le by simp
    then have eyb: "ey = binade y - 52" by (simp add: ey_def ex_def max_def split: if_splits)
    have exb: "binade x - 52 \<le> ex" by (simp add: ex_def)
    from binade_bounds[OF assms(1)] have "x < 2 powi (binade x + 1)" by simp
    also have "\<dots> \<le> 2 powi (ex + 53)" using exb by (intro power_int_increasing) simp_all
    finally have "x < 2 powi (ex + 53)" .
    then have "x / 2 powi ex < 2 powi (ex + 53) / 2 powi ex" by (simp add: divide_strict_right_mono)
    also have "\<dots> = 2 ^ 53" by (simp add: power_int_add)
    finally have "x / 2 powi ex \<le> of_int (2 ^ 53)" by simp
    then have "roundHalfEven (x / 2 powi ex) \<le> roundHalfEven (of_int (2 ^ 53))" by (rule roundHalfEven_mono)
    then have "roundHalfEven (x / 2 powi ex) \<le> 2 ^ 53" by (simp only: roundHalfEven_of_int)
    then have "(of_int (roundHalfEven (x / 2 powi ex)) :: rat) \<le> of_int (2 ^ 53)" by (simp only: of_int_le_iff)
    then have "toDouble x \<le> 2 ^ 53 * 2 powi ex" unfolding tx by (simp add: mult_right_mono)
    also have "\<dots> = 2 powi (ex + 53)" by (simp add: power_int_add)
    also have "\<dots> \<le> 2 powi (ey + 52)" using lt by (intro power_int_increasing) simp_all
    finally have up: "toDouble x \<le> 2 powi (ey + 52)" .
    from binade_bounds[OF ypos] have "2 powi (ey + 52) \<le> y" by (simp add: eyb)
    then have "2 powi (ey + 52) / 2 powi ey \<le> y / 2 powi ey" by (simp add: divide_right_mono)
    moreover have "(2::rat) powi (ey + 52) / 2 powi ey = of_int (2 ^ 52)" by (simp add: power_int_add)
    ultimately have "of_int (2 ^ 52) \<le> y / 2 powi ey" by simp
    then have "roundHalfEven (of_int (2 ^ 52)) \<le> roundHalfEven (y / 2 powi ey)" by (rule roundHalfEven_mono)
    then have "2 ^ 52 \<le> roundHalfEven (y / 2 powi ey)" by (simp only: roundHalfEven_of_int)
    then have "(of_int (2 ^ 52) :: rat) \<le> of_int (roundHalfEven (y / 2 powi ey))" by (simp only: of_int_le_iff)
    then have "2 ^ 52 * 2 powi ey \<le> toDouble y" unfolding ty by (simp add: mult_right_mono)
    moreover have "(2::rat) ^ 52 * 2 powi ey = 2 powi (ey + 52)" by (simp add: power_int_add)
    ultimately have "2 powi (ey + 52) \<le> toDouble y" by simp
    with up show ?thesis by simp
  qed
qed

lemma toDouble_mono: "x \<le> y \<Longrightarrow> toDouble x \<le> toDouble y"
proof -
  assume xy: "x \<le> y"
  consider "0 < x" | "x \<le> 0" "0 \<le> y" | "y < 0" by linarith
  then show ?thesis
  proof cases
    case 1 then show ?thesis using xy by (rule toDouble_mono_pos)
  next
    case 2
    have "0 \<le> toDouble (- x)" using 2(1) by (intro toDouble_nonneg) simp
    then have "toDouble x \<le> 0" by (simp add: toDouble_minus)
    moreover have "0 \<le> toDouble y" using 2(2) by (rule toDouble_nonneg)
    ultimately show ?thesis by simp
  next
    case 3
    have "toDouble (- y) \<le> toDouble (- x)" using 3 xy by (intro toDouble_mono_pos) simp_all
    then show ?thesis by (simp add: toDouble_minus)
  qed
qed

lemma toDouble_round:
  assumes "2 powi (e + 52) \<le> x" "x < 2 powi (e + 53)" "- 1074 \<le> e"
    and "of_int q - 1 / 2 < x / 2 powi e" "x / 2 powi e < of_int q + 1 / 2"
  shows "toDouble x = of_int q * 2 powi e"
proof -
  have pos: "0 < x" using assms(1) by (rule less_le_trans[rotated]) simp
  have b: "binade x = e + 52" using assms(1,2) by (intro binade_unique) (simp_all add: add.commute add.left_commute)
  have m: "max (binade x - 52) (- 1074) = e" using assms(3) b by simp
  show ?thesis using roundHalfEven_unique[OF assms(4,5)] by (simp add: toDouble_pos[OF pos] m)
qed

lemma toDouble_exact_pos:
  assumes "0 < q" "q < 2 ^ 53" "- 1074 \<le> e"
  shows "toDouble (of_int q * 2 powi e) = of_int q * 2 powi e"
proof -
  define x :: rat where "x = of_int q * 2 powi e"
  have pos: "0 < x" using assms(1) by (simp add: x_def)
  define E where "E = max (binade x - 52) (- 1074)"
  have "(of_int q :: rat) < of_int (2 ^ 53)" using assms(2) by (simp only: of_int_less_iff)
  then have "x < 2 ^ 53 * 2 powi e" by (simp add: x_def)
  also have "\<dots> = 2 powi (e + 53)" by (simp add: power_int_add)
  finally have "x < 2 powi (e + 53)" .
  with binade_bounds[OF pos] have "(2::rat) powi binade x < 2 powi (e + 53)" by simp
  then have "binade x < e + 53" by (rule pow2_less_cancel)
  then have Ee: "E \<le> e" using assms(3) by (simp add: E_def)
  have "x / 2 powi E = of_int q * 2 powi (e - E)" by (simp add: x_def power_int_diff)
  also have "\<dots> = of_int q * 2 ^ nat (e - E)" using Ee by (simp add: power_int_def)
  also have "\<dots> = of_int (q * 2 ^ nat (e - E))" by simp
  finally have z: "x / 2 powi E = of_int (q * 2 ^ nat (e - E))" .
  have "toDouble x = of_int (roundHalfEven (x / 2 powi E)) * 2 powi E"
    using pos by (simp add: toDouble_pos E_def)
  also have "\<dots> = (x / 2 powi E) * 2 powi E" by (simp only: z roundHalfEven_of_int)
  also have "\<dots> = x" by simp
  finally show ?thesis by (simp add: x_def)
qed

lemma toDouble_of_int: "\<bar>n\<bar> < 2 ^ 53 \<Longrightarrow> toDouble (of_int n) = of_int n"
proof -
  assume a: "\<bar>n\<bar> < 2 ^ 53"
  consider "n = 0" | "0 < n" | "n < 0" by linarith
  then show ?thesis
  proof cases
    case 1 then show ?thesis by (simp add: toDouble_def)
  next
    case 2
    then show ?thesis using a toDouble_exact_pos[of n 0] by simp
  next
    case 3
    then have "toDouble (of_int (- n)) = of_int (- n)" using a toDouble_exact_pos[of "- n" 0] by simp
    then show ?thesis by (simp add: toDouble_minus)
  qed
qed

lemma toDouble_near:
  assumes "0 \<le> x" "x < 2 ^ 53"
  shows "x - 1 / 2 \<le> toDouble x \<and> toDouble x \<le> x + 1 / 2"
proof (cases "x = 0")
  case True then show ?thesis by (simp add: toDouble_def)
next
  case False
  with assms have pos: "0 < x" by simp
  define E where "E = max (binade x - 52) (- 1074)"
  have "(2::rat) powi binade x < 2 powi 53" using binade_bounds[OF pos] assms(2) by simp
  then have "binade x < 53" by (rule pow2_less_cancel)
  then have E0: "E \<le> 0" by (simp add: E_def)
  then have s1: "(2::rat) powi E \<le> 1" using power_int_increasing[of E 0 "2::rat"] by simp
  have s0: "(0::rat) < 2 powi E" by simp
  define z where "z = x / 2 powi E"
  have xz: "x = z * 2 powi E" by (simp add: z_def)
  have t: "toDouble x = of_int (roundHalfEven z) * 2 powi E"
    using pos by (simp add: toDouble_pos E_def z_def)
  have "(z - 1 / 2) * 2 powi E \<le> of_int (roundHalfEven z) * 2 powi E"
    using roundHalfEven_lower[of z] s0 by (simp add: mult_right_mono)
  moreover have "x - 1 / 2 \<le> (z - 1 / 2) * 2 powi E" using s1 by (simp add: xz algebra_simps)
  ultimately have lo: "x - 1 / 2 \<le> toDouble x" unfolding t by linarith
  have "of_int (roundHalfEven z) * 2 powi E \<le> (z + 1 / 2) * 2 powi E"
    using roundHalfEven_upper[of z] s0 by (simp add: mult_right_mono)
  moreover have "(z + 1 / 2) * 2 powi E \<le> x + 1 / 2" using s1 by (simp add: xz algebra_simps)
  ultimately have hi: "toDouble x \<le> x + 1 / 2" unfolding t by linarith
  from lo hi show ?thesis by simp
qed

lemma applyMultiplier_mono:
  assumes "p1 \<le> p2" "0 \<le> m" "applyMultiplier p1 m = Inr q1" "applyMultiplier p2 m = Inr q2"
  shows "q1 \<le> q2"
proof -
  from assms(3) have q1: "q1 = \<lceil>toDouble (toDouble (of_int p1) * m)\<rceil>"
    by (auto simp: applyMultiplier_def toNumber_def Let_def split: option.splits if_splits)
  from assms(4) have q2: "q2 = \<lceil>toDouble (toDouble (of_int p2) * m)\<rceil>"
    by (auto simp: applyMultiplier_def toNumber_def Let_def split: option.splits if_splits)
  have "toDouble (of_int p1) \<le> toDouble (of_int p2)" using assms(1) by (intro toDouble_mono) simp
  then have "toDouble (of_int p1) * m \<le> toDouble (of_int p2) * m" using assms(2) by (rule mult_right_mono)
  then have "toDouble (toDouble (of_int p1) * m) \<le> toDouble (toDouble (of_int p2) * m)" by (rule toDouble_mono)
  then show ?thesis unfolding q1 q2 by (rule ceiling_mono)
qed

lemma applyMultiplier_small:
  assumes "0 \<le> p" "1 \<le> m" "of_int p * m < 2 ^ 53"
  shows "applyMultiplier p m = Inr \<lceil>toDouble (of_int p * m)\<rceil>"
proof -
  have "(of_int p :: rat) \<le> of_int p * m" using assms(1,2) by (simp add: mult_le_cancel_left1)
  then have "(of_int p :: rat) < of_int (2 ^ 53)" using assms(3) by simp
  then have p53: "p < 2 ^ 53" by (simp only: of_int_less_iff)
  then have ex: "toDouble (of_int p) = of_int p" using assms(1) by (intro toDouble_of_int) simp
  have fin1: "\<bar>of_int p :: rat\<bar> < 2 ^ 1024"
  proof -
    have "(of_int p :: rat) < 2 ^ 53" using p53 by (metis of_int_less_iff of_int_numeral of_int_power)
    also have "\<dots> < 2 ^ 1024" by simp
    finally show ?thesis using assms(1) by simp
  qed
  have nn: "0 \<le> of_int p * m" using assms(1,2) by simp
  from toDouble_near[OF nn assms(3)] have "toDouble (of_int p * m) \<le> of_int p * m + 1 / 2" by simp
  also have "\<dots> < 2 ^ 53 + 1 / 2" using assms(3) by (rule add_strict_right_mono)
  also have "\<dots> < 2 ^ 1024" by simp
  finally have "toDouble (of_int p * m) < 2 ^ 1024" .
  moreover have "0 \<le> toDouble (of_int p * m)" using nn by (rule toDouble_nonneg)
  ultimately have fin2: "\<bar>toDouble (of_int p * m)\<bar> < 2 ^ 1024" by simp
  show ?thesis using fin1 fin2 by (simp add: applyMultiplier_def toNumber_def Let_def ex)
qed

lemma ceiling_toDouble_near:
  assumes "0 \<le> x" "x < 2 ^ 53"
  shows "\<lceil>x\<rceil> - 1 \<le> \<lceil>toDouble x\<rceil> \<and> \<lceil>toDouble x\<rceil> \<le> \<lceil>x\<rceil> + 1"
proof -
  from toDouble_near[OF assms] have lo: "x - 1 / 2 \<le> toDouble x" and hi: "toDouble x \<le> x + 1 / 2" by simp_all
  have "\<lceil>x - 1\<rceil> \<le> \<lceil>toDouble x\<rceil>" using lo by (intro ceiling_mono) linarith
  moreover have "\<lceil>toDouble x\<rceil> \<le> \<lceil>x + 1\<rceil>" using hi by (intro ceiling_mono) linarith
  ultimately show ?thesis by simp
qed

section \<open>Properties of the retry wrapper\<close>

lemma retryLoop_success:
  "\<lbrakk>a \<le> k; k \<le> maxRetries cfg; deployFn k = Inr r; \<forall>j. a \<le> j \<and> j < k \<longrightarrow> isl (deployFn j)\<rbrakk>
   \<Longrightarrow> retryLoop cfg deployFn a le ev =
       (Inr r, ev @ concat (map (\<lambda>j. [Attempt j, Sleep (retryDelayMs cfg * 2 ^ nat (j - 1))]) [a..k - 1]) @ [Attempt k])"
proof (induction "nat (k - a)" arbitrary: a le ev)
  case 0
  then have "a = k" by simp
  with 0 show ?case by (subst retryLoop.simps) simp
next
  case (Suc m)
  then have ak: "a < k" by simp
  with Suc.prems obtain e where e: "deployFn a = Inl e" by (cases "deployFn a") auto
  have up: "[a..k - 1] = a # [a + 1..k - 1]" using ak by (simp add: upto_rec1)
  have m: "m = nat (k - (a + 1))" using Suc.hyps(2) by simp
  have IH: "retryLoop cfg deployFn (a + 1) (Some e) (ev @ [Attempt a, Sleep (retryDelayMs cfg * 2 ^ nat (a - 1))]) =
       (Inr r, (ev @ [Attempt a, Sleep (retryDelayMs cfg * 2 ^ nat (a - 1))]) @ concat (map (\<lambda>j. [Attempt j, Sleep (retryDelayMs cfg * 2 ^ nat (j - 1))]) [a + 1..k - 1]) @ [Attempt k])"
    using Suc.prems ak by (intro Suc.hyps(1)[OF m]) auto
  show ?case using ak Suc.prems(2) e IH up by (subst retryLoop.simps) simp
qed

lemma retryLoop_exhausted:
  "\<lbrakk>a \<le> maxRetries cfg + 1; \<forall>j. a \<le> j \<and> j \<le> maxRetries cfg \<longrightarrow> deployFn j = Inl (errs j)\<rbrakk>
   \<Longrightarrow> retryLoop cfg deployFn a le ev =
       (Inl (Error (''Deployment failed after '' @ numberToString (maxRetries cfg) @ '' attempts: ''
                      @ (if a \<le> maxRetries cfg then message (errs (maxRetries cfg))
                         else (case le of None \<Rightarrow> ''undefined'' | Some e \<Rightarrow> message e)))),
        ev @ concat (map (\<lambda>j. if j < maxRetries cfg then [Attempt j, Sleep (retryDelayMs cfg * 2 ^ nat (j - 1))] else [Attempt j]) [a..maxRetries cfg]))"
proof (induction "nat (maxRetries cfg + 1 - a)" arbitrary: a le ev)
  case 0
  then have "a = maxRetries cfg + 1" by simp
  then show ?case by (subst retryLoop.simps) simp
next
  case (Suc m)
  then have ak: "a \<le> maxRetries cfg" by simp
  with Suc.prems have e: "deployFn a = Inl (errs a)" by auto
  have up: "[a..maxRetries cfg] = a # [a + 1..maxRetries cfg]" using ak by (simp add: upto_rec1)
  have m: "m = nat (maxRetries cfg + 1 - (a + 1))" using Suc.hyps(2) by simp
  note IH = Suc.hyps(1)[OF m, of "Some (errs a)"]
  show ?case
  proof (cases "a < maxRetries cfg")
    case True
    then show ?thesis using ak Suc.prems e up
      by (subst retryLoop.simps) (simp add: IH)
  next
    case False
    then have "a = maxRetries cfg" using ak by simp
    then show ?thesis using e
      by (subst retryLoop.simps, subst retryLoop.simps) simp
  qed
qed

lemma backoff_trace_last:
  "1 \<le> n \<Longrightarrow>
   concat (map (\<lambda>j. if j < n then [Attempt j, Sleep (d * 2 ^ nat (j - 1))] else [Attempt j]) [1..n]) =
   concat (map (\<lambda>j. [Attempt j, Sleep (d * 2 ^ nat (j - 1))]) [1..n - 1]) @ [Attempt n]"
proof -
  assume n: "1 \<le> n"
  have "[1..n] = [1..n - 1] @ [n]" using n by (simp add: upto_rec2)
  moreover have "map (\<lambda>j. if j < n then [Attempt j, Sleep (d * 2 ^ nat (j - 1))] else [Attempt j]) [1..n - 1]
      = map (\<lambda>j. [Attempt j, Sleep (d * 2 ^ nat (j - 1))]) [1..n - 1]"
    by (rule map_cong) auto
  ultimately show ?thesis by (simp only: map_append concat_append list.map concat.simps append_Nil2 if_False less_irrefl)
qed

text \<open>
  Claim C5. With \<open>maxRetries \<ge> 1\<close> and base delay \<open>retryDelayMs = d\<close>:
  if the call of every attempt \<open>1..maxRetries\<close> throws, the wrapper has called the
  operation exactly \<open>maxRetries\<close> times, has slept \<open>d * 2^(attempt-1)\<close> after each
  failed attempt but the last (so \<open>d, 2d, 4d, 8d, ...\<close> in that order), and throws an
  error whose message ends with the message of the last underlying error; and if attempt
  \<open>k\<close> is the first that succeeds, its result is returned after exactly the attempts
  \<open>1..k\<close>, separated by the same delays, and nothing is attempted after it.
\<close>

theorem retryDeployment_backoff:
  assumes "1 \<le> maxRetries cfg"
  shows "((\<forall>j\<in>{1..maxRetries cfg}. deployFn j = Inl (errs j)) \<longrightarrow>
            retryDeployment cfg deployFn =
              (Inl (Error (''Deployment failed after '' @ numberToString (maxRetries cfg) @ '' attempts: ''
                            @ message (errs (maxRetries cfg)))),
               concat (map (\<lambda>j. [Attempt j, Sleep (retryDelayMs cfg * 2 ^ nat (j - 1))])
                         [1..maxRetries cfg - 1]) @ [Attempt (maxRetries cfg)]))
       \<and> (1 \<le> k \<and> k \<le> maxRetries cfg \<and> deployFn k = Inr r \<and> (\<forall>j\<in>{1..<k}. isl (deployFn j)) \<longrightarrow>
            retryDeployment cfg deployFn =
              (Inr r,
               concat (map (\<lambda>j. [Attempt j, Sleep (retryDelayMs cfg * 2 ^ nat (j - 1))]) [1..k - 1])
                 @ [Attempt k]))"
proof (intro conjI impI)
  assume "\<forall>j\<in>{1..maxRetries cfg}. deployFn j = Inl (errs j)"
  then have "\<forall>j. 1 \<le> j \<and> j \<le> maxRetries cfg \<longrightarrow> deployFn j = Inl (errs j)" by simp
  from retryLoop_exhausted[OF _ this, of None "[]"] assms
  show "retryDeployment cfg deployFn =
      (Inl (Error (''Deployment failed after '' @ numberToString (maxRetries cfg) @ '' attempts: ''
                    @ message (errs (maxRetries cfg)))),
       concat (map (\<lambda>j. [Attempt j, Sleep (retryDelayMs cfg * 2 ^ nat (j - 1))])
                 [1..maxRetries cfg - 1]) @ [Attempt (maxRetries cfg)])"
    by (simp add: retryDeployment_def backoff_trace_last)
next
  assume h: "1 \<le> k \<and> k \<le> maxRetries cfg \<and> deployFn k = Inr r \<and> (\<forall>j\<in>{1..<k}. isl (deployFn j))"
  then have "\<forall>j. 1 \<le> j \<and> j < k \<longrightarrow> isl (deployFn j)" by simp
  from retryLoop_success[OF _ _ _ this, of cfg r None "[]"] h
  show "retryDeployment cfg deployFn =
      (Inr r, concat (map (\<lambda>j. [Attempt j, Sleep (retryDelayMs cfg * 2 ^ nat (j - 1))]) [1..k - 1]) @ [Attempt k])"
    by (simp add: retryDeployment_def)
qed

theorem retryDeployment_backoff_witness:
  "retryDeployment \<lparr>timeoutSeconds = 300, confirmationBlocks = 3, maxRetries = 5, retryDelayMs = 1000\<rparr>
       (\<lambda>j. Inl (Error ''rpc down'') :: error + nat) =
     (Inl (Error ''Deployment failed after 5 attempts: rpc down''),
      [Attempt 1, Sleep 1000, Attempt 2, Sleep 2000, Attempt 3, Sleep 4000, Attempt 4, Sleep 8000, Attempt 5])
   \<and> retryDeployment \<lparr>timeoutSeconds = 300, confirmationBlocks = 3, maxRetries = 5, retryDelayMs = 1000\<rparr>
       (\<lambda>j. if j = 3 then Inr (7::nat) else Inl (Error ''rpc down'')) =
     (Inr 7, [Attempt 1, Sleep 1000, Attempt 2, Sleep 2000, Attempt 3])"
proof -
  let ?cfg = "\<lparr>timeoutSeconds = 300, confirmationBlocks = 3, maxRetries = 5, retryDelayMs = 1000\<rparr>"
  let ?f = "\<lambda>j::int. Inl (Error ''rpc down'') :: error + nat"
  let ?g = "\<lambda>j::int. if j = 3 then Inr (7::nat) else Inl (Error ''rpc down'')"
  have n: "1 \<le> maxRetries ?cfg" by simp
  have ups: "[1..4::int] = [1, 2, 3, 4]" "[1..2::int] = [1, 2]"
    by (simp_all add: upto_rec1)
  have s5: "numberToString 5 = ''5''" by code_simp
  have pa: "\<forall>j\<in>{1..maxRetries ?cfg}. ?f j = Inl ((\<lambda>j. Error ''rpc down'') j)" by simp
  have pb: "1 \<le> (3::int) \<and> 3 \<le> maxRetries ?cfg \<and> ?g 3 = Inr 7 \<and> (\<forall>j\<in>{1..<3}. isl (?g j))" by simp
  have a: "retryDeployment ?cfg ?f =
     (Inl (Error ''Deployment failed after 5 attempts: rpc down''),
      [Attempt 1, Sleep 1000, Attempt 2, Sleep 2000, Attempt 3, Sleep 4000, Attempt 4, Sleep 8000, Attempt 5])"
    using retryDeployment_backoff[OF n, THEN conjunct1, THEN mp, OF pa]
    by (simp add: ups s5)
  have b: "retryDeployment ?cfg ?g = (Inr 7, [Attempt 1, Sleep 1000, Attempt 2, Sleep 2000, Attempt 3])"
    using retryDeployment_backoff[OF n, THEN conjunct2, THEN mp, OF pb]
    by (simp add: ups)
  from a b show ?thesis by simp
qed

section \<open>GasManager: the quoted gas price\<close>

lemma applyMultiplier_nonneg:
  assumes "applyMultiplier v m = Inr r" "0 \<le> v" "0 \<le> m"
  shows "0 \<le> r"
proof -
  from assms(1) have r: "r = \<lceil>toDouble (toDouble (of_int v) * m)\<rceil>"
    by (auto simp: applyMultiplier_def toNumber_def Let_def split: option.splits if_splits)
  have "0 \<le> toDouble (of_int v)" using assms(2) by (intro toDouble_nonneg) simp
  then have "0 \<le> toDouble (of_int v) * m" using assms(3) by simp
  then have "0 \<le> toDouble (toDouble (of_int v) * m)" by (rule toDouble_nonneg)
  then have "- 1 < toDouble (toDouble (of_int v) * m)" by linarith
  then show ?thesis unfolding r by (simp only: zero_le_ceiling)
qed

text \<open>
  Claim C7 (amended). Let the provider return the base price \<open>p\<close> and let the configured
  \<open>priceMultiplier\<close> be the double \<open>m > 1\<close>. The quote is monotonically non-decreasing
  in \<open>p\<close>: whenever two quotes are returned for base prices \<open>p1 \<le> p2\<close>, the first is
  at most the second. When \<open>p * m < 2^53\<close>, the quote is the ceiling of the double
  nearest to \<open>p * m\<close>; it differs from the ceiling of \<open>p * m\<close> by at most one, and is
  equal to it when \<open>p * m\<close> is itself a double.
\<close>

theorem getGasPrice_monotone_near_ceiling:
  assumes "1 < priceMultiplier gcfg"
    and "rpcGasPrice prov1 = Inr p1" and "rpcGasPrice prov2 = Inr p2"
    and "0 \<le> p1" and "p1 \<le> p2"
  shows "(getGasPrice gcfg prov1 = Inr q1 \<and> getGasPrice gcfg prov2 = Inr q2 \<longrightarrow> q1 \<le> q2)
       \<and> (of_int p2 * priceMultiplier gcfg < 2 ^ 53 \<longrightarrow>
            getGasPrice gcfg prov2 = Inr \<lceil>toDouble (of_int p2 * priceMultiplier gcfg)\<rceil>
          \<and> \<lceil>of_int p2 * priceMultiplier gcfg\<rceil> - 1 \<le> \<lceil>toDouble (of_int p2 * priceMultiplier gcfg)\<rceil>
          \<and> \<lceil>toDouble (of_int p2 * priceMultiplier gcfg)\<rceil> \<le> \<lceil>of_int p2 * priceMultiplier gcfg\<rceil> + 1
          \<and> (toDouble (of_int p2 * priceMultiplier gcfg) = of_int p2 * priceMultiplier gcfg \<longrightarrow>
                getGasPrice gcfg prov2 = Inr \<lceil>of_int p2 * priceMultiplier gcfg\<rceil>))"
proof (intro conjI impI)
  assume "getGasPrice gcfg prov1 = Inr q1 \<and> getGasPrice gcfg prov2 = Inr q2"
  then have "applyMultiplier p1 (priceMultiplier gcfg) = Inr q1"
    and "applyMultiplier p2 (priceMultiplier gcfg) = Inr q2"
    using assms(2,3) by (simp_all add: getGasPrice_def)
  moreover have "0 \<le> priceMultiplier gcfg" using assms(1) by simp
  ultimately show "q1 \<le> q2" using assms(5) applyMultiplier_mono[of p1 p2 "priceMultiplier gcfg" q1 q2] by blast
next
  assume small: "of_int p2 * priceMultiplier gcfg < 2 ^ 53"
  have p2: "0 \<le> p2" using assms(4,5) by simp
  have m1: "1 \<le> priceMultiplier gcfg" using assms(1) by simp
  show q: "getGasPrice gcfg prov2 = Inr \<lceil>toDouble (of_int p2 * priceMultiplier gcfg)\<rceil>"
    using applyMultiplier_small[OF p2 m1 small] assms(3) by (simp add: getGasPrice_def)
  have nn: "0 \<le> of_int p2 * priceMultiplier gcfg" using p2 m1 by simp
  from ceiling_toDouble_near[OF nn small]
  show "\<lceil>of_int p2 * priceMultiplier gcfg\<rceil> - 1 \<le> \<lceil>toDouble (of_int p2 * priceMultiplier gcfg)\<rceil>"
    and "\<lceil>toDouble (of_int p2 * priceMultiplier gcfg)\<rceil> \<le> \<lceil>of_int p2 * priceMultiplier gcfg\<rceil> + 1"
    by simp_all
  assume "toDouble (of_int p2 * priceMultiplier gcfg) = of_int p2 * priceMultiplier gcfg"
  with q show "getGasPrice gcfg prov2 = Inr \<lceil>of_int p2 * priceMultiplier gcfg\<rceil>" by simp
qed

theorem getGasPrice_monotone_near_ceiling_witness:
  "getGasPrice \<lparr>priceMultiplier = 5404319552844595 / 2 ^ 52, limitMultiplier = 5854679515581645 / 2 ^ 52,
                 maxGasPriceGwei = 500, minGasPriceGwei = 1, ethPriceUSD = 2000\<rparr>
     \<lparr>rpcGasPrice = Inr 20000000000, rpcFeeData = Inl (Error ''not asked''),
      rpcEstimateGas = Inl (Error ''not asked''), rpcTransactionReceipt = (\<lambda>h t. Inr None)\<rparr>
     = Inr 24000000000
   \<and> \<lceil>(20000000000::rat) * (5404319552844595 / 2 ^ 52)\<rceil> = 24000000000"
proof -
  define gcfg where "gcfg = \<lparr>priceMultiplier = 5404319552844595 / 2 ^ 52, limitMultiplier = 5854679515581645 / 2 ^ 52,
                 maxGasPriceGwei = 500, minGasPriceGwei = 1, ethPriceUSD = (2000::rat)\<rparr>"
  define prov1 where "prov1 = \<lparr>rpcGasPrice = Inr 10000000000, rpcFeeData = Inl (Error ''not asked''),
      rpcEstimateGas = Inl (Error ''not asked''), rpcTransactionReceipt = (\<lambda>h t. Inr None)\<rparr>"
  define prov2 where "prov2 = \<lparr>rpcGasPrice = Inr 20000000000, rpcFeeData = Inl (Error ''not asked''),
      rpcEstimateGas = Inl (Error ''not asked''), rpcTransactionReceipt = (\<lambda>h t. Inr None)\<rparr>"
  have pm: "priceMultiplier gcfg = 5404319552844595 / 2 ^ 52" by (simp add: gcfg_def)
  have m: "1 < priceMultiplier gcfg" unfolding pm by simp
  have g1: "rpcGasPrice prov1 = Inr 10000000000" by (simp add: prov1_def)
  have g2: "rpcGasPrice prov2 = Inr 20000000000" by (simp add: prov2_def)
  have nn: "(0::int) \<le> 10000000000" and le: "(10000000000::int) \<le> 20000000000" by simp_all
  have small: "of_int 20000000000 * priceMultiplier gcfg < 2 ^ 53" unfolding pm by simp
  have r: "toDouble (of_int 20000000000 * (5404319552844595 / 2 ^ 52)) = of_int 6291456000000000 * 2 powi (- 18)"
    by (rule toDouble_round) simp_all
  from getGasPrice_monotone_near_ceiling[OF m g1 g2 nn le]
  have "getGasPrice gcfg prov2 = Inr \<lceil>toDouble (of_int 20000000000 * priceMultiplier gcfg)\<rceil>"
    using small by blast
  then have a: "getGasPrice gcfg prov2 = Inr 24000000000" unfolding pm r by simp
  have b: "\<lceil>(20000000000::rat) * (5404319552844595 / 2 ^ 52)\<rceil> = 24000000000"
    by (rule ceiling_unique) simp_all
  from a b show ?thesis unfolding gcfg_def prov2_def by simp
qed

text \<open>
  The quote is not always the ceiling of \<open>p * m\<close>. With the double nearest to 1.3 as
  multiplier (it is slightly above 1.3) and the base price 100000, the exact product is
  slightly above 130000 and its ceiling is 130001, but the product rounds to the double
  130000, which is the quote.
\<close>

theorem getGasPrice_ceiling_counterexample:
  "1 < (5854679515581645 / 2 ^ 52 :: rat)
   \<and> getGasPrice \<lparr>priceMultiplier = 5854679515581645 / 2 ^ 52, limitMultiplier = 5854679515581645 / 2 ^ 52,
                   maxGasPriceGwei = 500, minGasPriceGwei = 1, ethPriceUSD = 2000\<rparr>
       \<lparr>rpcGasPrice = Inr 100000, rpcFeeData = Inl (Error ''not asked''),
        rpcEstimateGas = Inl (Error ''not asked''), rpcTransactionReceipt = (\<lambda>h t. Inr None)\<rparr>
       = Inr 130000
   \<and> \<lceil>(100000::rat) * (5854679515581645 / 2 ^ 52)\<rceil> = 130001"
proof -
  have a: "applyMultiplier 100000 (5854679515581645 / 2 ^ 52) = Inr \<lceil>toDouble (of_int 100000 * (5854679515581645 / 2 ^ 52))\<rceil>"
    by (rule applyMultiplier_small) simp_all
  have b: "toDouble (of_int 100000 * (5854679515581645 / 2 ^ 52)) = of_int 8933531975680000 * 2 powi (- 36)"
    by (rule toDouble_round) simp_all
  have c: "applyMultiplier 100000 (5854679515581645 / 2 ^ 52) = Inr 130000" unfolding a b by simp
  have d: "\<lceil>(100000::rat) * (5854679515581645 / 2 ^ 52)\<rceil> = 130001"
    by (rule ceiling_unique) simp_all
  show ?thesis using c d by (simp add: getGasPrice_def)
qed

section \<open>GasManager: the fee quote\<close>

lemma estimateTransactionGas_nonneg:
  assumes "0 \<le> limitMultiplier gcfg" "case rpcEstimateGas prov of Inl e \<Rightarrow> True | Inr g \<Rightarrow> 0 \<le> g"
  shows "0 \<le> estimateTransactionGas gcfg prov"
proof (cases "rpcEstimateGas prov")
  case (Inl e)
  then show ?thesis by (simp add: estimateTransactionGas_def)
next
  case (Inr g)
  with assms(2) have g: "0 \<le> g" by simp
  show ?thesis
  proof (cases "applyMultiplier g (limitMultiplier gcfg)")
    case (Inl e)
    with Inr show ?thesis by (simp add: estimateTransactionGas_def)
  next
    case r: (Inr l)
    from applyMultiplier_nonneg[OF r g assms(1)] Inr r show ?thesis
      by (simp add: estimateTransactionGas_def)
  qed
qed

lemma estimateGas_fields:
  assumes "estimateGas gcfg prov = Inr q"
  shows "\<exists>fd mf mp p. rpcFeeData prov = Inr fd \<and> feeMaxFeePerGas fd = Some mf \<and> feeMaxPriorityFeePerGas fd = Some mp
           \<and> rpcGasPrice prov = Inr p
           \<and> applyMultiplier mf (priceMultiplier gcfg) = Inr (maxFeePerGas q)
           \<and> applyMultiplier mp (priceMultiplier gcfg) = Inr (maxPriorityFeePerGas q)
           \<and> applyMultiplier p (priceMultiplier gcfg) = Inr (gasPrice q)
           \<and> gasLimit q = estimateTransactionGas gcfg prov
           \<and> totalCost q = estimateTransactionGas gcfg prov * maxFeePerGas q"
  using assms
  by (auto simp: estimateGas_def getEIP1559Fees_def getGasPrice_def falsyBigint_def Let_def
           split: sum.splits option.splits if_splits prod.splits)

text \<open>
  Claim C6 (amended). Every quote that \<open>estimateGas\<close> returns has
  \<open>totalCost = gasLimit * maxFeePerGas\<close>; the legacy \<open>gasPrice\<close> does not enter the
  total. When the two multipliers are non-negative and the provider's gas price, gas
  estimate and fee data are non-negative, the fields \<open>gasLimit\<close>, \<open>gasPrice\<close>,
  \<open>maxFeePerGas\<close>, \<open>maxPriorityFeePerGas\<close> and \<open>totalCost\<close> are non-negative.
\<close>

theorem estimateGas_totalCost:
  assumes "estimateGas gcfg prov = Inr q"
  shows "totalCost q = gasLimit q * maxFeePerGas q
       \<and> (0 \<le> priceMultiplier gcfg \<and> 0 \<le> limitMultiplier gcfg
          \<and> (case rpcGasPrice prov of Inl e \<Rightarrow> True | Inr p \<Rightarrow> 0 \<le> p)
          \<and> (case rpcEstimateGas prov of Inl e \<Rightarrow> True | Inr g \<Rightarrow> 0 \<le> g)
          \<and> (case rpcFeeData prov of
                Inl e \<Rightarrow> True
              | Inr fd \<Rightarrow> (case feeMaxFeePerGas fd of None \<Rightarrow> True | Some n \<Rightarrow> 0 \<le> n)
                        \<and> (case feeMaxPriorityFeePerGas fd of None \<Rightarrow> True | Some n \<Rightarrow> 0 \<le> n))
          \<longrightarrow> 0 \<le> gasLimit q \<and> 0 \<le> gasPrice q \<and> 0 \<le> maxFeePerGas q
              \<and> 0 \<le> maxPriorityFeePerGas q \<and> 0 \<le> totalCost q)"
proof -
  from estimateGas_fields[OF assms] obtain fd mf mp p where
    f: "rpcFeeData prov = Inr fd" "feeMaxFeePerGas fd = Some mf" "feeMaxPriorityFeePerGas fd = Some mp"
       "rpcGasPrice prov = Inr p"
       "applyMultiplier mf (priceMultiplier gcfg) = Inr (maxFeePerGas q)"
       "applyMultiplier mp (priceMultiplier gcfg) = Inr (maxPriorityFeePerGas q)"
       "applyMultiplier p (priceMultiplier gcfg) = Inr (gasPrice q)"
       "gasLimit q = estimateTransactionGas gcfg prov"
       "totalCost q = estimateTransactionGas gcfg prov * maxFeePerGas q"
    by blast
  have eq: "totalCost q = gasLimit q * maxFeePerGas q" using f(8,9) by simp
  have nn: "0 \<le> gasLimit q \<and> 0 \<le> gasPrice q \<and> 0 \<le> maxFeePerGas q
              \<and> 0 \<le> maxPriorityFeePerGas q \<and> 0 \<le> totalCost q"
    if h: "0 \<le> priceMultiplier gcfg" "0 \<le> limitMultiplier gcfg"
          "case rpcGasPrice prov of Inl e \<Rightarrow> True | Inr p \<Rightarrow> 0 \<le> p"
          "case rpcEstimateGas prov of Inl e \<Rightarrow> True | Inr g \<Rightarrow> 0 \<le> g"
          "case rpcFeeData prov of
                Inl e \<Rightarrow> True
              | Inr fd \<Rightarrow> (case feeMaxFeePerGas fd of None \<Rightarrow> True | Some n \<Rightarrow> 0 \<le> n)
                        \<and> (case feeMaxPriorityFeePerGas fd of None \<Rightarrow> True | Some n \<Rightarrow> 0 \<le> n)"
  proof -
    have p: "0 \<le> p" using h(3) f(4) by simp
    have mf: "0 \<le> mf" and mp: "0 \<le> mp" using h(5) f(1,2,3) by simp_all
    have l: "0 \<le> gasLimit q" using estimateTransactionGas_nonneg[OF h(2) h(4)] f(8) by simp
    have a: "0 \<le> gasPrice q" by (rule applyMultiplier_nonneg[OF f(7) p h(1)])
    have b: "0 \<le> maxFeePerGas q" by (rule applyMultiplier_nonneg[OF f(5) mf h(1)])
    have c: "0 \<le> maxPriorityFeePerGas q" by (rule applyMultiplier_nonneg[OF f(6) mp h(1)])
    have d: "0 \<le> totalCost q" unfolding eq using l b by simp
    from l a b c d show ?thesis by simp
  qed
  from eq nn show ?thesis by blast
qed

lemma applyMultiplier_integral:
  assumes "0 \<le> p" "1 \<le> m" "of_int p * m = of_int k" "k < 2 ^ 53"
  shows "applyMultiplier p m = Inr k"
proof -
  have "(of_int k :: rat) < of_int (2 ^ 53)" using assms(4) by (simp only: of_int_less_iff)
  then have small: "of_int p * m < 2 ^ 53" using assms(3) by simp
  have "0 \<le> of_int p * m" using assms(1,2) by simp
  then have "(0::rat) \<le> of_int k" using assms(3) by simp
  then have "0 \<le> k" by (simp only: of_int_0_le_iff)
  then have "toDouble (of_int k) = of_int k" using assms(4) by (intro toDouble_of_int) simp
  then show ?thesis using applyMultiplier_small[OF assms(1,2) small] by (simp add: assms(3))
qed

lemma estimateGas_example:
  "estimateGas \<lparr>priceMultiplier = 3 / 2, limitMultiplier = 5 / 4, maxGasPriceGwei = 500,
                 minGasPriceGwei = 1, ethPriceUSD = 2000\<rparr>
     \<lparr>rpcGasPrice = Inr 50,
      rpcFeeData = Inr \<lparr>feeMaxFeePerGas = Some 30, feeMaxPriorityFeePerGas = Some 2\<rparr>,
      rpcEstimateGas = Inr 100000, rpcTransactionReceipt = receipts\<rparr>
   = Inr \<lparr>gasLimit = 125000, gasPrice = 75, maxFeePerGas = 45, maxPriorityFeePerGas = 3,
          totalCost = 5625000,
          totalCostInUSD = costInUSD \<lparr>priceMultiplier = 3 / 2, limitMultiplier = 5 / 4, maxGasPriceGwei = 500,
                 minGasPriceGwei = 1, ethPriceUSD = 2000\<rparr> 5625000\<rparr>"
proof -
  have a: "applyMultiplier 50 (3 / 2) = Inr 75" by (rule applyMultiplier_integral) simp_all
  have b: "applyMultiplier 30 (3 / 2) = Inr 45" by (rule applyMultiplier_integral) simp_all
  have c: "applyMultiplier 2 (3 / 2) = Inr 3" by (rule applyMultiplier_integral) simp_all
  have d: "applyMultiplier 100000 (5 / 4) = Inr 125000" by (rule applyMultiplier_integral) simp_all
  show ?thesis
    by (simp add: estimateGas_def estimateTransactionGas_def getEIP1559Fees_def getGasPrice_def
          falsyBigint_def Let_def a b c d)
qed

theorem estimateGas_totalCost_witness:
  "estimateGas \<lparr>priceMultiplier = 3 / 2, limitMultiplier = 5 / 4, maxGasPriceGwei = 500,
                 minGasPriceGwei = 1, ethPriceUSD = 2000\<rparr>
     \<lparr>rpcGasPrice = Inr 50,
      rpcFeeData = Inr \<lparr>feeMaxFeePerGas = Some 30, feeMaxPriorityFeePerGas = Some 2\<rparr>,
      rpcEstimateGas = Inr 100000, rpcTransactionReceipt = (\<lambda>h t. Inr None)\<rparr>
   = Inr \<lparr>gasLimit = 125000, gasPrice = 75, maxFeePerGas = 45, maxPriorityFeePerGas = 3,
          totalCost = 5625000,
          totalCostInUSD = costInUSD \<lparr>priceMultiplier = 3 / 2, limitMultiplier = 5 / 4, maxGasPriceGwei = 500,
                 minGasPriceGwei = 1, ethPriceUSD = 2000\<rparr> 5625000\<rparr>
   \<and> (5625000::int) = 125000 * 45
   \<and> (0::int) \<le> 125000 \<and> (0::int) \<le> 75 \<and> (0::int) \<le> 45 \<and> (0::int) \<le> 3 \<and> (0::int) \<le> 5625000"
  using estimateGas_totalCost[OF estimateGas_example[of "\<lambda>h t. Inr None"]]
    estimateGas_example[of "\<lambda>h t. Inr None"] by simp

text \<open>
  The total is not \<open>gasLimit * max(gasPrice, maxFeePerGas)\<close>: with a legacy gas price of
  50 and a fee-market maximum of 30, both multiplied by 1.5, the quote has
  \<open>gasPrice = 75\<close> and \<open>maxFeePerGas = 45\<close>, and its total is \<open>125000 * 45\<close>.
\<close>

theorem estimateGas_totalCost_counterexample:
  "estimateGas \<lparr>priceMultiplier = 3 / 2, limitMultiplier = 5 / 4, maxGasPriceGwei = 500,
                 minGasPriceGwei = 1, ethPriceUSD = 2000\<rparr>
     \<lparr>rpcGasPrice = Inr 50,
      rpcFeeData = Inr \<lparr>feeMaxFeePerGas = Some 30, feeMaxPriorityFeePerGas = Some 2\<rparr>,
      rpcEstimateGas = Inr 100000, rpcTransactionReceipt = (\<lambda>h t. Inr None)\<rparr>
   = Inr \<lparr>gasLimit = 125000, gasPrice = 75, maxFeePerGas = 45, maxPriorityFeePerGas = 3,
          totalCost = 5625000,
          totalCostInUSD = costInUSD \<lparr>priceMultiplier = 3 / 2, limitMultiplier = 5 / 4, maxGasPriceGwei = 500,
                 minGasPriceGwei = 1, ethPriceUSD = 2000\<rparr> 5625000\<rparr>
   \<and> (5625000::int) \<noteq> 125000 * max 75 45"
  using estimateGas_example[of "\<lambda>h t. Inr None"] by simp

section \<open>BlockchainDeploymentService: the confirmation wait\<close>

text \<open>
  The wait returns a receipt only from a poll made before the timeout, and only one with
  the required confirmations; it throws either the timeout error, once the time is up,
  or what the provider threw; and it returns the first confirmed receipt that a poll
  within the time obtains.
\<close>

lemma waitLoop_returns_confirmed:
  "waitLoop cfg getReceipt startTime now = (Inr receipt, finished) \<Longrightarrow>
     now \<le> finished \<and> finished - startTime < timeoutSeconds cfg * 1000
     \<and> getReceipt finished = Inr (Some receipt)
     \<and> confirmationBlocks cfg \<le> receiptConfirmations receipt"
proof (induction cfg getReceipt startTime now rule: waitLoop.induct)
  case (1 cfg getReceipt startTime now)
  show ?case
  proof (cases "now - startTime < timeoutSeconds cfg * 1000")
    case False
    with "1.prems" show ?thesis by (subst (asm) waitLoop.simps) simp
  next
    case inTime: True
    show ?thesis
    proof (cases "getReceipt now")
      case (Inl e)
      with inTime "1.prems" show ?thesis by (subst (asm) waitLoop.simps) simp
    next
      case (Inr answer)
      show ?thesis
      proof (cases answer)
        case None
        with Inr inTime "1.prems" have "waitLoop cfg getReceipt startTime (now + 1000) = (Inr receipt, finished)"
          by (subst (asm) waitLoop.simps) simp
        from "1.IH"(1)[OF inTime Inr None this] show ?thesis by simp
      next
        case (Some r)
        show ?thesis
        proof (cases "confirmationBlocks cfg \<le> receiptConfirmations r")
          case True
          with Some Inr inTime "1.prems" show ?thesis by (subst (asm) waitLoop.simps) auto
        next
          case False
          with Some Inr inTime "1.prems" have "waitLoop cfg getReceipt startTime (now + 1000) = (Inr receipt, finished)"
            by (subst (asm) waitLoop.simps) simp
          from "1.IH"(2)[OF inTime Inr Some False this] show ?thesis by simp
        qed
      qed
    qed
  qed
qed

lemma waitLoop_throws:
  "waitLoop cfg getReceipt startTime now = (Inl e, finished) \<Longrightarrow>
     (e = Error (''Deployment timeout after '' @ numberToString (timeoutSeconds cfg) @ '' seconds'')
        \<and> timeoutSeconds cfg * 1000 \<le> finished - startTime)
     \<or> getReceipt finished = Inl e"
proof (induction cfg getReceipt startTime now rule: waitLoop.induct)
  case (1 cfg getReceipt startTime now)
  show ?case
  proof (cases "now - startTime < timeoutSeconds cfg * 1000")
    case False
    with "1.prems" show ?thesis by (subst (asm) waitLoop.simps) auto
  next
    case inTime: True
    show ?thesis
    proof (cases "getReceipt now")
      case (Inl e')
      with inTime "1.prems" show ?thesis by (subst (asm) waitLoop.simps) auto
    next
      case (Inr answer)
      show ?thesis
      proof (cases answer)
        case None
        with Inr inTime "1.prems" have "waitLoop cfg getReceipt startTime (now + 1000) = (Inl e, finished)"
          by (subst (asm) waitLoop.simps) simp
        from "1.IH"(1)[OF inTime Inr None this] show ?thesis .
      next
        case (Some r)
        show ?thesis
        proof (cases "confirmationBlocks cfg \<le> receiptConfirmations r")
          case True
          with Some Inr inTime "1.prems" show ?thesis by (subst (asm) waitLoop.simps) auto
        next
          case False
          with Some Inr inTime "1.prems" have "waitLoop cfg getReceipt startTime (now + 1000) = (Inl e, finished)"
            by (subst (asm) waitLoop.simps) simp
          from "1.IH"(2)[OF inTime Inr Some False this] show ?thesis .
        qed
      qed
    qed
  qed
qed

lemma waitLoop_first_confirmed:
  "\<lbrakk>\<forall>j<k. getReceipt (now + 1000 * int j) = Inr None
            \<or> (\<exists>r. getReceipt (now + 1000 * int j) = Inr (Some r)
                    \<and> receiptConfirmations r < confirmationBlocks cfg);
    getReceipt (now + 1000 * int k) = Inr (Some receipt);
    confirmationBlocks cfg \<le> receiptConfirmations receipt;
    now + 1000 * int k - startTime < timeoutSeconds cfg * 1000\<rbrakk>
   \<Longrightarrow> waitLoop cfg getReceipt startTime now = (Inr receipt, now + 1000 * int k)"
proof (induction k arbitrary: now)
  case 0
  then show ?case by (subst waitLoop.simps) simp
next
  case (Suc k)
  have inTime: "now - startTime < timeoutSeconds cfg * 1000" using Suc.prems(4) by simp
  have shift: "now + 1000 * int (Suc k) = (now + 1000) + 1000 * int k" by simp
  have "\<forall>j<k. getReceipt ((now + 1000) + 1000 * int j) = Inr None
            \<or> (\<exists>r. getReceipt ((now + 1000) + 1000 * int j) = Inr (Some r)
                    \<and> receiptConfirmations r < confirmationBlocks cfg)"
  proof (intro allI impI)
    fix j assume "j < k"
    then have "Suc j < Suc k" by simp
    with Suc.prems(1) have "getReceipt (now + 1000 * int (Suc j)) = Inr None
            \<or> (\<exists>r. getReceipt (now + 1000 * int (Suc j)) = Inr (Some r)
                    \<and> receiptConfirmations r < confirmationBlocks cfg)" by blast
    moreover have "now + 1000 * int (Suc j) = (now + 1000) + 1000 * int j" by simp
    ultimately show "getReceipt ((now + 1000) + 1000 * int j) = Inr None
            \<or> (\<exists>r. getReceipt ((now + 1000) + 1000 * int j) = Inr (Some r)
                    \<and> receiptConfirmations r < confirmationBlocks cfg)" by (simp add: add.assoc)
  qed
  from Suc.IH[OF this] Suc.prems(2,3,4)
  have rec: "waitLoop cfg getReceipt startTime (now + 1000) = (Inr receipt, now + 1000 * int (Suc k))"
    unfolding shift by simp
  from Suc.prems(1) have "getReceipt (now + 1000 * int 0) = Inr None
            \<or> (\<exists>r. getReceipt (now + 1000 * int 0) = Inr (Some r)
                    \<and> receiptConfirmations r < confirmationBlocks cfg)" by blast
  then have first: "getReceipt now = Inr None
            \<or> (\<exists>r. getReceipt now = Inr (Some r) \<and> receiptConfirmations r < confirmationBlocks cfg)"
    by simp
  then show ?case
  proof
    assume "getReceipt now = Inr None"
    then show ?thesis using inTime rec by (subst waitLoop.simps) simp
  next
    assume "\<exists>r. getReceipt now = Inr (Some r) \<and> receiptConfirmations r < confirmationBlocks cfg"
    then obtain r where "getReceipt now = Inr (Some r)" "receiptConfirmations r < confirmationBlocks cfg" by blast
    then show ?thesis using inTime rec by (subst waitLoop.simps) simp
  qed
qed

lemma waitLoop_first_poll:
  "\<lbrakk>0 < timeoutSeconds cfg; getReceipt now = Inr (Some receipt);
    confirmationBlocks cfg \<le> receiptConfirmations receipt\<rbrakk>
   \<Longrightarrow> waitLoop cfg getReceipt now now = (Inr receipt, now)"
  by (subst waitLoop.simps) simp

text \<open>
  Claim C3 (the code at the failing input). The wait never reads \<open>receipt.status\<close>: a
  receipt of a reverted transaction (\<open>status = 0\<close>) that has the required
  confirmations is returned as a success, and the deployment method returns a result
  for it.
\<close>

theorem waitForConfirmation_reverted_receipt:
  "waitForConfirmation
       \<lparr>timeoutSeconds = 300, confirmationBlocks = 3, maxRetries = 3, retryDelayMs = 1000\<rparr>
       \<lparr>rpcGasPrice = Inr 50,
        rpcFeeData = Inr \<lparr>feeMaxFeePerGas = Some 30, feeMaxPriorityFeePerGas = Some 2\<rparr>,
        rpcEstimateGas = Inr 100000,
        rpcTransactionReceipt = (\<lambda>h t. Inr (Some \<lparr>receiptHash = h, receiptBlockNumber = 7,
           receiptGasUsed = 90000, receiptConfirmations = 3, receiptStatus = 0\<rparr>))\<rparr>
       ''0xABCD'' 1000
     = (Inr \<lparr>receiptHash = ''0xABCD'', receiptBlockNumber = 7, receiptGasUsed = 90000,
              receiptConfirmations = 3, receiptStatus = 0\<rparr>, 1000)
   \<and> deployBinaryMarketContract
       \<lparr>timeoutSeconds = 300, confirmationBlocks = 3, maxRetries = 3, retryDelayMs = 1000\<rparr>
       \<lparr>priceMultiplier = 3 / 2, limitMultiplier = 5 / 4, maxGasPriceGwei = 500,
        minGasPriceGwei = 1, ethPriceUSD = 2000\<rparr>
       \<lparr>isAddress = (\<lambda>a. length a = 42 \<and> take 2 a = ''0x''),
        provider = \<lparr>rpcGasPrice = Inr 50,
                    rpcFeeData = Inr \<lparr>feeMaxFeePerGas = Some 30, feeMaxPriorityFeePerGas = Some 2\<rparr>,
                    rpcEstimateGas = Inr 100000,
                    rpcTransactionReceipt = (\<lambda>h t. Inr (Some \<lparr>receiptHash = h, receiptBlockNumber = 7,
                       receiptGasUsed = 90000, receiptConfirmations = 3, receiptStatus = 0\<rparr>))\<rparr>,
        submitDeploy = Inr (''0xC0FFEE'', ''0xABCD'')\<rparr>
       1000
       \<lparr>title = ''Final 2026'', description = ''Who wins'', endTime = 2000,
        oracleAddress = ''0x52908400098527886E0F7030069857D2E4169EE7'', initialLiquidity = 5\<rparr>
     = (Inr \<lparr>contractAddress = ''0xC0FFEE'', transactionHash = ''0xABCD'', blockNumber = 7,
              gasUsed = 90000, deploymentTime = 0, confirmations = 3\<rparr>, 1000)"
proof -
  have v: "validateBinaryMarketParams (\<lambda>a. length a = 42 \<and> take 2 a = ''0x'') 1000
       \<lparr>title = ''Final 2026'', description = ''Who wins'', endTime = 2000,
        oracleAddress = ''0x52908400098527886E0F7030069857D2E4169EE7'', initialLiquidity = 5\<rparr> = None"
    by (simp add: validateBinaryMarketParams_def trim_def isWhiteSpace_def)
  show ?thesis
    by (simp add: v deployBinaryMarketContract_def deployAfterValidation_def estimateGas_example
          waitForConfirmation_def waitLoop_first_poll)
qed

section \<open>BlockchainDeploymentService: validation of the vault parameters\<close>

text \<open>
  Claim C8 (the code at the failing input). The validator bounds each fee by 100 and
  never adds them: a vault with a performance fee of 60 and a management fee of 60
  passes validation, and its deployment is submitted and returns a result.
\<close>

theorem validateCopyTradingVaultParams_fee_sum:
  "validateCopyTradingVaultParams (\<lambda>a. length a = 42 \<and> take 2 a = ''0x'')
     \<lparr>leader = ''0x52908400098527886E0F7030069857D2E4169EE7'', name = ''Alpha Vault'',
      performanceFee = 60, managementFee = 60\<rparr> = None
   \<and> deployCopyTradingVaultContract
       \<lparr>timeoutSeconds = 300, confirmationBlocks = 3, maxRetries = 3, retryDelayMs = 1000\<rparr>
       \<lparr>priceMultiplier = 3 / 2, limitMultiplier = 5 / 4, maxGasPriceGwei = 500,
        minGasPriceGwei = 1, ethPriceUSD = 2000\<rparr>
       \<lparr>isAddress = (\<lambda>a. length a = 42 \<and> take 2 a = ''0x''),
        provider = \<lparr>rpcGasPrice = Inr 50,
                    rpcFeeData = Inr \<lparr>feeMaxFeePerGas = Some 30, feeMaxPriorityFeePerGas = Some 2\<rparr>,
                    rpcEstimateGas = Inr 100000,
                    rpcTransactionReceipt = (\<lambda>h t. Inr (Some \<lparr>receiptHash = h, receiptBlockNumber = 7,
                       receiptGasUsed = 90000, receiptConfirmations = 3, receiptStatus = 1\<rparr>))\<rparr>,
        submitDeploy = Inr (''0xC0FFEE'', ''0xABCD'')\<rparr>
       1000
       \<lparr>leader = ''0x52908400098527886E0F7030069857D2E4169EE7'', name = ''Alpha Vault'',
        performanceFee = 60, managementFee = 60\<rparr>
     = (Inr \<lparr>contractAddress = ''0xC0FFEE'', transactionHash = ''0xABCD'', blockNumber = 7,
              gasUsed = 90000, deploymentTime = 0, confirmations = 3\<rparr>, 1000)"
proof -
  have v: "validateCopyTradingVaultParams (\<lambda>a. length a = 42 \<and> take 2 a = ''0x'')
     \<lparr>leader = ''0x52908400098527886E0F7030069857D2E4169EE7'', name = ''Alpha Vault'',
      performanceFee = 60, managementFee = 60\<rparr> = None"
    by (simp add: validateCopyTradingVaultParams_def trim_def isWhiteSpace_def)
  show ?thesis
    by (simp add: v deployCopyTradingVaultContract_def deployAfterValidation_def estimateGas_example
          waitForConfirmation_def waitLoop_first_poll)
qed

section \<open>AlertService: deduplication\<close>

lemma sendAll_result:
  "sendAll alert chs s =
     (map (channelEnabled (notificationConfig s)) chs,
      s\<lparr>sent := sent s @ map (\<lambda>c. (c, alertId alert)) (filter (channelEnabled (notificationConfig s)) chs)\<rparr>)"
proof (induction chs arbitrary: s)
  case Nil
  show ?case by simp
next
  case (Cons c chs)
  show ?case by (simp add: sendNotification_def Cons.IH)
qed

lemma triggerAlert_dispatched:
  "shouldTriggerAlert alert s \<Longrightarrow>
   triggerAlert alert s =
     (list_all (channelEnabled (notificationConfig s)) (getChannelsForLevel (level alert)),
      s\<lparr>lastAlertTime := (lastAlertTime s)(deduplicationKey alert \<mapsto> clock s),
        sent := sent s @ map (\<lambda>c. (c, alertId alert))
                  (filter (channelEnabled (notificationConfig s)) (getChannelsForLevel (level alert)))\<rparr>)"
  by (simp add: triggerAlert_def sendAll_result Let_def list_all_iff)

lemma triggerAlert_suppressed:
  "\<not> shouldTriggerAlert alert s \<Longrightarrow> triggerAlert alert s = (False, s)"
  by (simp add: triggerAlert_def)

text \<open>
  Claim C9. Let three alerts carry the same source and the same title. Let the first
  \<open>trigger()\<close> be dispatched at clock time \<open>t1\<close>, where \<open>t1\<close> is not 0 (\<open>Date.now()\<close>
  is a positive number of milliseconds): it sends the alert through the enabled channels
  of its level. A second \<open>trigger()\<close> at a time \<open>t2\<close> with \<open>t2 - t1\<close> at most the
  deduplication window returns \<open>false\<close> and leaves the service as it was, so nothing
  is sent. A third \<open>trigger()\<close> at a time \<open>t3\<close> with \<open>t3 - t1\<close> beyond the window
  passes the check, records \<open>t3\<close> and sends the alert through the enabled channels of
  its level again.
\<close>

theorem triggerAlert_deduplication:
  assumes "source a2 = source a1" and "alertTitle a2 = alertTitle a1"
    and "source a3 = source a1" and "alertTitle a3 = alertTitle a1"
    and "shouldTriggerAlert a1 s0" and "clock s0 \<noteq> 0"
    and "triggerAlert a1 s0 = (r1, s1)"
    and "t2 - clock s0 \<le> deduplicationWindow s0"
    and "deduplicationWindow s0 < t3 - clock s0"
  shows "sent s1 = sent s0 @ map (\<lambda>c. (c, alertId a1))
                    (filter (channelEnabled (notificationConfig s0)) (getChannelsForLevel (level a1)))
       \<and> triggerAlert a2 (s1\<lparr>clock := t2\<rparr>) = (False, s1\<lparr>clock := t2\<rparr>)
       \<and> shouldTriggerAlert a3 (s1\<lparr>clock := t3\<rparr>)
       \<and> triggerAlert a3 (s1\<lparr>clock := t3\<rparr>) =
           (list_all (channelEnabled (notificationConfig s0)) (getChannelsForLevel (level a3)),
            s1\<lparr>clock := t3,
               lastAlertTime := (lastAlertTime s1)(deduplicationKey a3 \<mapsto> t3),
               sent := sent s1 @ map (\<lambda>c. (c, alertId a3))
                         (filter (channelEnabled (notificationConfig s0)) (getChannelsForLevel (level a3)))\<rparr>)"
proof -
  have k2: "deduplicationKey a2 = deduplicationKey a1" and k3: "deduplicationKey a3 = deduplicationKey a1"
    using assms(1-4) by (simp_all add: deduplicationKey_def)
  from triggerAlert_dispatched[OF assms(5)] assms(7)
  have s1: "s1 = s0\<lparr>lastAlertTime := (lastAlertTime s0)(deduplicationKey a1 \<mapsto> clock s0),
        sent := sent s0 @ map (\<lambda>c. (c, alertId a1))
                  (filter (channelEnabled (notificationConfig s0)) (getChannelsForLevel (level a1)))\<rparr>"
    by simp
  have a: "sent s1 = sent s0 @ map (\<lambda>c. (c, alertId a1))
                    (filter (channelEnabled (notificationConfig s0)) (getChannelsForLevel (level a1)))"
    by (simp add: s1)
  have n2: "\<not> shouldTriggerAlert a2 (s1\<lparr>clock := t2\<rparr>)"
    using assms(6,8) by (simp add: shouldTriggerAlert_def k2 s1)
  have b: "triggerAlert a2 (s1\<lparr>clock := t2\<rparr>) = (False, s1\<lparr>clock := t2\<rparr>)"
    by (rule triggerAlert_suppressed[OF n2])
  have c: "shouldTriggerAlert a3 (s1\<lparr>clock := t3\<rparr>)"
    using assms(9) by (simp add: shouldTriggerAlert_def k3 s1)
  have d: "triggerAlert a3 (s1\<lparr>clock := t3\<rparr>) =
           (list_all (channelEnabled (notificationConfig s0)) (getChannelsForLevel (level a3)),
            s1\<lparr>clock := t3,
               lastAlertTime := (lastAlertTime s1)(deduplicationKey a3 \<mapsto> t3),
               sent := sent s1 @ map (\<lambda>c. (c, alertId a3))
                         (filter (channelEnabled (notificationConfig s0)) (getChannelsForLevel (level a3)))\<rparr>)"
    unfolding triggerAlert_dispatched[OF c] by (simp add: s1)
  from a b c d show ?thesis by simp
qed

theorem triggerAlert_deduplication_witness:
  "triggerAlert
      \<lparr>alertId = ''alert-1-x'', alertTitle = ''Deployment Failed'', alertDescription = ''timeout'',
       level = WARNING, status = ACTIVE, timestamp = 1000000, source = ''deployment-queue'', metadata = None\<rparr>
      ((snd (triggerAlert
         \<lparr>alertId = ''alert-1-x'', alertTitle = ''Deployment Failed'', alertDescription = ''timeout'',
          level = WARNING, status = ACTIVE, timestamp = 1000000, source = ''deployment-queue'', metadata = None\<rparr>
         (createAlertService \<lparr>email = Some True, slack = Some True, sms = None\<rparr> 1000000 (\<lambda>k. ''r''))))
        \<lparr>clock := 1030000\<rparr>)
    = (False,
       (snd (triggerAlert
         \<lparr>alertId = ''alert-1-x'', alertTitle = ''Deployment Failed'', alertDescription = ''timeout'',
          level = WARNING, status = ACTIVE, timestamp = 1000000, source = ''deployment-queue'', metadata = None\<rparr>
         (createAlertService \<lparr>email = Some True, slack = Some True, sms = None\<rparr> 1000000 (\<lambda>k. ''r''))))
        \<lparr>clock := 1030000\<rparr>)
   \<and> sent (snd (triggerAlert
      \<lparr>alertId = ''alert-1-x'', alertTitle = ''Deployment Failed'', alertDescription = ''timeout'',
       level = WARNING, status = ACTIVE, timestamp = 1000000, source = ''deployment-queue'', metadata = None\<rparr>
      ((snd (triggerAlert
         \<lparr>alertId = ''alert-1-x'', alertTitle = ''Deployment Failed'', alertDescription = ''timeout'',
          level = WARNING, status = ACTIVE, timestamp = 1000000, source = ''deployment-queue'', metadata = None\<rparr>
         (createAlertService \<lparr>email = Some True, slack = Some True, sms = None\<rparr> 1000000 (\<lambda>k. ''r''))))
        \<lparr>clock := 1061000\<rparr>)))
     = [(EMAIL, ''alert-1-x''), (SLACK, ''alert-1-x''), (EMAIL, ''alert-1-x''), (SLACK, ''alert-1-x'')]"
proof -
  define a where "a = \<lparr>alertId = ''alert-1-x'', alertTitle = ''Deployment Failed'', alertDescription = ''timeout'',
       level = WARNING, status = ACTIVE, timestamp = 1000000, source = ''deployment-queue'', metadata = None\<rparr>"
  define s0 where "s0 = createAlertService \<lparr>email = Some True, slack = Some True, sms = None\<rparr> 1000000 (\<lambda>k. ''r'')"
  have go: "shouldTriggerAlert a s0" by (simp add: shouldTriggerAlert_def s0_def createAlertService_def)
  have ck: "clock s0 \<noteq> 0" by (simp add: s0_def createAlertService_def)
  have run: "triggerAlert a s0 = (fst (triggerAlert a s0), snd (triggerAlert a s0))" by simp
  have w2: "1030000 - clock s0 \<le> deduplicationWindow s0" by (simp add: s0_def createAlertService_def)
  have w3: "deduplicationWindow s0 < 1061000 - clock s0" by (simp add: s0_def createAlertService_def)
  have en: "filter (channelEnabled (notificationConfig s0)) (getChannelsForLevel (level a)) = [EMAIL, SLACK]"
    by (simp add: s0_def createAlertService_def a_def getChannelsForLevel_def channelEnabled_def)
  have s00: "sent s0 = []" by (simp add: s0_def createAlertService_def)
  from triggerAlert_deduplication[OF refl refl refl refl go ck run w2 w3]
  have "triggerAlert a ((snd (triggerAlert a s0))\<lparr>clock := 1030000\<rparr>) = (False, (snd (triggerAlert a s0))\<lparr>clock := 1030000\<rparr>)
      \<and> sent (snd (triggerAlert a ((snd (triggerAlert a s0))\<lparr>clock := 1061000\<rparr>)))
          = [(EMAIL, alertId a), (SLACK, alertId a), (EMAIL, alertId a), (SLACK, alertId a)]"
    by (simp add: en s00)
  then show ?thesis by (simp add: a_def s0_def)
qed

section \<open>AlertService: rule evaluation\<close>

lemma createAlert_fields:
  "createAlert ttl descr lvl src meta s = (alert, s1) \<Longrightarrow>
     alertTitle alert = ttl \<and> alertDescription alert = descr \<and> level alert = lvl
     \<and> status alert = ACTIVE \<and> source alert = src \<and> metadata alert = meta
     \<and> timestamp alert = clock s
     \<and> alerts s1 = (alerts s)(alertId alert \<mapsto> alert)"
  by (auto simp: createAlert_def generateAlertId_def Let_def)

lemma evaluateLoop_alerts:
  "map (\<lambda>a. (alertTitle a, alertDescription a, level a, status a, source a, metadata a))
       (fst (evaluateLoop rs data acc s)) =
   map (\<lambda>a. (alertTitle a, alertDescription a, level a, status a, source a, metadata a)) acc @
   map (\<lambda>r. (ruleName r, ''Rule triggered: '' @ ruleName r, ruleLevel r, ACTIVE, ''rule-engine'',
              Some [(''ruleId'', JString (ruleId r)), (''data'', data)]))
       (filter (\<lambda>r. enabled r \<and> condition r data = Returns True) rs)"
proof (induction rs arbitrary: acc s)
  case Nil
  show ?case by simp
next
  case (Cons rule rs)
  show ?case
  proof (cases "enabled rule")
    case False
    then show ?thesis by (simp add: Cons.IH)
  next
    case en: True
    show ?thesis
    proof (cases "condition rule data")
      case (Throws e)
      with en show ?thesis by (simp add: Cons.IH)
    next
      case (Returns b)
      show ?thesis
      proof (cases b)
        case False
        with en Returns show ?thesis by (simp add: Cons.IH)
      next
        case True
        obtain alert s1 where c: "createAlert (ruleName rule) (''Rule triggered: '' @ ruleName rule) (ruleLevel rule)
                     ''rule-engine'' (Some [(''ruleId'', JString (ruleId rule)), (''data'', data)]) s = (alert, s1)"
          by (cases "createAlert (ruleName rule) (''Rule triggered: '' @ ruleName rule) (ruleLevel rule)
                     ''rule-engine'' (Some [(''ruleId'', JString (ruleId rule)), (''data'', data)]) s") blast
        from createAlert_fields[OF c] en Returns True c show ?thesis
          by (simp add: Cons.IH)
      qed
    qed
  qed
qed

text \<open>
  Claim C10. \<open>evaluateRules\<close> has no error result: the predicate is the only step of
  the loop that can throw, and its throw is caught in place. The list it returns holds
  exactly one alert for each rule that is enabled and whose predicate returned
  \<open>true\<close>, in the order of the rules, built from that rule's name, level and id; a
  rule that is not enabled, a predicate that returns \<open>false\<close> and a predicate that
  throws contribute nothing and do not stop the loop.
\<close>

theorem evaluateRules_alerts:
  "map (\<lambda>a. (alertTitle a, alertDescription a, level a, status a, source a, metadata a))
       (fst (evaluateRules data s)) =
   map (\<lambda>r. (ruleName r, ''Rule triggered: '' @ ruleName r, ruleLevel r, ACTIVE, ''rule-engine'',
              Some [(''ruleId'', JString (ruleId r)), (''data'', data)]))
       (filter (\<lambda>r. enabled r \<and> condition r data = Returns True) (map snd (rules s)))"
  by (simp add: evaluateRules_def evaluateLoop_alerts)

theorem evaluateRules_alerts_witness:
  "map (\<lambda>a. (alertTitle a, alertDescription a, level a, status a, source a, metadata a))
     (fst (evaluateRules (JNumber 95)
        (addRule \<lparr>ruleId = ''r4'', ruleName = ''always'', condition = (\<lambda>d. Returns True),
                  ruleLevel = INFO, channels = [SLACK], enabled = True\<rparr>
        (addRule \<lparr>ruleId = ''r3'', ruleName = ''high gas'',
                  condition = (\<lambda>d. case d of JNumber x \<Rightarrow> Returns (90 < x) | _ \<Rightarrow> Returns False),
                  ruleLevel = CRITICAL, channels = [EMAIL], enabled = True\<rparr>
        (addRule \<lparr>ruleId = ''r2'', ruleName = ''broken'', condition = (\<lambda>d. Throws (Error ''boom'')),
                  ruleLevel = WARNING, channels = [EMAIL], enabled = True\<rparr>
        (addRule \<lparr>ruleId = ''r1'', ruleName = ''switched off'', condition = (\<lambda>d. Returns True),
                  ruleLevel = WARNING, channels = [EMAIL], enabled = False\<rparr>
        (createAlertService \<lparr>email = Some True, slack = Some True, sms = None\<rparr> 1000000 (\<lambda>k. ''r''))))))))
   = [(''high gas'', ''Rule triggered: high gas'', CRITICAL, ACTIVE, ''rule-engine'',
       Some [(''ruleId'', JString ''r3''), (''data'', JNumber 95)]),
      (''always'', ''Rule triggered: always'', INFO, ACTIVE, ''rule-engine'',
       Some [(''ruleId'', JString ''r4''), (''data'', JNumber 95)])]"
  using evaluateRules_alerts[of "JNumber 95"
        "addRule \<lparr>ruleId = ''r4'', ruleName = ''always'', condition = (\<lambda>d. Returns True),
                  ruleLevel = INFO, channels = [SLACK], enabled = True\<rparr>
        (addRule \<lparr>ruleId = ''r3'', ruleName = ''high gas'',
                  condition = (\<lambda>d. case d of JNumber x \<Rightarrow> Returns (90 < x) | _ \<Rightarrow> Returns False),
                  ruleLevel = CRITICAL, channels = [EMAIL], enabled = True\<rparr>
        (addRule \<lparr>ruleId = ''r2'', ruleName = ''broken'', condition = (\<lambda>d. Throws (Error ''boom'')),
                  ruleLevel = WARNING, channels = [EMAIL], enabled = True\<rparr>
        (addRule \<lparr>ruleId = ''r1'', ruleName = ''switched off'', condition = (\<lambda>d. Returns True),
                  ruleLevel = WARNING, channels = [EMAIL], enabled = False\<rparr>
        (createAlertService \<lparr>email = Some True, slack = Some True, sms = None\<rparr> 1000000 (\<lambda>k. ''r'')))))"]
  by (simp add: addRule_def createAlertService_def)

section \<open>DeploymentQueueProcessor: failures and retries\<close>

lemma processQueueItem_deploy_fails:
  assumes "updateQueueItemStatus js (itemId item) Processing (store s) = (None, st1)"
    and "deployItem svc item (clock (alertService s)) = (Inl e, finished)"
    and "updateQueueItemStatus js (itemId item) Failed st1 = (None, st2)"
  shows "processQueueItem js svc item s =
     (None, item\<lparr>itemError := Some (message e)\<rparr>,
      s\<lparr>store := st2,
        alertService :=
          snd (createAlert (typeName item @ '' Deployment Failed'') (''Deployment failed: '' @ message e)
                 WARNING ''deployment-queue'' (Some [(''queueItemId'', JString (itemId item))])
                 ((alertService s)\<lparr>clock := finished\<rparr>))\<rparr>)"
  using assms by (simp add: processQueueItem_def processQueueItemTry_def markQueueItemFailed_def)

lemma deployItem_validation_fails:
  "request item = BinaryMarket params \<Longrightarrow>
   validateBinaryMarketParams (isAddress (chainFor svc item)) now params = Some e \<Longrightarrow>
   deployItem svc item now = (Inl e, now)"
  by (simp add: deployItem_def deployBinaryMarketContract_def)

lemma markQueueItemFailed_no_alert:
  "alertService (snd (snd (markQueueItemFailed js item err s))) = alertService s"
  by (simp add: markQueueItemFailed_def split: prod.splits)

text \<open>
  Claim C2 (amended). \<open>processQueueItem\<close> treats every failed deployment alike,
  whether validation rejected the parameters or a later step threw: when the two status
  writes succeed, the item's \<open>retryCount\<close> is unchanged, the message is recorded in
  \<open>item.error\<close>, the status \<open>failed\<close> is written and exactly one alert of level
  \<open>WARNING\<close> is created. A validation failure reaches the \<open>catch\<close> as any other
  error does. In the retry pass of \<open>processQueue\<close>, a failed item with
  \<open>retryCount < maxRetries\<close> has its \<open>retryCount\<close> incremented by one and is
  processed again, whatever its error was; an item with \<open>retryCount \<ge> maxRetries\<close> is
  marked failed once more, and no alert is created for it.
\<close>

theorem processQueueItem_any_failure:
  assumes "updateQueueItemStatus js (itemId item) Processing (store s) = (None, st1)"
    and "updateQueueItemStatus js (itemId item) Failed st1 = (None, st2)"
  shows "(deployItem svc item (clock (alertService s)) = (Inl e, finished) \<longrightarrow>
          processQueueItem js svc item s =
            (None, item\<lparr>itemError := Some (message e)\<rparr>,
             s\<lparr>store := st2,
               alertService :=
                 snd (createAlert (typeName item @ '' Deployment Failed'') (''Deployment failed: '' @ message e)
                        WARNING ''deployment-queue'' (Some [(''queueItemId'', JString (itemId item))])
                        ((alertService s)\<lparr>clock := finished\<rparr>))\<rparr>))
       \<and> (request item = BinaryMarket params
            \<and> validateBinaryMarketParams (isAddress (chainFor svc item)) (clock (alertService s)) params = Some e
          \<longrightarrow> deployItem svc item (clock (alertService s)) = (Inl e, clock (alertService s)))
       \<and> (retryCount item < itemMaxRetries item \<longrightarrow>
            retryItems js svc [item] s =
              (case processQueueItem js svc (item\<lparr>retryCount := retryCount item + 1\<rparr>) s of
                 (thrown, item1, s1) \<Rightarrow> (thrown, s1)))
       \<and> (itemMaxRetries item \<le> retryCount item \<longrightarrow>
            retryItems js svc [item] s =
              (fst (updateQueueItemStatus js (itemId item) Failed (store s)),
               s\<lparr>store := snd (updateQueueItemStatus js (itemId item) Failed (store s))\<rparr>))"
proof (intro conjI impI)
  assume "deployItem svc item (clock (alertService s)) = (Inl e, finished)"
  from processQueueItem_deploy_fails[OF assms(1) this assms(2)]
  show "processQueueItem js svc item s =
            (None, item\<lparr>itemError := Some (message e)\<rparr>,
             s\<lparr>store := st2,
               alertService :=
                 snd (createAlert (typeName item @ '' Deployment Failed'') (''Deployment failed: '' @ message e)
                        WARNING ''deployment-queue'' (Some [(''queueItemId'', JString (itemId item))])
                        ((alertService s)\<lparr>clock := finished\<rparr>))\<rparr>)" .
next
  assume "request item = BinaryMarket params
            \<and> validateBinaryMarketParams (isAddress (chainFor svc item)) (clock (alertService s)) params = Some e"
  then show "deployItem svc item (clock (alertService s)) = (Inl e, clock (alertService s))"
    by (simp add: deployItem_validation_fails)
next
  assume "retryCount item < itemMaxRetries item"
  then show "retryItems js svc [item] s =
              (case processQueueItem js svc (item\<lparr>retryCount := retryCount item + 1\<rparr>) s of
                 (thrown, item1, s1) \<Rightarrow> (thrown, s1))"
    by (simp add: retryQueueItem_def split: prod.splits option.splits)
next
  assume "itemMaxRetries item \<le> retryCount item"
  then show "retryItems js svc [item] s =
              (fst (updateQueueItemStatus js (itemId item) Failed (store s)),
               s\<lparr>store := snd (updateQueueItemStatus js (itemId item) Failed (store s))\<rparr>)"
    by (simp add: markQueueItemFailed_def split: prod.splits option.splits)
qed

lemma gasExample:
  "estimateGas \<lparr>priceMultiplier = 3 / 2, limitMultiplier = 5 / 4, maxGasPriceGwei = 500, minGasPriceGwei = 1, ethPriceUSD = 2000\<rparr> \<lparr>rpcGasPrice = Inr 50,
                  rpcFeeData = Inr \<lparr>feeMaxFeePerGas = Some 30, feeMaxPriorityFeePerGas = Some 2\<rparr>,
                  rpcEstimateGas = Inr 100000, rpcTransactionReceipt = (\<lambda>h t. Inr None)\<rparr> =
     Inr \<lparr>gasLimit = 125000, gasPrice = 75, maxFeePerGas = 45, maxPriorityFeePerGas = 3, totalCost = 5625000,
          totalCostInUSD = costInUSD \<lparr>priceMultiplier = 3 / 2, limitMultiplier = 5 / 4, maxGasPriceGwei = 500, minGasPriceGwei = 1, ethPriceUSD = 2000\<rparr> 5625000\<rparr>"
  by (rule estimateGas_example)

theorem processQueueItem_any_failure_witness:
  "processQueueItem placeholderStore
     \<lparr>config = \<lparr>timeoutSeconds = 300, confirmationBlocks = 3, maxRetries = 3, retryDelayMs = 1000\<rparr>,
      gasManager = \<lparr>priceMultiplier = 3 / 2, limitMultiplier = 5 / 4, maxGasPriceGwei = 500, minGasPriceGwei = 1, ethPriceUSD = 2000\<rparr>,
      chainFor = (\<lambda>item. \<lparr>isAddress = (\<lambda>a. length a = 42 \<and> take 2 a = ''0x''),
               provider = \<lparr>rpcGasPrice = Inr 50,
                  rpcFeeData = Inr \<lparr>feeMaxFeePerGas = Some 30, feeMaxPriorityFeePerGas = Some 2\<rparr>,
                  rpcEstimateGas = Inr 100000, rpcTransactionReceipt = (\<lambda>h t. Inr None)\<rparr>,
               submitDeploy = Inl (Error ''nonce too low'')\<rparr>)\<rparr>
     \<lparr>itemId = ''job-1'',
      request = BinaryMarket \<lparr>title = ''Final 2026'', description = ''Who wins'', endTime = 500,
                  oracleAddress = ''0x52908400098527886E0F7030069857D2E4169EE7'', initialLiquidity = 5\<rparr>,
      itemStatus = Pending, retryCount = 0, itemMaxRetries = 3, createdAt = 0, updatedAt = 0,
      itemError = None\<rparr>
     \<lparr>isProcessing = False, batchSize = 5, store = [],
      alertService = createAlertService \<lparr>email = Some True, slack = Some True, sms = None\<rparr> 1000000 (\<lambda>k. ''r'')\<rparr>
   = (None,
      \<lparr>itemId = ''job-1'',
      request = BinaryMarket \<lparr>title = ''Final 2026'', description = ''Who wins'', endTime = 500,
                  oracleAddress = ''0x52908400098527886E0F7030069857D2E4169EE7'', initialLiquidity = 5\<rparr>,
      itemStatus = Pending, retryCount = 0, itemMaxRetries = 3, createdAt = 0, updatedAt = 0,
      itemError = Some ''Invalid endTime: must be in the future''\<rparr>,
      \<lparr>isProcessing = False, batchSize = 5, store = [StatusUpdated ''job-1'' Processing, StatusUpdated ''job-1'' Failed],
      alertService = snd (createAlert ''BinaryMarket Deployment Failed'' ''Deployment failed: Invalid endTime: must be in the future''
               WARNING ''deployment-queue'' (Some [(''queueItemId'', JString ''job-1'')])
               (createAlertService \<lparr>email = Some True, slack = Some True, sms = None\<rparr> 1000000 (\<lambda>k. ''r'')))\<rparr>)"
proof -
  define item where "item = \<lparr>itemId = ''job-1'',
      request = BinaryMarket \<lparr>title = ''Final 2026'', description = ''Who wins'', endTime = 500,
                  oracleAddress = ''0x52908400098527886E0F7030069857D2E4169EE7'', initialLiquidity = 5\<rparr>,
      itemStatus = Pending, retryCount = 0, itemMaxRetries = 3, createdAt = 0, updatedAt = 0,
      itemError = None\<rparr>"
  define svc where "svc = \<lparr>config = \<lparr>timeoutSeconds = 300, confirmationBlocks = 3, maxRetries = 3, retryDelayMs = 1000\<rparr>,
      gasManager = \<lparr>priceMultiplier = 3 / 2, limitMultiplier = 5 / 4, maxGasPriceGwei = 500, minGasPriceGwei = 1, ethPriceUSD = 2000\<rparr>,
      chainFor = (\<lambda>item. \<lparr>isAddress = (\<lambda>a. length a = 42 \<and> take 2 a = ''0x''),
               provider = \<lparr>rpcGasPrice = Inr 50,
                  rpcFeeData = Inr \<lparr>feeMaxFeePerGas = Some 30, feeMaxPriorityFeePerGas = Some 2\<rparr>,
                  rpcEstimateGas = Inr 100000, rpcTransactionReceipt = (\<lambda>h t. Inr None)\<rparr>,
               submitDeploy = Inl (Error ''nonce too low'')\<rparr>)\<rparr>"
  define s where "s = \<lparr>isProcessing = False, batchSize = 5, store = ([] :: StoreLog list),
      alertService = createAlertService \<lparr>email = Some True, slack = Some True, sms = None\<rparr> 1000000 (\<lambda>k. ''r'')\<rparr>"
  have u1: "updateQueueItemStatus placeholderStore (itemId item) Processing (store s) = (None, [StatusUpdated ''job-1'' Processing])"
    by (simp add: placeholderStore_def item_def s_def)
  have u2: "updateQueueItemStatus placeholderStore (itemId item) Failed [StatusUpdated ''job-1'' Processing]
      = (None, [StatusUpdated ''job-1'' Processing, StatusUpdated ''job-1'' Failed])"
    by (simp add: placeholderStore_def item_def)
  have v: "request item = BinaryMarket \<lparr>title = ''Final 2026'', description = ''Who wins'', endTime = 500,
                  oracleAddress = ''0x52908400098527886E0F7030069857D2E4169EE7'', initialLiquidity = 5\<rparr>
      \<and> validateBinaryMarketParams (isAddress (chainFor svc item)) (clock (alertService s))
           \<lparr>title = ''Final 2026'', description = ''Who wins'', endTime = 500,
                  oracleAddress = ''0x52908400098527886E0F7030069857D2E4169EE7'', initialLiquidity = 5\<rparr>
          = Some (Error ''Invalid endTime: must be in the future'')"
    by (simp add: item_def svc_def s_def createAlertService_def validateBinaryMarketParams_def trim_def isWhiteSpace_def)
  note t = processQueueItem_any_failure[OF u1 u2, of svc]
  from t[THEN conjunct2, THEN conjunct1, THEN mp, OF v]
  have d: "deployItem svc item (clock (alertService s)) = (Inl (Error ''Invalid endTime: must be in the future''), clock (alertService s))" .
  from t[THEN conjunct1, THEN mp, OF d]
  show ?thesis by (simp add: item_def svc_def s_def typeName_def createAlertService_def)
qed

text \<open>
  A failure that is not a validation failure does not increment \<open>retryCount\<close> and
  raises no critical alert: the node rejects the submission of a valid market, and
  \<open>processQueueItem\<close> returns the item with \<open>retryCount = 0\<close> as before, the status
  \<open>failed\<close> written and a warning created.
\<close>

theorem processQueueItem_retry_policy_counterexample:
  "processQueueItem placeholderStore
     \<lparr>config = \<lparr>timeoutSeconds = 300, confirmationBlocks = 3, maxRetries = 3, retryDelayMs = 1000\<rparr>,
      gasManager = \<lparr>priceMultiplier = 3 / 2, limitMultiplier = 5 / 4, maxGasPriceGwei = 500, minGasPriceGwei = 1, ethPriceUSD = 2000\<rparr>,
      chainFor = (\<lambda>item. \<lparr>isAddress = (\<lambda>a. length a = 42 \<and> take 2 a = ''0x''),
               provider = \<lparr>rpcGasPrice = Inr 50,
                  rpcFeeData = Inr \<lparr>feeMaxFeePerGas = Some 30, feeMaxPriorityFeePerGas = Some 2\<rparr>,
                  rpcEstimateGas = Inr 100000, rpcTransactionReceipt = (\<lambda>h t. Inr None)\<rparr>,
               submitDeploy = Inl (Error ''nonce too low'')\<rparr>)\<rparr>
     \<lparr>itemId = ''job-1'',
      request = BinaryMarket \<lparr>title = ''Final 2026'', description = ''Who wins'', endTime = 2000,
                  oracleAddress = ''0x52908400098527886E0F7030069857D2E4169EE7'', initialLiquidity = 5\<rparr>,
      itemStatus = Pending, retryCount = 0, itemMaxRetries = 3, createdAt = 0, updatedAt = 0,
      itemError = None\<rparr>
     \<lparr>isProcessing = False, batchSize = 5, store = [],
      alertService = createAlertService \<lparr>email = Some True, slack = Some True, sms = None\<rparr> 1000000 (\<lambda>k. ''r'')\<rparr>
   = (None,
      \<lparr>itemId = ''job-1'',
      request = BinaryMarket \<lparr>title = ''Final 2026'', description = ''Who wins'', endTime = 2000,
                  oracleAddress = ''0x52908400098527886E0F7030069857D2E4169EE7'', initialLiquidity = 5\<rparr>,
      itemStatus = Pending, retryCount = 0, itemMaxRetries = 3, createdAt = 0, updatedAt = 0,
      itemError = Some ''nonce too low''\<rparr>,
      \<lparr>isProcessing = False, batchSize = 5, store = [StatusUpdated ''job-1'' Processing, StatusUpdated ''job-1'' Failed],
      alertService = snd (createAlert ''BinaryMarket Deployment Failed'' ''Deployment failed: nonce too low''
               WARNING ''deployment-queue'' (Some [(''queueItemId'', JString ''job-1'')])
               (createAlertService \<lparr>email = Some True, slack = Some True, sms = None\<rparr> 1000000 (\<lambda>k. ''r'')))\<rparr>)"
proof -
  define item where "item = \<lparr>itemId = ''job-1'',
      request = BinaryMarket \<lparr>title = ''Final 2026'', description = ''Who wins'', endTime = 2000,
                  oracleAddress = ''0x52908400098527886E0F7030069857D2E4169EE7'', initialLiquidity = 5\<rparr>,
      itemStatus = Pending, retryCount = 0, itemMaxRetries = 3, createdAt = 0, updatedAt = 0,
      itemError = None\<rparr>"
  define svc where "svc = \<lparr>config = \<lparr>timeoutSeconds = 300, confirmationBlocks = 3, maxRetries = 3, retryDelayMs = 1000\<rparr>,
      gasManager = \<lparr>priceMultiplier = 3 / 2, limitMultiplier = 5 / 4, maxGasPriceGwei = 500, minGasPriceGwei = 1, ethPriceUSD = 2000\<rparr>,
      chainFor = (\<lambda>item. \<lparr>isAddress = (\<lambda>a. length a = 42 \<and> take 2 a = ''0x''),
               provider = \<lparr>rpcGasPrice = Inr 50,
                  rpcFeeData = Inr \<lparr>feeMaxFeePerGas = Some 30, feeMaxPriorityFeePerGas = Some 2\<rparr>,
                  rpcEstimateGas = Inr 100000, rpcTransactionReceipt = (\<lambda>h t. Inr None)\<rparr>,
               submitDeploy = Inl (Error ''nonce too low'')\<rparr>)\<rparr>"
  define s where "s = \<lparr>isProcessing = False, batchSize = 5, store = ([] :: StoreLog list),
      alertService = createAlertService \<lparr>email = Some True, slack = Some True, sms = None\<rparr> 1000000 (\<lambda>k. ''r'')\<rparr>"
  have u1: "updateQueueItemStatus placeholderStore (itemId item) Processing (store s) = (None, [StatusUpdated ''job-1'' Processing])"
    by (simp add: placeholderStore_def item_def s_def)
  have u2: "updateQueueItemStatus placeholderStore (itemId item) Failed [StatusUpdated ''job-1'' Processing]
      = (None, [StatusUpdated ''job-1'' Processing, StatusUpdated ''job-1'' Failed])"
    by (simp add: placeholderStore_def item_def)
  have v: "validateBinaryMarketParams (\<lambda>a. length a = 42 \<and> take 2 a = ''0x'') 1000000
           \<lparr>title = ''Final 2026'', description = ''Who wins'', endTime = 2000,
                  oracleAddress = ''0x52908400098527886E0F7030069857D2E4169EE7'', initialLiquidity = 5\<rparr>
          = None"
    by (simp add: validateBinaryMarketParams_def trim_def isWhiteSpace_def)
  have d: "deployItem svc item (clock (alertService s)) = (Inl (Error ''nonce too low''), clock (alertService s))"
    by (simp add: deployItem_def deployBinaryMarketContract_def deployAfterValidation_def item_def svc_def s_def
          createAlertService_def v gasExample)
  from processQueueItem_deploy_fails[OF u1 d u2]
  show ?thesis by (simp add: item_def svc_def s_def typeName_def createAlertService_def)
qed

section \<open>DeploymentQueueProcessor: the re-entrancy guard\<close>

lemma processQueue_idle:
  "\<not> isProcessing s \<Longrightarrow>
   processQueue js svc s =
     (case processQueueTry js svc (s\<lparr>isProcessing := True\<rparr>) of
        (None, s1) \<Rightarrow> s1\<lparr>isProcessing := False\<rparr>
      | (Some e, s1) \<Rightarrow>
          s1\<lparr>alertService :=
               snd (createAlert ''Deployment Queue Processing Error''
                      (''Failed to process deployment queue: '' @ message e)
                      CRITICAL ''deployment-queue'' None (alertService s1)),
             isProcessing := False\<rparr>)"
  by (simp add: processQueue_def)

text \<open>
  No method of the processor writes the flag except \<open>processQueue\<close> itself, so the
  flag that a batch sets stays set until the batch ends.
\<close>

lemma markQueueItemFailed_flag:
  "isProcessing (snd (snd (markQueueItemFailed js item err s))) = isProcessing s"
  by (simp add: markQueueItemFailed_def split: prod.splits)

lemma processQueueItemTry_flag:
  "isProcessing (snd (processQueueItemTry js svc item s)) = isProcessing s"
  by (simp add: processQueueItemTry_def split: prod.splits option.splits sum.splits)

lemma processQueueItem_flag:
  "isProcessing (snd (snd (processQueueItem js svc item s))) = isProcessing s"
proof -
  obtain thrown s1 where t: "processQueueItemTry js svc item s = (thrown, s1)"
    by (cases "processQueueItemTry js svc item s")
  have f1: "isProcessing s1 = isProcessing s" using processQueueItemTry_flag[of js svc item s] t by simp
  show ?thesis
  proof (cases thrown)
    case None
    then show ?thesis using t f1 by (simp add: processQueueItem_def)
  next
    case (Some e)
    obtain thrown2 item2 s2 where m: "markQueueItemFailed js item (message e) s1 = (thrown2, item2, s2)"
      by (cases "markQueueItemFailed js item (message e) s1")
    have "isProcessing s2 = isProcessing s1" using markQueueItemFailed_flag[of js item "message e" s1] m by simp
    then show ?thesis using t f1 Some m by (cases thrown2) (simp_all add: processQueueItem_def)
  qed
qed

lemma processItems_flag:
  "isProcessing (snd (processItems js svc items s)) = isProcessing s"
proof (induction items arbitrary: s)
  case Nil
  show ?case by simp
next
  case (Cons item rest)
  obtain thrown item1 s1 where p: "processQueueItem js svc item s = (thrown, item1, s1)"
    by (cases "processQueueItem js svc item s")
  have "isProcessing s1 = isProcessing s" using processQueueItem_flag[of js svc item s] p by simp
  then show ?case using p Cons.IH[of s1] by (cases thrown) simp_all
qed

text \<open>
  Whatever leaves a processor with the flag set as it is has no effect at the suspension
  points of a batch that runs with the flag set: each method then does what it does when
  nothing overlaps it.
\<close>

lemma markQueueItemFailedAsync_guarded:
  assumes "\<And>x. isProcessing x \<Longrightarrow> overlap x = x" and "isProcessing s"
  shows "markQueueItemFailedAsync js overlap item err s = markQueueItemFailed js item err s"
  using assms by (simp add: markQueueItemFailedAsync_def markQueueItemFailed_def)

lemma processQueueItemTryAsync_guarded:
  assumes "\<And>x. isProcessing x \<Longrightarrow> overlap x = x" and "isProcessing s"
  shows "processQueueItemTryAsync js svc overlap item s = processQueueItemTry js svc item s"
proof -
  note g = assms(1) and b = assms(2)
  obtain thrown1 st1 where u1: "updateQueueItemStatus js (itemId item) Processing (store s) = (thrown1, st1)"
    by (cases "updateQueueItemStatus js (itemId item) Processing (store s)")
  have s1: "(case request item of UnknownType t \<Rightarrow> s\<lparr>store := st1\<rparr> | known \<Rightarrow> overlap (s\<lparr>store := st1\<rparr>))
            = s\<lparr>store := st1\<rparr>"
    using g[of "s\<lparr>store := st1\<rparr>"] b by (simp split: DeploymentRequest.splits)
  obtain outcome finished where d: "deployItem svc item (clock (alertService s)) = (outcome, finished)"
    by (cases "deployItem svc item (clock (alertService s))")
  show ?thesis
  proof (cases thrown1)
    case (Some e)
    then show ?thesis using g[OF b] u1 by (simp add: processQueueItemTryAsync_def processQueueItemTry_def)
  next
    case None
    show ?thesis
    proof (cases outcome)
      case (Inl e)
      then show ?thesis
        using g[OF b] u1 None d
        by (simp add: processQueueItemTryAsync_def processQueueItemTry_def s1)
    next
      case (Inr result)
      obtain thrown2 st2 where sv: "saveDeploymentResult js item result st1 = (thrown2, st2)"
        by (cases "saveDeploymentResult js item result st1")
      obtain thrown3 st3 where u3: "updateQueueItemStatus js (itemId item) Completed st2 = (thrown3, st3)"
        by (cases "updateQueueItemStatus js (itemId item) Completed st2")
      show ?thesis
        using g[OF b] u1 None d Inr sv u3
        by (cases thrown2; cases thrown3)
           (simp_all add: processQueueItemTryAsync_def processQueueItemTry_def s1 g b)
    qed
  qed
qed

lemma processQueueItemAsync_guarded:
  assumes g: "\<And>x. isProcessing x \<Longrightarrow> overlap x = x" and b: "isProcessing s"
  shows "processQueueItemAsync js svc overlap item s = processQueueItem js svc item s"
proof -
  obtain thrown s1 where t: "processQueueItemTry js svc item s = (thrown, s1)"
    by (cases "processQueueItemTry js svc item s")
  have f1: "isProcessing s1" using processQueueItemTry_flag[of js svc item s] t b by simp
  have a: "processQueueItemTryAsync js svc overlap item s = (thrown, s1)"
    using processQueueItemTryAsync_guarded[OF g b] t by simp
  show ?thesis
    using a t markQueueItemFailedAsync_guarded[OF g f1]
    by (simp add: processQueueItemAsync_def processQueueItem_def split: option.splits)
qed

lemma processItemsAsync_guarded:
  assumes g: "\<And>x. isProcessing x \<Longrightarrow> overlap x = x"
  shows "isProcessing s \<Longrightarrow> processItemsAsync js svc overlap items s = processItems js svc items s"
proof (induction items arbitrary: s)
  case Nil
  show ?case by simp
next
  case (Cons item rest)
  obtain thrown item1 s1 where p: "processQueueItem js svc item s = (thrown, item1, s1)"
    by (cases "processQueueItem js svc item s")
  have f: "isProcessing s1" using processQueueItem_flag[of js svc item s] p Cons.prems by simp
  show ?case
    using processQueueItemAsync_guarded[OF g Cons.prems, of js svc item] p Cons.IH[OF f]
    by (cases thrown) simp_all
qed

lemma retryItemsAsync_guarded:
  assumes g: "\<And>x. isProcessing x \<Longrightarrow> overlap x = x"
  shows "isProcessing s \<Longrightarrow> retryItemsAsync js svc overlap items s = retryItems js svc items s"
proof (induction items arbitrary: s)
  case Nil
  show ?case by simp
next
  case (Cons item rest)
  let ?step = "if retryCount item < itemMaxRetries item then retryQueueItem js svc item s
               else markQueueItemFailed js item ''Max retries exceeded'' s"
  obtain thrown item1 s1 where p: "?step = (thrown, item1, s1)" by (cases ?step)
  have eq: "(if retryCount item < itemMaxRetries item then retryQueueItemAsync js svc overlap item s
             else markQueueItemFailedAsync js overlap item ''Max retries exceeded'' s) = ?step"
    using processQueueItemAsync_guarded[OF g Cons.prems] markQueueItemFailedAsync_guarded[OF g Cons.prems]
    by (simp add: retryQueueItemAsync_def retryQueueItem_def)
  have "isProcessing (snd (snd ?step))"
    using processQueueItem_flag[of js svc "item\<lparr>retryCount := retryCount item + 1\<rparr>" s]
      markQueueItemFailed_flag[of js item "''Max retries exceeded''" s] Cons.prems
    by (simp add: retryQueueItem_def)
  then have f: "isProcessing s1" using p by simp
  show ?case
    unfolding retryItemsAsync.simps retryItems.simps eq p
    using Cons.IH[OF f] by (cases thrown) simp_all
qed

lemma processQueueTryAsync_guarded:
  assumes g: "\<And>x. isProcessing x \<Longrightarrow> overlap x = x" and b: "isProcessing s"
  shows "processQueueTryAsync js svc overlap s = processQueueTry js svc s"
proof (cases "getQueueItems js Pending (batchSize s) (store s)")
  case (Inl e)
  then show ?thesis using g[OF b] by (simp add: processQueueTryAsync_def processQueueTry_def)
next
  case (Inr items)
  obtain thrown s1 where p: "processItems js svc items s = (thrown, s1)"
    by (cases "processItems js svc items s")
  have f: "isProcessing s1" using processItems_flag[of js svc items s] p b by simp
  show ?thesis
    using Inr g[OF b] g[OF f] p processItemsAsync_guarded[OF g b, of js svc items]
      retryItemsAsync_guarded[OF g f, of js svc]
    by (simp add: processQueueTryAsync_def processQueueTry_def split: option.splits sum.splits)
qed

lemma processQueueAsync_busy: "isProcessing s \<Longrightarrow> processQueueAsync js svc during s = s"
  by (simp add: processQueueAsync_def)

lemma processQueueAsync_guarded:
  assumes g: "\<And>x. isProcessing x \<Longrightarrow> overlap x = x"
  shows "processQueueAsync js svc overlap s = processQueue js svc s"
  using processQueueTryAsync_guarded[OF g, of "s\<lparr>isProcessing := True\<rparr>" js svc]
  by (simp add: processQueueAsync_def processQueue_def)

lemma funpow_guarded:
  assumes "\<And>x. isProcessing x \<Longrightarrow> f x = x"
  shows "isProcessing x \<Longrightarrow> (f ^^ n) x = x"
  using assms by (induction n) simp_all

text \<open>
  Claim C4. A call of \<open>processQueue\<close> while the flag \<open>isProcessing\<close> is set returns
  the processor as it was, so it processes no item, writes no status and creates no alert.
  A batch in progress holds the flag set at each of its suspension points: whatever calls
  of \<open>processQueue\<close> overlap it there (any number \<open>n\<close> of them, each with
  whatever runs during it), and more generally whatever runs there that leaves a processor
  with the flag set as it is, the batch ends in the very state in which it ends when
  nothing overlaps it; the overlapping calls have processed nothing and changed nothing.
  This holds for every job store, also one whose methods throw. A call while the flag is
  clear ends with the flag clear on each way out: after the loops have run, on the early
  return for an empty batch (where the call changes nothing at all), and when an error is
  thrown during processing (where the \<open>catch\<close> creates one critical alert before the
  flag is cleared).
\<close>

theorem processQueue_guard_and_release:
  "(isProcessing s \<longrightarrow> processQueue js svc s = s \<and> processQueueAsync js svc during s = s)
   \<and> ((\<forall>x. isProcessing x \<longrightarrow> overlap x = x) \<longrightarrow>
        processQueueAsync js svc overlap s = processQueue js svc s)
   \<and> processQueueAsync js svc ((processQueueAsync js svc during) ^^ n) s = processQueue js svc s
   \<and> (\<not> isProcessing s \<longrightarrow>
        \<not> isProcessing (processQueue js svc s)
        \<and> (getQueueItems js Pending (batchSize s) (store s) = Inr [] \<longrightarrow> processQueue js svc s = s)
        \<and> (\<forall>e s1. processQueueTry js svc (s\<lparr>isProcessing := True\<rparr>) = (Some e, s1) \<longrightarrow>
              processQueue js svc s =
                s1\<lparr>alertService :=
                     snd (createAlert ''Deployment Queue Processing Error''
                            (''Failed to process deployment queue: '' @ message e)
                            CRITICAL ''deployment-queue'' None (alertService s1)),
                   isProcessing := False\<rparr>))"
proof (intro conjI impI allI)
  assume "isProcessing s"
  then show "processQueue js svc s = s" by (simp add: processQueue_def)
next
  assume "isProcessing s"
  then show "processQueueAsync js svc during s = s" by (rule processQueueAsync_busy)
next
  assume "\<forall>x. isProcessing x \<longrightarrow> overlap x = x"
  then show "processQueueAsync js svc overlap s = processQueue js svc s"
    by (intro processQueueAsync_guarded) simp
next
  show "processQueueAsync js svc ((processQueueAsync js svc during) ^^ n) s = processQueue js svc s"
    by (intro processQueueAsync_guarded funpow_guarded processQueueAsync_busy)
next
  assume idle: "\<not> isProcessing s"
  show "\<not> isProcessing (processQueue js svc s)"
    unfolding processQueue_idle[OF idle]
    by (cases "processQueueTry js svc (s\<lparr>isProcessing := True\<rparr>)") (auto split: option.splits)
next
  assume idle: "\<not> isProcessing s" and empty: "getQueueItems js Pending (batchSize s) (store s) = Inr []"
  have "processQueueTry js svc (s\<lparr>isProcessing := True\<rparr>) = (None, s\<lparr>isProcessing := True\<rparr>)"
    using empty by (simp add: processQueueTry_def)
  then show "processQueue js svc s = s"
    unfolding processQueue_idle[OF idle] using idle by simp
next
  fix e s1
  assume idle: "\<not> isProcessing s" and "processQueueTry js svc (s\<lparr>isProcessing := True\<rparr>) = (Some e, s1)"
  then show "processQueue js svc s =
                s1\<lparr>alertService :=
                     snd (createAlert ''Deployment Queue Processing Error''
                            (''Failed to process deployment queue: '' @ message e)
                            CRITICAL ''deployment-queue'' None (alertService s1)),
                   isProcessing := False\<rparr>"
    unfolding processQueue_idle[OF idle] by simp
qed

theorem processQueue_guard_and_release_witness:
  "processQueueAsync
     \<lparr>getQueueItems = (\<lambda>wanted limit written. Inr (if wanted = Pending then [\<lparr>itemId = ''job-1'',
      request = BinaryMarket \<lparr>title = ''Final 2026'', description = ''Who wins'', endTime = 2000,
                  oracleAddress = ''0x52908400098527886E0F7030069857D2E4169EE7'', initialLiquidity = 5\<rparr>,
      itemStatus = Pending, retryCount = 0, itemMaxRetries = 3, createdAt = 0, updatedAt = 0,
      itemError = None\<rparr>] else [])),
      updateQueueItemStatus = (\<lambda>item newStatus written. (None, written @ [StatusUpdated item newStatus])),
      saveDeploymentResult = (\<lambda>item result written. (None, written @ [ResultSaved (itemId item) result]))\<rparr>
     \<lparr>config = \<lparr>timeoutSeconds = 300, confirmationBlocks = 3, maxRetries = 3, retryDelayMs = 1000\<rparr>,
      gasManager = \<lparr>priceMultiplier = 3 / 2, limitMultiplier = 5 / 4, maxGasPriceGwei = 500, minGasPriceGwei = 1, ethPriceUSD = 2000\<rparr>,
      chainFor = (\<lambda>item. \<lparr>isAddress = (\<lambda>a. length a = 42 \<and> take 2 a = ''0x''),
               provider = \<lparr>rpcGasPrice = Inr 50,
                  rpcFeeData = Inr \<lparr>feeMaxFeePerGas = Some 30, feeMaxPriorityFeePerGas = Some 2\<rparr>,
                  rpcEstimateGas = Inr 100000, rpcTransactionReceipt = (\<lambda>h t. Inr None)\<rparr>,
               submitDeploy = Inl (Error ''nonce too low'')\<rparr>)\<rparr>
     ((processQueueAsync
         \<lparr>getQueueItems = (\<lambda>wanted limit written. Inr (if wanted = Pending then [\<lparr>itemId = ''job-1'',
      request = BinaryMarket \<lparr>title = ''Final 2026'', description = ''Who wins'', endTime = 2000,
                  oracleAddress = ''0x52908400098527886E0F7030069857D2E4169EE7'', initialLiquidity = 5\<rparr>,
      itemStatus = Pending, retryCount = 0, itemMaxRetries = 3, createdAt = 0, updatedAt = 0,
      itemError = None\<rparr>] else [])),
      updateQueueItemStatus = (\<lambda>item newStatus written. (None, written @ [StatusUpdated item newStatus])),
      saveDeploymentResult = (\<lambda>item result written. (None, written @ [ResultSaved (itemId item) result]))\<rparr>
         \<lparr>config = \<lparr>timeoutSeconds = 300, confirmationBlocks = 3, maxRetries = 3, retryDelayMs = 1000\<rparr>,
      gasManager = \<lparr>priceMultiplier = 3 / 2, limitMultiplier = 5 / 4, maxGasPriceGwei = 500, minGasPriceGwei = 1, ethPriceUSD = 2000\<rparr>,
      chainFor = (\<lambda>item. \<lparr>isAddress = (\<lambda>a. length a = 42 \<and> take 2 a = ''0x''),
               provider = \<lparr>rpcGasPrice = Inr 50,
                  rpcFeeData = Inr \<lparr>feeMaxFeePerGas = Some 30, feeMaxPriorityFeePerGas = Some 2\<rparr>,
                  rpcEstimateGas = Inr 100000, rpcTransactionReceipt = (\<lambda>h t. Inr None)\<rparr>,
               submitDeploy = Inl (Error ''nonce too low'')\<rparr>)\<rparr>
         (\<lambda>s. s)) ^^ 2)
     \<lparr>isProcessing = False, batchSize = 5, store = ([] :: StoreLog list),
      alertService = createAlertService \<lparr>email = Some True, slack = Some True, sms = None\<rparr> 1000000 (\<lambda>k. ''r'')\<rparr>
   = \<lparr>isProcessing = False, batchSize = 5, store = [StatusUpdated ''job-1'' Processing, StatusUpdated ''job-1'' Failed],
      alertService = snd (createAlert ''BinaryMarket Deployment Failed'' ''Deployment failed: nonce too low''
               WARNING ''deployment-queue'' (Some [(''queueItemId'', JString ''job-1'')])
               (createAlertService \<lparr>email = Some True, slack = Some True, sms = None\<rparr> 1000000 (\<lambda>k. ''r'')))\<rparr>
   \<and> processQueueAsync
     \<lparr>getQueueItems = (\<lambda>wanted limit written. Inr (if wanted = Pending then [\<lparr>itemId = ''job-1'',
      request = BinaryMarket \<lparr>title = ''Final 2026'', description = ''Who wins'', endTime = 2000,
                  oracleAddress = ''0x52908400098527886E0F7030069857D2E4169EE7'', initialLiquidity = 5\<rparr>,
      itemStatus = Pending, retryCount = 0, itemMaxRetries = 3, createdAt = 0, updatedAt = 0,
      itemError = None\<rparr>] else [])),
      updateQueueItemStatus = (\<lambda>item newStatus written. (None, written @ [StatusUpdated item newStatus])),
      saveDeploymentResult = (\<lambda>item result written. (None, written @ [ResultSaved (itemId item) result]))\<rparr>
     \<lparr>config = \<lparr>timeoutSeconds = 300, confirmationBlocks = 3, maxRetries = 3, retryDelayMs = 1000\<rparr>,
      gasManager = \<lparr>priceMultiplier = 3 / 2, limitMultiplier = 5 / 4, maxGasPriceGwei = 500, minGasPriceGwei = 1, ethPriceUSD = 2000\<rparr>,
      chainFor = (\<lambda>item. \<lparr>isAddress = (\<lambda>a. length a = 42 \<and> take 2 a = ''0x''),
               provider = \<lparr>rpcGasPrice = Inr 50,
                  rpcFeeData = Inr \<lparr>feeMaxFeePerGas = Some 30, feeMaxPriorityFeePerGas = Some 2\<rparr>,
                  rpcEstimateGas = Inr 100000, rpcTransactionReceipt = (\<lambda>h t. Inr None)\<rparr>,
               submitDeploy = Inl (Error ''nonce too low'')\<rparr>)\<rparr>
     (processQueueAsync
         \<lparr>getQueueItems = (\<lambda>wanted limit written. Inr (if wanted = Pending then [\<lparr>itemId = ''job-1'',
      request = BinaryMarket \<lparr>title = ''Final 2026'', description = ''Who wins'', endTime = 2000,
                  oracleAddress = ''0x52908400098527886E0F7030069857D2E4169EE7'', initialLiquidity = 5\<rparr>,
      itemStatus = Pending, retryCount = 0, itemMaxRetries = 3, createdAt = 0, updatedAt = 0,
      itemError = None\<rparr>] else [])),
      updateQueueItemStatus = (\<lambda>item newStatus written. (None, written @ [StatusUpdated item newStatus])),
      saveDeploymentResult = (\<lambda>item result written. (None, written @ [ResultSaved (itemId item) result]))\<rparr>
         \<lparr>config = \<lparr>timeoutSeconds = 300, confirmationBlocks = 3, maxRetries = 3, retryDelayMs = 1000\<rparr>,
      gasManager = \<lparr>priceMultiplier = 3 / 2, limitMultiplier = 5 / 4, maxGasPriceGwei = 500, minGasPriceGwei = 1, ethPriceUSD = 2000\<rparr>,
      chainFor = (\<lambda>item. \<lparr>isAddress = (\<lambda>a. length a = 42 \<and> take 2 a = ''0x''),
               provider = \<lparr>rpcGasPrice = Inr 50,
                  rpcFeeData = Inr \<lparr>feeMaxFeePerGas = Some 30, feeMaxPriorityFeePerGas = Some 2\<rparr>,
                  rpcEstimateGas = Inr 100000, rpcTransactionReceipt = (\<lambda>h t. Inr None)\<rparr>,
               submitDeploy = Inl (Error ''nonce too low'')\<rparr>)\<rparr>
         (\<lambda>s. s))
     \<lparr>isProcessing = False, batchSize = 5, store = ([] :: StoreLog list),
      alertService = createAlertService \<lparr>email = Some True, slack = Some True, sms = None\<rparr> 1000000 (\<lambda>k. ''r'')\<rparr>
   = \<lparr>isProcessing = False, batchSize = 5, store = [StatusUpdated ''job-1'' Processing, StatusUpdated ''job-1'' Failed],
      alertService = snd (createAlert ''BinaryMarket Deployment Failed'' ''Deployment failed: nonce too low''
               WARNING ''deployment-queue'' (Some [(''queueItemId'', JString ''job-1'')])
               (createAlertService \<lparr>email = Some True, slack = Some True, sms = None\<rparr> 1000000 (\<lambda>k. ''r'')))\<rparr>
   \<and> processQueue placeholderStore
     \<lparr>config = \<lparr>timeoutSeconds = 300, confirmationBlocks = 3, maxRetries = 3, retryDelayMs = 1000\<rparr>,
      gasManager = \<lparr>priceMultiplier = 3 / 2, limitMultiplier = 5 / 4, maxGasPriceGwei = 500, minGasPriceGwei = 1, ethPriceUSD = 2000\<rparr>,
      chainFor = (\<lambda>item. \<lparr>isAddress = (\<lambda>a. length a = 42 \<and> take 2 a = ''0x''),
               provider = \<lparr>rpcGasPrice = Inr 50,
                  rpcFeeData = Inr \<lparr>feeMaxFeePerGas = Some 30, feeMaxPriorityFeePerGas = Some 2\<rparr>,
                  rpcEstimateGas = Inr 100000, rpcTransactionReceipt = (\<lambda>h t. Inr None)\<rparr>,
               submitDeploy = Inl (Error ''nonce too low'')\<rparr>)\<rparr>
     \<lparr>isProcessing = True, batchSize = 5, store = ([] :: StoreLog list),
      alertService = createAlertService \<lparr>email = Some True, slack = Some True, sms = None\<rparr> 1000000 (\<lambda>k. ''r'')\<rparr>
   = \<lparr>isProcessing = True, batchSize = 5, store = ([] :: StoreLog list),
      alertService = createAlertService \<lparr>email = Some True, slack = Some True, sms = None\<rparr> 1000000 (\<lambda>k. ''r'')\<rparr>
   \<and> processQueue placeholderStore
     \<lparr>config = \<lparr>timeoutSeconds = 300, confirmationBlocks = 3, maxRetries = 3, retryDelayMs = 1000\<rparr>,
      gasManager = \<lparr>priceMultiplier = 3 / 2, limitMultiplier = 5 / 4, maxGasPriceGwei = 500, minGasPriceGwei = 1, ethPriceUSD = 2000\<rparr>,
      chainFor = (\<lambda>item. \<lparr>isAddress = (\<lambda>a. length a = 42 \<and> take 2 a = ''0x''),
               provider = \<lparr>rpcGasPrice = Inr 50,
                  rpcFeeData = Inr \<lparr>feeMaxFeePerGas = Some 30, feeMaxPriorityFeePerGas = Some 2\<rparr>,
                  rpcEstimateGas = Inr 100000, rpcTransactionReceipt = (\<lambda>h t. Inr None)\<rparr>,
               submitDeploy = Inl (Error ''nonce too low'')\<rparr>)\<rparr>
     \<lparr>isProcessing = False, batchSize = 5, store = ([] :: StoreLog list),
      alertService = createAlertService \<lparr>email = Some True, slack = Some True, sms = None\<rparr> 1000000 (\<lambda>k. ''r'')\<rparr>
   = \<lparr>isProcessing = False, batchSize = 5, store = ([] :: StoreLog list),
      alertService = createAlertService \<lparr>email = Some True, slack = Some True, sms = None\<rparr> 1000000 (\<lambda>k. ''r'')\<rparr>
   \<and> processQueue
     \<lparr>getQueueItems = (\<lambda>wanted limit written. Inl (Error ''database unreachable'')),
      updateQueueItemStatus = (\<lambda>item newStatus written. (None, written)),
      saveDeploymentResult = (\<lambda>item result written. (None, written))\<rparr>
     \<lparr>config = \<lparr>timeoutSeconds = 300, confirmationBlocks = 3, maxRetries = 3, retryDelayMs = 1000\<rparr>,
      gasManager = \<lparr>priceMultiplier = 3 / 2, limitMultiplier = 5 / 4, maxGasPriceGwei = 500, minGasPriceGwei = 1, ethPriceUSD = 2000\<rparr>,
      chainFor = (\<lambda>item. \<lparr>isAddress = (\<lambda>a. length a = 42 \<and> take 2 a = ''0x''),
               provider = \<lparr>rpcGasPrice = Inr 50,
                  rpcFeeData = Inr \<lparr>feeMaxFeePerGas = Some 30, feeMaxPriorityFeePerGas = Some 2\<rparr>,
                  rpcEstimateGas = Inr 100000, rpcTransactionReceipt = (\<lambda>h t. Inr None)\<rparr>,
               submitDeploy = Inl (Error ''nonce too low'')\<rparr>)\<rparr>
     \<lparr>isProcessing = False, batchSize = 5, store = ([] :: StoreLog list),
      alertService = createAlertService \<lparr>email = Some True, slack = Some True, sms = None\<rparr> 1000000 (\<lambda>k. ''r'')\<rparr>
   = \<lparr>isProcessing = False, batchSize = 5, store = ([] :: StoreLog list),
      alertService = snd (createAlert ''Deployment Queue Processing Error'' ''Failed to process deployment queue: database unreachable''
               CRITICAL ''deployment-queue'' None
               (createAlertService \<lparr>email = Some True, slack = Some True, sms = None\<rparr> 1000000 (\<lambda>k. ''r'')))\<rparr>"
proof -
  define item where "item = \<lparr>itemId = ''job-1'',
      request = BinaryMarket \<lparr>title = ''Final 2026'', description = ''Who wins'', endTime = 2000,
                  oracleAddress = ''0x52908400098527886E0F7030069857D2E4169EE7'', initialLiquidity = 5\<rparr>,
      itemStatus = Pending, retryCount = 0, itemMaxRetries = 3, createdAt = 0, updatedAt = 0,
      itemError = None\<rparr>"
  define svc where "svc = \<lparr>config = \<lparr>timeoutSeconds = 300, confirmationBlocks = 3, maxRetries = 3, retryDelayMs = 1000\<rparr>,
      gasManager = \<lparr>priceMultiplier = 3 / 2, limitMultiplier = 5 / 4, maxGasPriceGwei = 500, minGasPriceGwei = 1, ethPriceUSD = 2000\<rparr>,
      chainFor = (\<lambda>item. \<lparr>isAddress = (\<lambda>a. length a = 42 \<and> take 2 a = ''0x''),
               provider = \<lparr>rpcGasPrice = Inr 50,
                  rpcFeeData = Inr \<lparr>feeMaxFeePerGas = Some 30, feeMaxPriorityFeePerGas = Some 2\<rparr>,
                  rpcEstimateGas = Inr 100000, rpcTransactionReceipt = (\<lambda>h t. Inr None)\<rparr>,
               submitDeploy = Inl (Error ''nonce too low'')\<rparr>)\<rparr>"
  define busy where "busy = \<lparr>isProcessing = True, batchSize = 5, store = ([] :: StoreLog list),
      alertService = createAlertService \<lparr>email = Some True, slack = Some True, sms = None\<rparr> 1000000 (\<lambda>k. ''r'')\<rparr>"
  define idle where "idle = \<lparr>isProcessing = False, batchSize = 5, store = ([] :: StoreLog list),
      alertService = createAlertService \<lparr>email = Some True, slack = Some True, sms = None\<rparr> 1000000 (\<lambda>k. ''r'')\<rparr>"
  define queued :: "StoreLog list JobStore" where "queued = \<lparr>getQueueItems = (\<lambda>wanted limit written. Inr (if wanted = Pending then [item] else [])),
      updateQueueItemStatus = (\<lambda>item newStatus written. (None, written @ [StatusUpdated item newStatus])),
      saveDeploymentResult = (\<lambda>item result written. (None, written @ [ResultSaved (itemId item) result]))\<rparr>"
  define down :: "StoreLog list JobStore" where "down = \<lparr>getQueueItems = (\<lambda>wanted limit written. Inl (Error ''database unreachable'')),
      updateQueueItemStatus = (\<lambda>item newStatus written. (None, written)),
      saveDeploymentResult = (\<lambda>item result written. (None, written))\<rparr>"
  define started where "started = idle\<lparr>isProcessing := True\<rparr>"
  have b: "isProcessing busy" by (simp add: busy_def)
  have i: "\<not> isProcessing idle" by (simp add: idle_def)
  have e: "getQueueItems placeholderStore Pending (batchSize idle) (store idle) = Inr []"
    by (simp add: placeholderStore_def)
  have u1: "updateQueueItemStatus queued (itemId item) Processing (store started) = (None, [StatusUpdated ''job-1'' Processing])"
    by (simp add: queued_def item_def started_def idle_def)
  have u2: "updateQueueItemStatus queued (itemId item) Failed [StatusUpdated ''job-1'' Processing]
      = (None, [StatusUpdated ''job-1'' Processing, StatusUpdated ''job-1'' Failed])"
    by (simp add: queued_def item_def)
  have v: "validateBinaryMarketParams (\<lambda>a. length a = 42 \<and> take 2 a = ''0x'') 1000000
           \<lparr>title = ''Final 2026'', description = ''Who wins'', endTime = 2000,
                  oracleAddress = ''0x52908400098527886E0F7030069857D2E4169EE7'', initialLiquidity = 5\<rparr>
          = None"
    by (simp add: validateBinaryMarketParams_def trim_def isWhiteSpace_def)
  have d: "deployItem svc item (clock (alertService started)) = (Inl (Error ''nonce too low''), clock (alertService started))"
    by (simp add: deployItem_def deployBinaryMarketContract_def deployAfterValidation_def item_def svc_def
          started_def idle_def createAlertService_def v gasExample)
  have q: "getQueueItems queued Pending (batchSize started) (store started) = Inr [item]"
    and f: "\<And>limit written. getQueueItems queued Failed limit written = Inr []"
    by (simp_all add: queued_def)
  have t: "processQueueTry queued svc started =
      (None, started\<lparr>store := [StatusUpdated ''job-1'' Processing, StatusUpdated ''job-1'' Failed],
        alertService :=
          snd (createAlert (typeName item @ '' Deployment Failed'') (''Deployment failed: '' @ message (Error ''nonce too low''))
                 WARNING ''deployment-queue'' (Some [(''queueItemId'', JString (itemId item))])
                 ((alertService started)\<lparr>clock := clock (alertService started)\<rparr>))\<rparr>)"
    by (simp add: processQueueTry_def q f processQueueItem_deploy_fails[OF u1 d u2])
  have batch: "processQueue queued svc idle =
      \<lparr>isProcessing = False, batchSize = 5, store = [StatusUpdated ''job-1'' Processing, StatusUpdated ''job-1'' Failed],
      alertService = snd (createAlert ''BinaryMarket Deployment Failed'' ''Deployment failed: nonce too low''
               WARNING ''deployment-queue'' (Some [(''queueItemId'', JString ''job-1'')])
               (createAlertService \<lparr>email = Some True, slack = Some True, sms = None\<rparr> 1000000 (\<lambda>k. ''r'')))\<rparr>"
    using i t unfolding processQueue_def started_def
    by (simp add: idle_def item_def typeName_def createAlertService_def)
  have fails: "processQueueTry down svc (idle\<lparr>isProcessing := True\<rparr>)
      = (Some (Error ''database unreachable''), idle\<lparr>isProcessing := True\<rparr>)"
    by (simp add: processQueueTry_def down_def)
  have 0: "processQueueAsync queued svc ((processQueueAsync queued svc (\<lambda>s. s)) ^^ 2) idle
      = processQueue queued svc idle"
    using processQueue_guard_and_release[of idle queued svc "\<lambda>s. s" "\<lambda>s. s" 2] by blast
  have g: "\<forall>x. isProcessing x \<longrightarrow> processQueueAsync queued svc (\<lambda>s. s) x = x"
  proof (intro allI impI)
    fix x :: "StoreLog list Processor"
    assume "isProcessing x"
    then show "processQueueAsync queued svc (\<lambda>s. s) x = x"
      using processQueue_guard_and_release[of x queued svc "\<lambda>s. s"] by blast
  qed
  have 5: "processQueueAsync queued svc (processQueueAsync queued svc (\<lambda>s. s)) idle
      = processQueue queued svc idle"
    using processQueue_guard_and_release[of idle queued svc "\<lambda>s. s" "processQueueAsync queued svc (\<lambda>s. s)"] g
    by blast
  have 1: "processQueue placeholderStore svc busy = busy"
    using processQueue_guard_and_release[of busy placeholderStore svc] b by blast
  have 2: "processQueue placeholderStore svc idle = idle"
    using processQueue_guard_and_release[of idle placeholderStore svc] i e by blast
  have 3: "processQueue down svc idle =
      idle\<lparr>alertService :=
             snd (createAlert ''Deployment Queue Processing Error''
                    (''Failed to process deployment queue: '' @ message (Error ''database unreachable''))
                    CRITICAL ''deployment-queue'' None (alertService (idle\<lparr>isProcessing := True\<rparr>))),
           isProcessing := False\<rparr>"
    using processQueue_guard_and_release[of idle down svc] i fails by auto
  have 4: "processQueue down svc idle = \<lparr>isProcessing = False, batchSize = 5, store = ([] :: StoreLog list),
      alertService = snd (createAlert ''Deployment Queue Processing Error'' ''Failed to process deployment queue: database unreachable''
               CRITICAL ''deployment-queue'' None
               (createAlertService \<lparr>email = Some True, slack = Some True, sms = None\<rparr> 1000000 (\<lambda>k. ''r'')))\<rparr>"
    unfolding 3 by (simp add: idle_def)
  from 0 5 batch 1 2 4 show ?thesis unfolding svc_def busy_def idle_def down_def queued_def item_def by simp
qed

section \<open>MarketResolutionService: the retry budget\<close>

lemma updateWhere_hit: "table k = Some row \<Longrightarrow> updateWhere table k f k = Some (f row)"
  by (simp add: updateWhere_def)

lemma processDeploymentItem_throws:
  "contractDeployQueue db (rowId item) = Some row \<Longrightarrow>
   processDeploymentItem deployContract item db = (Some e, db1) \<Longrightarrow>
   contractDeployQueue db1 (rowId item) = Some (row\<lparr>deploymentStatus := DEPLOYING\<rparr>)"
  by (auto simp: processDeploymentItem_def Let_def updateWhere_def split: option.splits sum.splits)

text \<open>
  Claim C1 (amended). In \<open>MarketResolutionService\<close>, a job whose processing attempt
  fails is \<open>DEPLOYING\<close> when the failure is handled, and ends the attempt as
  \<open>DEPLOYED\<close>, \<open>PENDING\<close> or \<open>FAILED\<close>. After a failed attempt with retry count
  \<open>k\<close> and \<open>k + 1 < maxRetries\<close> the job is \<open>PENDING\<close> again with its retry count
  set to \<open>k + 1\<close>, and the owner is not notified. A failure with
  \<open>k + 1 \<ge> maxRetries\<close>, in particular the first failure once \<open>k\<close> has reached
  \<open>maxRetries\<close>, finalizes the job as \<open>FAILED\<close>, leaves the stored retry count as
  it was, and sends exactly one notification, \<open>Deployment Failed\<close>, to the owner.
\<close>

theorem handleDeploymentFailure_retry_budget:
  assumes "contractDeployQueue db (rowId item) = Some row"
  shows "(rowRetryCount item + 1 < rowMaxRetries item \<longrightarrow>
            contractDeployQueue (handleDeploymentFailure item err db) (rowId item) =
              Some (row\<lparr>deploymentStatus := PENDING, rowRetryCount := rowRetryCount item + 1,
                        lastError := Some (message err)\<rparr>)
          \<and> ownerNotifications (handleDeploymentFailure item err db) = ownerNotifications db)
       \<and> (rowMaxRetries item \<le> rowRetryCount item + 1 \<longrightarrow>
            contractDeployQueue (handleDeploymentFailure item err db) (rowId item) =
              Some (row\<lparr>deploymentStatus := FAILED, lastError := Some (message err)\<rparr>)
          \<and> ownerNotifications (handleDeploymentFailure item err db) =
              ownerNotifications db @
                [(''Deployment Failed'',
                  ''Deployment for market '' @ numberToString (marketId item) @ '' failed after ''
                    @ numberToString (rowRetryCount item + 1) @ '' retries: '' @ message err)])
       \<and> (\<exists>row'. contractDeployQueue (processPendingRow deployContract item db) (rowId item) = Some row'
              \<and> (deploymentStatus row' = DEPLOYED \<or> deploymentStatus row' = PENDING
                   \<or> deploymentStatus row' = FAILED))"
proof (intro conjI impI)
  assume "rowRetryCount item + 1 < rowMaxRetries item"
  then show "contractDeployQueue (handleDeploymentFailure item err db) (rowId item) =
              Some (row\<lparr>deploymentStatus := PENDING, rowRetryCount := rowRetryCount item + 1,
                        lastError := Some (message err)\<rparr>)"
    and "ownerNotifications (handleDeploymentFailure item err db) = ownerNotifications db"
    using assms by (simp_all add: handleDeploymentFailure_def Let_def updateWhere_hit)
next
  assume "rowMaxRetries item \<le> rowRetryCount item + 1"
  then show "contractDeployQueue (handleDeploymentFailure item err db) (rowId item) =
              Some (row\<lparr>deploymentStatus := FAILED, lastError := Some (message err)\<rparr>)"
    and "ownerNotifications (handleDeploymentFailure item err db) =
              ownerNotifications db @
                [(''Deployment Failed'',
                  ''Deployment for market '' @ numberToString (marketId item) @ '' failed after ''
                    @ numberToString (rowRetryCount item + 1) @ '' retries: '' @ message err)]"
    using assms by (simp_all add: handleDeploymentFailure_def Let_def updateWhere_hit logAudit_def)
next
  show "\<exists>row'. contractDeployQueue (processPendingRow deployContract item db) (rowId item) = Some row'
              \<and> (deploymentStatus row' = DEPLOYED \<or> deploymentStatus row' = PENDING
                   \<or> deploymentStatus row' = FAILED)"
  proof (cases "processDeploymentItem deployContract item db")
    case (Pair thrown db1)
    show ?thesis
    proof (cases thrown)
      case None
      with Pair assms show ?thesis
        by (auto simp: processPendingRow_def processDeploymentItem_def Let_def updateWhere_def logAudit_def
                 split: option.splits sum.splits)
    next
      case (Some e)
      from processDeploymentItem_throws[OF assms Pair[unfolded Some]]
      have r: "contractDeployQueue db1 (rowId item) = Some (row\<lparr>deploymentStatus := DEPLOYING\<rparr>)" .
      show ?thesis
        using Pair Some r
        by (auto simp: processPendingRow_def handleDeploymentFailure_def Let_def updateWhere_def logAudit_def)
    qed
  qed
qed

lemma numberToString_examples: "numberToString 42 = ''42''" "numberToString 3 = ''3''"
  by code_simp+

theorem handleDeploymentFailure_retry_budget_witness:
  "contractDeployQueue
     (handleDeploymentFailure
       \<lparr>rowId = 7, marketId = 42, contractType = ''BinaryMarket'', deploymentStatus = PENDING,
        rowRetryCount = 0, rowMaxRetries = 3, lastError = None, deployedAddress = None,
        deploymentTx = None, rowGasUsed = None, rowGasPrice = None\<rparr>
       (Error ''rpc down'')
       \<lparr>contractDeployQueue = [7 \<mapsto> \<lparr>rowId = 7, marketId = 42, contractType = ''BinaryMarket'', deploymentStatus = DEPLOYING,
        rowRetryCount = 0, rowMaxRetries = 3, lastError = None, deployedAddress = None,
        deploymentTx = None, rowGasUsed = None, rowGasPrice = None\<rparr>],
        markets = [42 \<mapsto> \<lparr>marketContractAddress = None, marketDeploymentStatus = PENDING, lastDeploymentError = None\<rparr>],
        ownerNotifications = [], auditLogs = []\<rparr>) 7
   = Some \<lparr>rowId = 7, marketId = 42, contractType = ''BinaryMarket'', deploymentStatus = PENDING,
        rowRetryCount = 1, rowMaxRetries = 3, lastError = Some ''rpc down'', deployedAddress = None,
        deploymentTx = None, rowGasUsed = None, rowGasPrice = None\<rparr>
   \<and> ownerNotifications
     (handleDeploymentFailure
       \<lparr>rowId = 7, marketId = 42, contractType = ''BinaryMarket'', deploymentStatus = PENDING,
        rowRetryCount = 0, rowMaxRetries = 3, lastError = None, deployedAddress = None,
        deploymentTx = None, rowGasUsed = None, rowGasPrice = None\<rparr>
       (Error ''rpc down'')
       \<lparr>contractDeployQueue = [7 \<mapsto> \<lparr>rowId = 7, marketId = 42, contractType = ''BinaryMarket'', deploymentStatus = DEPLOYING,
        rowRetryCount = 0, rowMaxRetries = 3, lastError = None, deployedAddress = None,
        deploymentTx = None, rowGasUsed = None, rowGasPrice = None\<rparr>],
        markets = [42 \<mapsto> \<lparr>marketContractAddress = None, marketDeploymentStatus = PENDING, lastDeploymentError = None\<rparr>],
        ownerNotifications = [], auditLogs = []\<rparr>) = []
   \<and> contractDeployQueue
     (handleDeploymentFailure
       \<lparr>rowId = 7, marketId = 42, contractType = ''BinaryMarket'', deploymentStatus = PENDING,
        rowRetryCount = 3, rowMaxRetries = 3, lastError = None, deployedAddress = None,
        deploymentTx = None, rowGasUsed = None, rowGasPrice = None\<rparr>
       (Error ''rpc down'')
       \<lparr>contractDeployQueue = [7 \<mapsto> \<lparr>rowId = 7, marketId = 42, contractType = ''BinaryMarket'', deploymentStatus = DEPLOYING,
        rowRetryCount = 3, rowMaxRetries = 3, lastError = None, deployedAddress = None,
        deploymentTx = None, rowGasUsed = None, rowGasPrice = None\<rparr>],
        markets = [42 \<mapsto> \<lparr>marketContractAddress = None, marketDeploymentStatus = PENDING, lastDeploymentError = None\<rparr>],
        ownerNotifications = [], auditLogs = []\<rparr>) 7
   = Some \<lparr>rowId = 7, marketId = 42, contractType = ''BinaryMarket'', deploymentStatus = FAILED,
        rowRetryCount = 3, rowMaxRetries = 3, lastError = Some ''rpc down'', deployedAddress = None,
        deploymentTx = None, rowGasUsed = None, rowGasPrice = None\<rparr>
   \<and> ownerNotifications
     (handleDeploymentFailure
       \<lparr>rowId = 7, marketId = 42, contractType = ''BinaryMarket'', deploymentStatus = PENDING,
        rowRetryCount = 3, rowMaxRetries = 3, lastError = None, deployedAddress = None,
        deploymentTx = None, rowGasUsed = None, rowGasPrice = None\<rparr>
       (Error ''rpc down'')
       \<lparr>contractDeployQueue = [7 \<mapsto> \<lparr>rowId = 7, marketId = 42, contractType = ''BinaryMarket'', deploymentStatus = DEPLOYING,
        rowRetryCount = 3, rowMaxRetries = 3, lastError = None, deployedAddress = None,
        deploymentTx = None, rowGasUsed = None, rowGasPrice = None\<rparr>],
        markets = [42 \<mapsto> \<lparr>marketContractAddress = None, marketDeploymentStatus = PENDING, lastDeploymentError = None\<rparr>],
        ownerNotifications = [], auditLogs = []\<rparr>) = [(''Deployment Failed'', ''Deployment for market 42 failed after 4 retries: rpc down'')]"
proof -
  have q0: "contractDeployQueue \<lparr>contractDeployQueue = [7 \<mapsto> \<lparr>rowId = 7, marketId = 42, contractType = ''BinaryMarket'', deploymentStatus = DEPLOYING,
        rowRetryCount = 0, rowMaxRetries = 3, lastError = None, deployedAddress = None,
        deploymentTx = None, rowGasUsed = None, rowGasPrice = None\<rparr>],
        markets = [42 \<mapsto> \<lparr>marketContractAddress = None, marketDeploymentStatus = PENDING, lastDeploymentError = None\<rparr>],
        ownerNotifications = [], auditLogs = []\<rparr> (rowId \<lparr>rowId = 7, marketId = 42, contractType = ''BinaryMarket'', deploymentStatus = PENDING,
        rowRetryCount = 0, rowMaxRetries = 3, lastError = None, deployedAddress = None,
        deploymentTx = None, rowGasUsed = None, rowGasPrice = None\<rparr>) = Some \<lparr>rowId = 7, marketId = 42, contractType = ''BinaryMarket'', deploymentStatus = DEPLOYING,
        rowRetryCount = 0, rowMaxRetries = 3, lastError = None, deployedAddress = None,
        deploymentTx = None, rowGasUsed = None, rowGasPrice = None\<rparr>" by simp
  have q3: "contractDeployQueue \<lparr>contractDeployQueue = [7 \<mapsto> \<lparr>rowId = 7, marketId = 42, contractType = ''BinaryMarket'', deploymentStatus = DEPLOYING,
        rowRetryCount = 3, rowMaxRetries = 3, lastError = None, deployedAddress = None,
        deploymentTx = None, rowGasUsed = None, rowGasPrice = None\<rparr>],
        markets = [42 \<mapsto> \<lparr>marketContractAddress = None, marketDeploymentStatus = PENDING, lastDeploymentError = None\<rparr>],
        ownerNotifications = [], auditLogs = []\<rparr> (rowId \<lparr>rowId = 7, marketId = 42, contractType = ''BinaryMarket'', deploymentStatus = PENDING,
        rowRetryCount = 3, rowMaxRetries = 3, lastError = None, deployedAddress = None,
        deploymentTx = None, rowGasUsed = None, rowGasPrice = None\<rparr>) = Some \<lparr>rowId = 7, marketId = 42, contractType = ''BinaryMarket'', deploymentStatus = DEPLOYING,
        rowRetryCount = 3, rowMaxRetries = 3, lastError = None, deployedAddress = None,
        deploymentTx = None, rowGasUsed = None, rowGasPrice = None\<rparr>" by simp
  have n4: "numberToString 4 = ''4''" by code_simp
  from handleDeploymentFailure_retry_budget[OF q0, of "Error ''rpc down''"]
       handleDeploymentFailure_retry_budget[OF q3, of "Error ''rpc down''"]
  show ?thesis by (simp add: numberToString_examples n4)
qed

text \<open>
  A failure at a retry count below \<open>maxRetries\<close> can finalize the job: with
  \<open>retryCount = 2\<close> and \<open>maxRetries = 3\<close> the job is \<open>FAILED\<close>, not \<open>PENDING\<close>.
\<close>

theorem handleDeploymentFailure_last_retry_counterexample:
  "rowRetryCount \<lparr>rowId = 7, marketId = 42, contractType = ''BinaryMarket'', deploymentStatus = PENDING,
        rowRetryCount = 2, rowMaxRetries = 3, lastError = None, deployedAddress = None,
        deploymentTx = None, rowGasUsed = None, rowGasPrice = None\<rparr> < rowMaxRetries \<lparr>rowId = 7, marketId = 42, contractType = ''BinaryMarket'', deploymentStatus = PENDING,
        rowRetryCount = 2, rowMaxRetries = 3, lastError = None, deployedAddress = None,
        deploymentTx = None, rowGasUsed = None, rowGasPrice = None\<rparr>
   \<and> contractDeployQueue
     (handleDeploymentFailure
       \<lparr>rowId = 7, marketId = 42, contractType = ''BinaryMarket'', deploymentStatus = PENDING,
        rowRetryCount = 2, rowMaxRetries = 3, lastError = None, deployedAddress = None,
        deploymentTx = None, rowGasUsed = None, rowGasPrice = None\<rparr>
       (Error ''rpc down'')
       \<lparr>contractDeployQueue = [7 \<mapsto> \<lparr>rowId = 7, marketId = 42, contractType = ''BinaryMarket'', deploymentStatus = DEPLOYING,
        rowRetryCount = 2, rowMaxRetries = 3, lastError = None, deployedAddress = None,
        deploymentTx = None, rowGasUsed = None, rowGasPrice = None\<rparr>],
        markets = [42 \<mapsto> \<lparr>marketContractAddress = None, marketDeploymentStatus = PENDING, lastDeploymentError = None\<rparr>],
        ownerNotifications = [], auditLogs = []\<rparr>) 7
   = Some \<lparr>rowId = 7, marketId = 42, contractType = ''BinaryMarket'', deploymentStatus = FAILED,
        rowRetryCount = 2, rowMaxRetries = 3, lastError = Some ''rpc down'', deployedAddress = None,
        deploymentTx = None, rowGasUsed = None, rowGasPrice = None\<rparr>
   \<and> ownerNotifications
     (handleDeploymentFailure
       \<lparr>rowId = 7, marketId = 42, contractType = ''BinaryMarket'', deploymentStatus = PENDING,
        rowRetryCount = 2, rowMaxRetries = 3, lastError = None, deployedAddress = None,
        deploymentTx = None, rowGasUsed = None, rowGasPrice = None\<rparr>
       (Error ''rpc down'')
       \<lparr>contractDeployQueue = [7 \<mapsto> \<lparr>rowId = 7, marketId = 42, contractType = ''BinaryMarket'', deploymentStatus = DEPLOYING,
        rowRetryCount = 2, rowMaxRetries = 3, lastError = None, deployedAddress = None,
        deploymentTx = None, rowGasUsed = None, rowGasPrice = None\<rparr>],
        markets = [42 \<mapsto> \<lparr>marketContractAddress = None, marketDeploymentStatus = PENDING, lastDeploymentError = None\<rparr>],
        ownerNotifications = [], auditLogs = []\<rparr>) = [(''Deployment Failed'', ''Deployment for market 42 failed after 3 retries: rpc down'')]"
  by (simp add: handleDeploymentFailure_def Let_def updateWhere_def logAudit_def numberToString_examples)

end
